(* ===== verification/Holdem_Prelude.thy ===== *)
theory Holdem_Prelude
  imports Main "HOL-Library.State_Monad" "HOL-Library.Numeral_Type"
begin

text \<open>
  Shared vocabulary of the development: the fact collections the component theories
  fill and unfold, the fixed-size arrays of the Rust source (\<^verbatim>\<open>[T; 2]\<close>,
  \<^verbatim>\<open>[T; 3]\<close>, \<^verbatim>\<open>[T; 5]\<close>), the \<^verbatim>\<open>Result\<close> type with its
  \<^verbatim>\<open>?\<close> operator, and the few facts about commutative rings, literal ranges and
  the state monad that every component proof uses.
\<close>

section \<open>Fact collections\<close>

named_theorems plonk_defs
  "operations of the constraint-system interface, unfolded when a builder run is evaluated"
named_theorems gate_defs
  "the gate closures of the chip, unfolded when the registered polynomials are computed"
named_theorems region_defs
  "operations of the region interface, unfolded when an assignment run is evaluated"
named_theorems holdem_defs
  "the chip's and the circuit's own operations"

section \<open>Fixed-size arrays\<close>

text \<open>
  A Rust array \<^verbatim>\<open>[T; n]\<close> has exactly \<open>n\<close> elements, so each size the source
  uses is a datatype with that many fields. \<open>list_of5\<close> is \<^verbatim>\<open>iter()\<close>,
  \<open>index5 a i\<close> is \<^verbatim>\<open>a[i]\<close> for \<open>i < 5\<close> (Rust panics beyond; the source
  indexes under literal ranges only, and \<open>index5_in_range\<close> is what the callers owe).
\<close>

datatype 'a array2 = Array2 'a 'a

datatype 'a array3 = Array3 'a 'a 'a

datatype 'a array5 = Array5 'a 'a 'a 'a 'a

fun list_of2 :: "'a array2 \<Rightarrow> 'a list" where
  "list_of2 (Array2 a b) = [a, b]"

fun list_of3 :: "'a array3 \<Rightarrow> 'a list" where
  "list_of3 (Array3 a b c) = [a, b, c]"

fun list_of5 :: "'a array5 \<Rightarrow> 'a list" where
  "list_of5 (Array5 a b c d e) = [a, b, c, d, e]"

definition index5 :: "'a array5 \<Rightarrow> nat \<Rightarrow> 'a" where
  "index5 a i = list_of5 a ! i"

text \<open>
  \<^verbatim>\<open>Vec::try_into\<close> towards \<^verbatim>\<open>[T; 5]\<close>: succeeds on exactly five elements.
\<close>

fun try_into5 :: "'a list \<Rightarrow> 'a array5 option" where
  "try_into5 [a, b, c, d, e] = Some (Array5 a b c d e)"
| "try_into5 _ = None"

section \<open>Results\<close>

text \<open>
  \<^verbatim>\<open>Result<T, E>\<close> is \<open>'e + 'a\<close> with \<open>Inl\<close> the error. \<open>and_then r f\<close> is
  \<^verbatim>\<open>let x = r?; f(x)\<close>: the first error ends the computation.
\<close>

type_synonym ('e, 'a) result = "'e + 'a"

definition and_then :: "('e, 'a) result \<Rightarrow> ('a \<Rightarrow> ('e, 'b) result) \<Rightarrow> ('e, 'b) result" where
  "and_then r f = (case r of Inl e \<Rightarrow> Inl e | Inr x \<Rightarrow> f x)"

definition is_ok :: "('e, 'a) result \<Rightarrow> bool" where
  "is_ok r = (case r of Inl _ \<Rightarrow> False | Inr _ \<Rightarrow> True)"

text \<open>\<^verbatim>\<open>Result::map\<close>: a function applied to the value of a success.\<close>

definition map_ok :: "('a \<Rightarrow> 'b) \<Rightarrow> ('e, 'a) result \<Rightarrow> ('e, 'b) result" where
  "map_ok f r = (case r of Inl e \<Rightarrow> Inl e | Inr x \<Rightarrow> Inr (f x))"

section \<open>Frames of stateful computations\<close>

text \<open>
  \<open>preserves f m\<close>: running \<open>m\<close> from any state leaves the observation \<open>f\<close> of
  the state as it was. The builders are sequences of calls on a handle; which part of
  the handle a call leaves alone is proved once per call and combined by the rules below.
\<close>

definition preserves :: "('s \<Rightarrow> 'b) \<Rightarrow> ('s, 'a) state \<Rightarrow> bool" where
  "preserves f m \<longleftrightarrow> (\<forall>s. f (snd (run_state m s)) = f s)"

section \<open>Sequences of writes to a map\<close>

text \<open>
  \<open>write_cells kvs m\<close> stores the pairs of \<open>kvs\<close> in \<open>m\<close> from left to right,
  one update per pair, the way a loop of writes does. On distinct keys the order does not
  matter and the result is \<open>m ++ map_of kvs\<close>.
\<close>

fun write_cells :: "('k \<times> 'v) list \<Rightarrow> ('k \<rightharpoonup> 'v) \<Rightarrow> ('k \<rightharpoonup> 'v)" where
  "write_cells [] m = m"
| "write_cells ((k, v) # kvs) m = write_cells kvs (m(k \<mapsto> v))"

section \<open>Lemmas on arrays\<close>

lemma length_list_of2 [simp]: "length (list_of2 a) = 2"
  by (cases a) simp

lemma length_list_of3 [simp]: "length (list_of3 a) = 3"
  by (cases a) simp

lemma length_list_of5 [simp]: "length (list_of5 a) = 5"
  by (cases a) simp

lemma index5_simps [simp]:
  "index5 (Array5 a b c d e) 0 = a"
  "index5 (Array5 a b c d e) (Suc 0) = b"
  "index5 (Array5 a b c d e) 2 = c"
  "index5 (Array5 a b c d e) 3 = d"
  "index5 (Array5 a b c d e) 4 = e"
  "index5 (Array5 a b c d e) (Suc (Suc 0)) = c"
  "index5 (Array5 a b c d e) (Suc (Suc (Suc 0))) = d"
  "index5 (Array5 a b c d e) (Suc (Suc (Suc (Suc 0)))) = e"
  by (simp_all add: index5_def numeral_eq_Suc)

lemma index5_in_range: "i < 5 \<Longrightarrow> index5 a i \<in> set (list_of5 a)"
  by (simp add: index5_def)

lemma list_of5_index5: "list_of5 a = map (index5 a) [0..<5]"
  by (cases a) (simp add: index5_def upt_conv_Cons)

lemma nth_list_of5: "i < 5 \<Longrightarrow> list_of5 a ! i = index5 a i"
  by (simp add: list_of5_index5 del: upt_Suc)

lemma try_into5_list_of5 [simp]: "try_into5 (list_of5 a) = Some a"
  by (cases a) simp

lemma try_into5_chain [simp]:
  "try_into5 (list_of2 (Array2 a b) @ list_of3 (Array3 c d e)) = Some (Array5 a b c d e)"
  by simp

lemma try_into5_Some_iff: "try_into5 xs = Some a \<longleftrightarrow> xs = list_of5 a"
  by (cases a, induction xs rule: try_into5.induct) auto

lemma try_into5_length: "length xs = 5 \<Longrightarrow> \<exists>a. try_into5 xs = Some a"
  by (induction xs rule: try_into5.induct) auto

lemma list_of5_map_array5 [simp]: "list_of5 (map_array5 f a) = map f (list_of5 a)"
  by (cases a) simp

lemma index5_map_array5: "i < 5 \<Longrightarrow> index5 (map_array5 f a) i = f (index5 a i)"
  by (simp add: index5_def)

section \<open>Lemmas on results\<close>

lemma and_then_simps [simp]:
  "and_then (Inl e) f = Inl e"
  "and_then (Inr x) f = f x"
  by (simp_all add: and_then_def)

lemma and_then_Inr_right [simp]: "and_then r Inr = r"
  by (cases r) simp_all

lemma map_ok_simps [simp]:
  "map_ok f (Inl e) = Inl e"
  "map_ok f (Inr x) = Inr (f x)"
  by (simp_all add: map_ok_def)

lemma and_then_Inr_iff: "and_then r f = Inr y \<longleftrightarrow> (\<exists>x. r = Inr x \<and> f x = Inr y)"
  by (cases r) simp_all

lemma and_then_Inl_iff:
  "and_then r f = Inl e \<longleftrightarrow> r = Inl e \<or> (\<exists>x. r = Inr x \<and> f x = Inl e)"
  by (cases r) simp_all

lemma and_then_assoc: "and_then (and_then r f) g = and_then r (\<lambda>x. and_then (f x) g)"
  by (cases r) simp_all

lemma is_ok_simps [simp]: "is_ok (Inr x)" "\<not> is_ok (Inl e)"
  by (simp_all add: is_ok_def)

lemma is_ok_iff: "is_ok r \<longleftrightarrow> (\<exists>x. r = Inr x)"
  by (cases r) simp_all

section \<open>Lemmas on maps\<close>

lemma write_cells_append [simp]:
  "write_cells (kvs @ kvs') m = write_cells kvs' (write_cells kvs m)"
  by (induction kvs arbitrary: m) auto

lemma dom_write_cells: "dom (write_cells kvs m) = dom m \<union> fst ` set kvs"
proof (induction kvs arbitrary: m)
  case Nil
  then show ?case by simp
next
  case (Cons kv kvs)
  obtain k v where "kv = (k, v)" by (cases kv)
  then show ?case by (auto simp: Cons.IH split: if_splits)
qed

lemma write_cells_eq_None_iff:
  "write_cells kvs m k = None \<longleftrightarrow> m k = None \<and> k \<notin> fst ` set kvs"
proof -
  have "k \<notin> dom (write_cells kvs m) \<longleftrightarrow> k \<notin> dom m \<and> k \<notin> fst ` set kvs"
    by (simp add: dom_write_cells)
  then show ?thesis
    by (simp only: domIff simp_thms)
qed

lemma write_cells_distinct:
  "distinct (map fst kvs) \<Longrightarrow> write_cells kvs m = m ++ map_of kvs"
proof (induction kvs arbitrary: m)
  case Nil
  then show ?case by simp
next
  case (Cons kv kvs)
  obtain k v where kv: "kv = (k, v)" by (cases kv)
  with Cons.prems have "k \<notin> dom (map_of kvs)"
    by (simp add: dom_map_of_conv_image_fst)
  then have twist: "m(k \<mapsto> v) ++ map_of kvs = (m ++ map_of kvs)(k \<mapsto> v)"
    by (rule map_add_upd_left)
  have "write_cells (kv # kvs) m = m(k \<mapsto> v) ++ map_of kvs"
    using Cons kv by simp
  also have "\<dots> = m ++ map_of (kv # kvs)"
    unfolding twist kv by (simp only: map_of.simps map_add_upd fst_conv snd_conv)
  finally show ?case .
qed

lemma map_add_map_of_keys:
  "distinct (map fst kvs) \<Longrightarrow>
     map (m ++ map_of kvs) (map fst kvs) = map (Some \<circ> snd) kvs"
  by (auto simp: map_add_find_right)

lemma distinct_keys:
  "distinct (map (\<lambda>c. (f c, 0::nat)) cs) \<longleftrightarrow> distinct (map f cs)"
  by (simp add: distinct_map inj_on_def)

section \<open>Literal ranges\<close>

text \<open>The ranges \<^verbatim>\<open>1..5\<close>, \<^verbatim>\<open>0..4\<close> and \<^verbatim>\<open>0..5\<close> of the source's loops.\<close>

lemma upt_1_5: "[1..<5] = [1, 2, 3, 4]"
  by (simp add: upt_conv_Cons)

lemma upt_Suc0_5: "[Suc 0..<5] = [1, 2, 3, 4]"
  by (simp add: upt_conv_Cons)

lemma upt_0_4: "[0..<4] = [0, 1, 2, 3]"
  by (simp add: upt_conv_Cons)

lemma upt_0_5: "[0..<5] = [0, 1, 2, 3, 4]"
  by (simp add: upt_conv_Cons)

lemmas loop_ranges = upt_1_5 upt_Suc0_5 upt_0_4 upt_0_5

text \<open>Where a range from 0 splits: before an index, the index, after it.\<close>

lemma upt_eq_split_iff:
  "[0..<n] = pre @ i # post \<longleftrightarrow> i < n \<and> pre = [0..<i] \<and> post = [Suc i..<n]"
proof
  assume eq: "[0..<n] = pre @ i # post"
  then have len: "length pre < n"
    using length_upt [of 0 n] by (simp del: length_upt)
  have "pre = take (length pre) [0..<n]" and "i = [0..<n] ! length pre"
    and "post = drop (Suc (length pre)) [0..<n]"
    unfolding eq by simp_all
  with len show "i < n \<and> pre = [0..<i] \<and> post = [Suc i..<n]"
    by simp
next
  assume "i < n \<and> pre = [0..<i] \<and> post = [Suc i..<n]"
  then show "[0..<n] = pre @ i # post"
    using upt_add_eq_append [of 0 i "n - i"] by (simp add: upt_conv_Cons)
qed

section \<open>Commutative rings with one\<close>

text \<open>
  The gates are polynomial identities over the proof system's field. Everything proved
  about them needs only a commutative ring with \<open>0 \<noteq> 1\<close>, which covers prime fields of
  every characteristic; the facts below are the arithmetic the gate lemmas share.
\<close>

lemma of_bool_mult_eq_0_iff [simp]:
  "of_bool b * (x::'a::comm_ring_1) = 0 \<longleftrightarrow> \<not> b \<or> x = 0"
  by simp

lemma add_one_neq [simp]: "(a::'a::comm_ring_1) + 1 \<noteq> a" "a \<noteq> a + 1"
  by simp_all

lemma one_neq_two [simp]: "(1::'a::comm_ring_1) \<noteq> 2" "(2::'a::comm_ring_1) \<noteq> 1"
  using add_one_neq [of "1::'a"] by (simp_all only: one_add_one) auto

lemma three_neq_four [simp]: "(3::'a::comm_ring_1) \<noteq> 4" "(4::'a::comm_ring_1) \<noteq> 3"
  using add_one_neq [of "3::'a"] by simp_all

lemma list_all_zero_map: "list_all (\<lambda>v. v = 0) (map f xs) = list_all (\<lambda>x. f x = 0) xs"
  by (simp add: list.pred_map comp_def)

lemma guarded_all: "list_all (\<lambda>x. b \<longrightarrow> P x) xs \<longleftrightarrow> (b \<longrightarrow> list_all P xs)"
  by (auto simp: list_all_iff)

lemma const_minus_eq_0_iff [simp]: "c - x = 0 \<longleftrightarrow> x = (c::'a::comm_ring_1)"
  by auto

section \<open>State monad\<close>

lemma run_state_traverse_list_Nil [simp]:
  "run_state (State_Monad.traverse_list f []) s = ([], s)"
  by simp

lemma run_state_traverse_list_Cons [simp]:
  "run_state (State_Monad.traverse_list f (x # xs)) s =
     (case run_state (f x) s of (y, s') \<Rightarrow>
        (case run_state (State_Monad.traverse_list f xs) s' of (ys, s'') \<Rightarrow> (y # ys, s'')))"
  by (simp split: prod.splits)

lemma map_fst_traverse_list:
  "(\<And>x s. h (fst (run_state (f x) s)) = g x) \<Longrightarrow>
     map h (fst (run_state (State_Monad.traverse_list f xs) s)) = map g xs"
  by (induction xs arbitrary: s) (simp_all add: split_beta)

lemma length_traverse_list [simp]:
  "length (fst (run_state (State_Monad.traverse_list f xs) s)) = length xs"
  by (induction xs arbitrary: s) (simp_all add: split_beta)

lemma preservesD: "preserves f m \<Longrightarrow> f (snd (run_state m s)) = f s"
  by (simp add: preserves_def)

lemma preserves_return [simp, intro!]: "preserves f (State_Monad.return x)"
  by (simp add: preserves_def)

lemma preserves_get [simp, intro!]: "preserves f State_Monad.get"
  by (simp add: preserves_def)

lemma preserves_bind [intro!]:
  "preserves f m \<Longrightarrow> (\<And>x. preserves f (k x)) \<Longrightarrow> preserves f (State_Monad.bind m k)"
  by (simp add: preserves_def split_beta)

lemma preserves_traverse_list [intro!]:
  "(\<And>x. preserves f (g x)) \<Longrightarrow> preserves f (State_Monad.traverse_list g xs)"
  by (induction xs) auto

lemma preserves_comp: "preserves f m \<Longrightarrow> preserves (g \<circ> f) m"
  by (simp add: preserves_def)

end
