(* ===== verification/Plonk_Expression.thy ===== *)
theory Plonk_Expression
  imports Holdem_Prelude
begin

text \<open>
  The polynomial language the chip writes its gates in: selectors, typed columns,
  rotations and the expression tree of the proving backend (\<^verbatim>\<open>halo2_proofs::plonk\<close>,
  which the repository only calls), with the arithmetic operators the source uses on
  expressions (\<^verbatim>\<open>*\<close>, \<^verbatim>\<open>-\<close>), and what an expression means: its value at a row
  of a table of selector, advice and instance columns. The meaning is the one the
  specification gives a gate: a polynomial that has to evaluate to zero on every row, a
  selector being the value 1 on the rows where it is enabled and 0 elsewhere.
\<close>

section \<open>Selectors, columns, rotations\<close>

datatype selector = Selector (selector_index: nat) (is_simple: bool)

datatype advice_column = AdviceColumn (advice_index: nat)

datatype instance_column = InstanceColumn (instance_index: nat)

type_synonym rotation = int

definition cur :: rotation where
  "cur = 0"

section \<open>Expressions\<close>

datatype 'f expression =
    Constant 'f
  | SelectorQ selector
  | Advice advice_column rotation
  | Instance instance_column rotation
  | Negated "'f expression"
  | Sum "'f expression" "'f expression"
  | Product "'f expression" "'f expression"
  | Scaled "'f expression" 'f

text \<open>
  The operators of the source on expressions build tree nodes; subtraction is a sum with
  the negated right operand.
\<close>

instantiation expression :: (type) "{minus, times}"
begin

definition minus_expression :: "'a expression \<Rightarrow> 'a expression \<Rightarrow> 'a expression" where
  "minus_expression a b = Sum a (Negated b)"

definition times_expression :: "'a expression \<Rightarrow> 'a expression \<Rightarrow> 'a expression" where
  "times_expression a b = Product a b"

instance ..

end

lemmas expression_ops = minus_expression_def times_expression_def

section \<open>Tables and evaluation\<close>

text \<open>
  A table has \<open>n_rows\<close> rows; a query at rotation \<open>rot\<close> from row \<open>r\<close> reads row
  \<open>r + rot\<close>, wrapping around the table.
\<close>

record 'f assignment =
  n_rows :: nat
  selector_on :: "nat \<Rightarrow> nat \<Rightarrow> bool"
  advice_at :: "nat \<Rightarrow> nat \<Rightarrow> 'f"
  instance_at :: "nat \<Rightarrow> nat \<Rightarrow> 'f"

definition rotated_row :: "nat \<Rightarrow> nat \<Rightarrow> rotation \<Rightarrow> nat" where
  "rotated_row n r rot = nat ((int r + rot) mod int n)"

text \<open>Reading a table by selector and by column, as the gates do.\<close>

definition enabled :: "'f assignment \<Rightarrow> selector \<Rightarrow> nat \<Rightarrow> bool" where
  "enabled a q r = selector_on a (selector_index q) r"

definition cell :: "'f assignment \<Rightarrow> advice_column \<Rightarrow> nat \<Rightarrow> 'f" where
  "cell a c r = advice_at a (advice_index c) r"

fun evaluate :: "('f::comm_ring_1) assignment \<Rightarrow> nat \<Rightarrow> 'f expression \<Rightarrow> 'f" where
  "evaluate a r (Constant c) = c"
| "evaluate a r (SelectorQ s) = of_bool (enabled a s r)"
| "evaluate a r (Advice c rot) = cell a c (rotated_row (n_rows a) r rot)"
| "evaluate a r (Instance c rot) = instance_at a (instance_index c) (rotated_row (n_rows a) r rot)"
| "evaluate a r (Negated e) = - evaluate a r e"
| "evaluate a r (Sum e1 e2) = evaluate a r e1 + evaluate a r e2"
| "evaluate a r (Product e1 e2) = evaluate a r e1 * evaluate a r e2"
| "evaluate a r (Scaled e c) = evaluate a r e * c"

text \<open>What an expression reads, and its degree as a polynomial in the cells.\<close>

fun advice_cells :: "'f expression \<Rightarrow> (advice_column \<times> rotation) set" where
  "advice_cells (Advice c rot) = {(c, rot)}"
| "advice_cells (Negated e) = advice_cells e"
| "advice_cells (Sum e1 e2) = advice_cells e1 \<union> advice_cells e2"
| "advice_cells (Product e1 e2) = advice_cells e1 \<union> advice_cells e2"
| "advice_cells (Scaled e c) = advice_cells e"
| "advice_cells _ = {}"

fun instance_cells :: "'f expression \<Rightarrow> (instance_column \<times> rotation) set" where
  "instance_cells (Instance c rot) = {(c, rot)}"
| "instance_cells (Negated e) = instance_cells e"
| "instance_cells (Sum e1 e2) = instance_cells e1 \<union> instance_cells e2"
| "instance_cells (Product e1 e2) = instance_cells e1 \<union> instance_cells e2"
| "instance_cells (Scaled e c) = instance_cells e"
| "instance_cells _ = {}"

fun selectors_of :: "'f expression \<Rightarrow> selector set" where
  "selectors_of (SelectorQ s) = {s}"
| "selectors_of (Negated e) = selectors_of e"
| "selectors_of (Sum e1 e2) = selectors_of e1 \<union> selectors_of e2"
| "selectors_of (Product e1 e2) = selectors_of e1 \<union> selectors_of e2"
| "selectors_of (Scaled e c) = selectors_of e"
| "selectors_of _ = {}"

fun degree :: "'f expression \<Rightarrow> nat" where
  "degree (Constant c) = 0"
| "degree (SelectorQ s) = 1"
| "degree (Advice c rot) = 1"
| "degree (Instance c rot) = 1"
| "degree (Negated e) = degree e"
| "degree (Sum e1 e2) = max (degree e1) (degree e2)"
| "degree (Product e1 e2) = degree e1 + degree e2"
| "degree (Scaled e c) = degree e"

section \<open>Evaluation of the operators\<close>

lemma evaluate_minus [simp]: "evaluate a r (e1 - e2) = evaluate a r e1 - evaluate a r e2"
  by (simp add: minus_expression_def)

lemma evaluate_times [simp]: "evaluate a r (e1 * e2) = evaluate a r e1 * evaluate a r e2"
  by (simp add: times_expression_def)

lemma degree_times [simp]: "degree (e1 * e2) = degree e1 + degree e2"
  by (simp add: times_expression_def)

lemma degree_minus [simp]: "degree (e1 - e2) = max (degree e1) (degree e2)"
  by (simp add: minus_expression_def)

section \<open>Rotations\<close>

lemma rotated_row_cur [simp]: "r < n \<Longrightarrow> rotated_row n r cur = r"
  by (simp add: rotated_row_def cur_def)

lemma rotated_row_less: "0 < n \<Longrightarrow> rotated_row n r rot < n"
  by (simp add: rotated_row_def nat_less_iff)

lemma rotated_row_wraps: "0 < n \<Longrightarrow> rotated_row n (n - 1) 1 = 0"
  by (simp add: rotated_row_def of_nat_diff)

section \<open>Evaluation depends only on the cells an expression reads\<close>

lemma evaluate_cong:
  assumes "n_rows a = n_rows b"
    and "\<And>s. s \<in> selectors_of e \<Longrightarrow> enabled a s r = enabled b s r"
    and "\<And>c rot. (c, rot) \<in> advice_cells e \<Longrightarrow>
           cell a c (rotated_row (n_rows a) r rot) = cell b c (rotated_row (n_rows a) r rot)"
    and "\<And>c rot. (c, rot) \<in> instance_cells e \<Longrightarrow>
           instance_at a (instance_index c) (rotated_row (n_rows a) r rot) =
           instance_at b (instance_index c) (rotated_row (n_rows a) r rot)"
  shows "evaluate a r e = evaluate b r e"
  using assms by (induction e) auto

lemma enabled_update [simp]:
  "enabled (a\<lparr>advice_at := v\<rparr>) q r = enabled a q r"
  "enabled (a\<lparr>instance_at := i\<rparr>) q r = enabled a q r"
  "enabled (a\<lparr>selector_on := s\<rparr>) q r = s (selector_index q) r"
  by (simp_all add: enabled_def)

lemma cell_update [simp]:
  "cell (a\<lparr>advice_at := v\<rparr>) c r = v (advice_index c) r"
  "cell (a\<lparr>instance_at := i\<rparr>) c r = cell a c r"
  "cell (a\<lparr>selector_on := s\<rparr>) c r = cell a c r"
  by (simp_all add: cell_def)

lemma evaluate_instance_irrelevant:
  "instance_cells e = {} \<Longrightarrow> evaluate (a\<lparr>instance_at := i\<rparr>) r e = evaluate a r e"
  by (rule evaluate_cong) auto

lemma evaluate_advice_irrelevant:
  "advice_cells e = {} \<Longrightarrow> evaluate (a\<lparr>advice_at := v\<rparr>) r e = evaluate a r e"
  by (rule evaluate_cong) auto

end
