(* ===== verification/Constraint_System.thy ===== *)
theory Constraint_System
  imports Plonk_Expression
begin

text \<open>
  The schema builder's handle on the proving backend: the constraint system that hands
  out selectors, advice (witness) columns and instance (public) columns and records
  named gates, and the view a gate closure gets of it while it queries cells. The backend
  is not part of the repository; the operations are those the specification lists for
  the handle (allocate a selector, a witness column, a public column; register a gate),
  in the calling convention the source uses (\<^verbatim>\<open>meta.selector()\<close>,
  \<^verbatim>\<open>meta.advice_column()\<close>, \<^verbatim>\<open>meta.instance_column()\<close>,
  \<^verbatim>\<open>meta.create_gate(name, closure)\<close> with \<^verbatim>\<open>query_selector\<close> and
  \<^verbatim>\<open>query_advice\<close> inside the closure). Every operation is a computation in the
  state monad over the handle, so a builder reads like the Rust that mutates
  \<^verbatim>\<open>&mut ConstraintSystem\<close>. The theory also says when a table satisfies a
  constraint system, and what a well-formed system is: one whose gates read declared
  selectors and columns only.
\<close>

section \<open>State\<close>

record 'f gate =
  gate_name :: string
  polys :: "'f expression list"
  gate_selectors :: "selector list"
  gate_cells :: "(advice_column \<times> rotation) list"

record 'f constraint_system =
  num_selectors :: nat
  num_advice_columns :: nat
  num_instance_columns :: nat
  gates :: "'f gate list"

record 'f virtual_cells =
  meta :: "'f constraint_system"
  queried_selectors :: "selector list"
  queried_cells :: "(advice_column \<times> rotation) list"

definition cs_default :: "'f constraint_system" where
  "cs_default = \<lparr>num_selectors = 0, num_advice_columns = 0, num_instance_columns = 0,
     gates = []\<rparr>"

section \<open>Allocation\<close>

definition selector :: "('f constraint_system, selector) state" where
  "selector = do {
     cs \<leftarrow> State_Monad.get;
     State_Monad.set (cs\<lparr>num_selectors := Suc (num_selectors cs)\<rparr>);
     State_Monad.return (Selector (num_selectors cs) True)
   }"

definition advice_column :: "('f constraint_system, advice_column) state" where
  "advice_column = do {
     cs \<leftarrow> State_Monad.get;
     State_Monad.set (cs\<lparr>num_advice_columns := Suc (num_advice_columns cs)\<rparr>);
     State_Monad.return (AdviceColumn (num_advice_columns cs))
   }"

definition instance_column :: "('f constraint_system, instance_column) state" where
  "instance_column = do {
     cs \<leftarrow> State_Monad.get;
     State_Monad.set (cs\<lparr>num_instance_columns := Suc (num_instance_columns cs)\<rparr>);
     State_Monad.return (InstanceColumn (num_instance_columns cs))
   }"

section \<open>Queries inside a gate closure\<close>

definition query_selector :: "selector \<Rightarrow> ('f virtual_cells, 'f expression) state" where
  "query_selector s = do {
     vc \<leftarrow> State_Monad.get;
     State_Monad.set (vc\<lparr>queried_selectors := queried_selectors vc @ [s]\<rparr>);
     State_Monad.return (SelectorQ s)
   }"

definition query_advice ::
  "advice_column \<Rightarrow> rotation \<Rightarrow> ('f virtual_cells, 'f expression) state" where
  "query_advice column at = do {
     vc \<leftarrow> State_Monad.get;
     State_Monad.set (vc\<lparr>queried_cells := queried_cells vc @ [(column, at)]\<rparr>);
     State_Monad.return (Advice column at)
   }"

section \<open>Gates\<close>

definition new_virtual_cells :: "'f constraint_system \<Rightarrow> 'f virtual_cells" where
  "new_virtual_cells cs = \<lparr>meta = cs, queried_selectors = [], queried_cells = []\<rparr>"

definition create_gate ::
  "string \<Rightarrow> ('f virtual_cells, 'f expression list) state \<Rightarrow> ('f constraint_system, unit) state"
  where
  "create_gate name constraints = do {
     cs \<leftarrow> State_Monad.get;
     let (ps, cells) = run_state constraints (new_virtual_cells cs);
     State_Monad.set ((meta cells)\<lparr>gates := gates (meta cells) @
       [\<lparr>gate_name = name, polys = ps, gate_selectors = queried_selectors cells,
         gate_cells = queried_cells cells\<rparr>]\<rparr>)
   }"

lemmas [plonk_defs] =
  selector_def advice_column_def instance_column_def
  query_selector_def query_advice_def new_virtual_cells_def create_gate_def Let_def

section \<open>Satisfaction\<close>

text \<open>
  A gate holds at a row when each of its polynomials evaluates to zero there; a table
  satisfies the system when every gate holds at every row.
\<close>

definition gate_satisfied :: "('f::comm_ring_1) assignment \<Rightarrow> nat \<Rightarrow> 'f gate \<Rightarrow> bool" where
  "gate_satisfied a r g = list_all (\<lambda>p. evaluate a r p = 0) (polys g)"

definition row_satisfied ::
  "('f::comm_ring_1) assignment \<Rightarrow> nat \<Rightarrow> 'f constraint_system \<Rightarrow> bool" where
  "row_satisfied a r cs = list_all (gate_satisfied a r) (gates cs)"

definition cs_satisfied :: "('f::comm_ring_1) constraint_system \<Rightarrow> 'f assignment \<Rightarrow> bool" where
  "cs_satisfied cs a = list_all (\<lambda>r. row_satisfied a r cs) [0..<n_rows a]"

text \<open>
  What a gate closure may not touch: the declared selectors and columns and the gates
  registered so far. It may only add queries.
\<close>

definition declared :: "'f virtual_cells \<Rightarrow> nat \<times> nat \<times> nat \<times> 'f gate list" where
  "declared vc = (num_selectors (meta vc), num_advice_columns (meta vc),
     num_instance_columns (meta vc), gates (meta vc))"

section \<open>Well-formedness\<close>

fun expr_wf :: "'f constraint_system \<Rightarrow> 'f expression \<Rightarrow> bool" where
  "expr_wf cs (Constant c) = True"
| "expr_wf cs (SelectorQ s) = (selector_index s < num_selectors cs)"
| "expr_wf cs (Advice c rot) = (advice_index c < num_advice_columns cs)"
| "expr_wf cs (Instance c rot) = (instance_index c < num_instance_columns cs)"
| "expr_wf cs (Negated e) = expr_wf cs e"
| "expr_wf cs (Sum e1 e2) = (expr_wf cs e1 \<and> expr_wf cs e2)"
| "expr_wf cs (Product e1 e2) = (expr_wf cs e1 \<and> expr_wf cs e2)"
| "expr_wf cs (Scaled e c) = expr_wf cs e"

definition gate_wf :: "'f constraint_system \<Rightarrow> 'f gate \<Rightarrow> bool" where
  "gate_wf cs g \<longleftrightarrow> polys g \<noteq> [] \<and> list_all (expr_wf cs) (polys g)"

definition cs_wf :: "'f constraint_system \<Rightarrow> bool" where
  "cs_wf cs \<longleftrightarrow> list_all (gate_wf cs) (gates cs)"

text \<open>
  Two tables agree on a system when they have the same rows and the same values in
  every selector and column the system has allocated.
\<close>

definition agree_on :: "'f constraint_system \<Rightarrow> 'f assignment \<Rightarrow> 'f assignment \<Rightarrow> bool" where
  "agree_on cs a b \<longleftrightarrow>
     n_rows a = n_rows b \<and>
     list_all (\<lambda>r.
       list_all (\<lambda>i. selector_on a i r = selector_on b i r) [0..<num_selectors cs] \<and>
       list_all (\<lambda>c. advice_at a c r = advice_at b c r) [0..<num_advice_columns cs] \<and>
       list_all (\<lambda>c. instance_at a c r = instance_at b c r) [0..<num_instance_columns cs])
       [0..<n_rows a]"

section \<open>Running the operations\<close>

lemma cs_default_simps:
  "num_selectors cs_default = 0"
  "num_advice_columns cs_default = 0"
  "num_instance_columns cs_default = 0"
  "gates cs_default = []"
  by (simp_all add: cs_default_def)

lemma run_selector [simp]:
  "run_state selector cs =
     (Selector (num_selectors cs) True, cs\<lparr>num_selectors := Suc (num_selectors cs)\<rparr>)"
  by (simp add: selector_def)

lemma run_advice_column [simp]:
  "run_state advice_column cs =
     (AdviceColumn (num_advice_columns cs),
      cs\<lparr>num_advice_columns := Suc (num_advice_columns cs)\<rparr>)"
  by (simp add: advice_column_def)

lemma run_instance_column [simp]:
  "run_state instance_column cs =
     (InstanceColumn (num_instance_columns cs),
      cs\<lparr>num_instance_columns := Suc (num_instance_columns cs)\<rparr>)"
  by (simp add: instance_column_def)

lemma run_query_selector [simp]:
  "run_state (query_selector s) vc =
     (SelectorQ s, vc\<lparr>queried_selectors := queried_selectors vc @ [s]\<rparr>)"
  by (simp add: query_selector_def)

lemma run_query_advice [simp]:
  "run_state (query_advice column at) vc =
     (Advice column at, vc\<lparr>queried_cells := queried_cells vc @ [(column, at)]\<rparr>)"
  by (simp add: query_advice_def)

lemma run_create_gate:
  "run_state (create_gate name constraints) cs =
     (let (ps, cells) = run_state constraints (new_virtual_cells cs) in
      ((), (meta cells)\<lparr>gates := gates (meta cells) @
         [\<lparr>gate_name = name, polys = ps, gate_selectors = queried_selectors cells,
           gate_cells = queried_cells cells\<rparr>]\<rparr>))"
  by (simp add: create_gate_def split_beta)

lemma evaluate_query_selector [simp]:
  "evaluate a r (fst (run_state (query_selector q) vc)) = of_bool (enabled a q r)"
  by simp

lemma evaluate_query_advice [simp]:
  "r < n_rows a \<Longrightarrow> evaluate a r (fst (run_state (query_advice c cur) vc)) = cell a c r"
  by simp

lemma evaluate_query_advice_rotated:
  "evaluate a r (fst (run_state (query_advice c at) vc)) = cell a c (rotated_row (n_rows a) r at)"
  by simp

section \<open>Frames\<close>

lemma preserves_query_selector [simp, intro!]: "preserves declared (query_selector s)"
  by (simp add: preserves_def declared_def)

lemma preserves_query_advice [simp, intro!]: "preserves declared (query_advice c at)"
  by (simp add: preserves_def declared_def)

lemma new_virtual_cells_simps [simp]:
  "meta (new_virtual_cells cs) = cs"
  "queried_selectors (new_virtual_cells cs) = []"
  "queried_cells (new_virtual_cells cs) = []"
  by (simp_all add: new_virtual_cells_def)

lemma declared_new_virtual_cells [simp]:
  "declared (new_virtual_cells cs) =
     (num_selectors cs, num_advice_columns cs, num_instance_columns cs, gates cs)"
  by (simp add: declared_def new_virtual_cells_def)

lemma create_gate_frame:
  assumes "preserves declared c"
  shows "num_selectors (snd (run_state (create_gate n c) cs)) = num_selectors cs"
    and "num_advice_columns (snd (run_state (create_gate n c) cs)) = num_advice_columns cs"
    and "num_instance_columns (snd (run_state (create_gate n c) cs)) =
           num_instance_columns cs"
    and "gates (snd (run_state (create_gate n c) cs)) =
           gates cs @ [\<lparr>gate_name = n, polys = fst (run_state c (new_virtual_cells cs)),
             gate_selectors = queried_selectors (snd (run_state c (new_virtual_cells cs))),
             gate_cells = queried_cells (snd (run_state c (new_virtual_cells cs)))\<rparr>]"
  using preservesD [OF assms, of "new_virtual_cells cs"]
  by (simp_all add: run_create_gate split_beta declared_def)

section \<open>Satisfaction, unfolded\<close>

lemma gate_satisfied_polys:
  "gate_satisfied a r g \<longleftrightarrow> (\<forall>p \<in> set (polys g). evaluate a r p = 0)"
  by (simp add: gate_satisfied_def list_all_iff)

lemma vanish_map:
  "list_all (\<lambda>p. evaluate a r p = 0) (map f xs) \<longleftrightarrow>
     list_all (\<lambda>x. evaluate a r (f x) = 0) xs"
  by (simp add: list.pred_map comp_def)

lemma gate_satisfied_simps [simp]:
  "gate_satisfied a r \<lparr>gate_name = n, polys = ps, gate_selectors = qs, gate_cells = cs\<rparr> \<longleftrightarrow>
     list_all (\<lambda>p. evaluate a r p = 0) ps"
  by (simp add: gate_satisfied_def)

lemma row_satisfied_registered:
  "row_satisfied a r (cs\<lparr>gates := gates cs @ gs\<rparr>) \<longleftrightarrow>
     row_satisfied a r cs \<and> list_all (gate_satisfied a r) gs"
  by (simp add: row_satisfied_def)

lemma row_satisfied_no_gates [simp]: "gates cs = [] \<Longrightarrow> row_satisfied a r cs"
  by (simp add: row_satisfied_def)

lemma row_satisfied_gates:
  "row_satisfied a r cs \<longleftrightarrow> (\<forall>g \<in> set (gates cs). gate_satisfied a r g)"
  by (simp add: row_satisfied_def list_all_iff)

lemma expr_wf_gates_update [simp]: "expr_wf (cs\<lparr>gates := gs\<rparr>) = expr_wf cs"
proof
  fix e :: "'a expression"
  show "expr_wf (cs\<lparr>gates := gs\<rparr>) e = expr_wf cs e"
    by (induction e) simp_all
qed

lemma gate_wf_gates_update [simp]: "gate_wf (cs\<lparr>gates := gs\<rparr>) = gate_wf cs"
  by (rule ext) (simp add: gate_wf_def)

lemma expr_wf_ops [simp]:
  "expr_wf cs (x * y) \<longleftrightarrow> expr_wf cs x \<and> expr_wf cs y"
  "expr_wf cs (x - y) \<longleftrightarrow> expr_wf cs x \<and> expr_wf cs y"
  by (simp_all add: expression_ops)

lemma expr_wf_mono:
  "expr_wf cs e \<Longrightarrow> num_selectors cs \<le> num_selectors cs' \<Longrightarrow>
   num_advice_columns cs \<le> num_advice_columns cs' \<Longrightarrow>
   num_instance_columns cs \<le> num_instance_columns cs' \<Longrightarrow> expr_wf cs' e"
  by (induction e) auto

lemma gate_wf_mono:
  "gate_wf cs g \<Longrightarrow> num_selectors cs \<le> num_selectors cs' \<Longrightarrow>
   num_advice_columns cs \<le> num_advice_columns cs' \<Longrightarrow>
   num_instance_columns cs \<le> num_instance_columns cs' \<Longrightarrow> gate_wf cs' g"
  by (auto simp: gate_wf_def list_all_iff intro: expr_wf_mono)

lemma cs_wf_mono:
  "cs_wf cs \<Longrightarrow> gates cs' = gates cs \<Longrightarrow> num_selectors cs \<le> num_selectors cs' \<Longrightarrow>
   num_advice_columns cs \<le> num_advice_columns cs' \<Longrightarrow>
   num_instance_columns cs \<le> num_instance_columns cs' \<Longrightarrow> cs_wf cs'"
  by (auto simp: cs_wf_def list_all_iff intro: gate_wf_mono)

lemma cs_satisfied_rows:
  "cs_satisfied cs a \<longleftrightarrow> (\<forall>r < n_rows a. row_satisfied a r cs)"
  by (auto simp: cs_satisfied_def list_all_iff)

section \<open>Scope\<close>

text \<open>
  A well-formed expression reads allocated selectors and columns only, so its value is
  the same in two tables that agree on them; rotations stay inside the table.
\<close>

lemma agree_on_rows: "agree_on cs a b \<Longrightarrow> n_rows b = n_rows a"
  by (simp add: agree_on_def)

lemma agree_onD:
  assumes "agree_on cs a b" and "r < n_rows a"
  shows "i < num_selectors cs \<Longrightarrow> selector_on a i r = selector_on b i r"
    and "c < num_advice_columns cs \<Longrightarrow> advice_at a c r = advice_at b c r"
    and "c < num_instance_columns cs \<Longrightarrow> instance_at a c r = instance_at b c r"
  using assms by (simp_all add: agree_on_def list_all_iff)

lemma agree_on_refl [simp]: "agree_on cs a a"
  by (simp add: agree_on_def list_all_iff)

lemma agree_on_sym: "agree_on cs a b \<Longrightarrow> agree_on cs b a"
  by (simp add: agree_on_def list_all_iff)

lemma evaluate_agree:
  assumes "expr_wf cs e" and "agree_on cs a b" and "r < n_rows a"
  shows "evaluate a r e = evaluate b r e"
  using assms(1)
proof (induction e)
  case (Advice c rot)
  with agree_onD [OF assms(2) rotated_row_less [of "n_rows a" r rot]] assms(3) show ?case
    by (simp add: cell_def agree_on_rows [OF assms(2)])
next
  case (Instance c rot)
  with agree_onD [OF assms(2) rotated_row_less [of "n_rows a" r rot]] assms(3) show ?case
    by (simp add: agree_on_rows [OF assms(2)])
qed (simp_all add: enabled_def agree_onD(1) [OF assms(2,3)])

lemma row_satisfied_agree:
  assumes "cs_wf cs" and "agree_on cs a b" and "r < n_rows a"
  shows "row_satisfied a r cs \<longleftrightarrow> row_satisfied b r cs"
  using assms(1) evaluate_agree [OF _ assms(2,3)]
  by (auto simp: row_satisfied_gates gate_satisfied_polys cs_wf_def gate_wf_def list_all_iff)

lemma cs_satisfied_agree:
  assumes "cs_wf cs" and "agree_on cs a b"
  shows "cs_satisfied cs a \<longleftrightarrow> cs_satisfied cs b"
  using row_satisfied_agree [OF assms] agree_on_rows [OF assms(2)]
  by (simp add: cs_satisfied_rows)

end
