(* ===== verification/Builder_Calls.thy ===== *)
theory Builder_Calls
  imports Constraint_System
begin

text \<open>
  The constraint-system handle as a state machine. A schema builder is a sequence of
  calls on the handle; \<open>builder_call\<close> names the four calls the backend offers,
  \<open>perform\<close> is the step function (each call run with the operations of
  \<open>Constraint_System\<close>), and \<open>reachable\<close> collects the systems that legal calls
  produce from the empty one. A call that registers a gate is legal when its closure only
  queries and returns at least one polynomial over selectors and columns allocated so
  far. Every reachable system is well formed.
\<close>

section \<open>Calls and steps\<close>

datatype 'f builder_call =
    AllocSelector
  | AllocAdvice
  | AllocInstance
  | CreateGate string "('f virtual_cells, 'f expression list) state"

fun perform :: "'f builder_call \<Rightarrow> 'f constraint_system \<Rightarrow> 'f constraint_system" where
  "perform AllocSelector cs = snd (run_state selector cs)"
| "perform AllocAdvice cs = snd (run_state advice_column cs)"
| "perform AllocInstance cs = snd (run_state instance_column cs)"
| "perform (CreateGate name c) cs = snd (run_state (create_gate name c) cs)"

definition closure_ok ::
  "'f constraint_system \<Rightarrow> ('f virtual_cells, 'f expression list) state \<Rightarrow> bool" where
  "closure_ok cs c \<longleftrightarrow>
     declared (snd (run_state c (new_virtual_cells cs))) = declared (new_virtual_cells cs) \<and>
     fst (run_state c (new_virtual_cells cs)) \<noteq> [] \<and>
     list_all (expr_wf cs) (fst (run_state c (new_virtual_cells cs)))"

fun call_ok :: "'f constraint_system \<Rightarrow> 'f builder_call \<Rightarrow> bool" where
  "call_ok cs (CreateGate name c) = closure_ok cs c"
| "call_ok cs _ = True"

fun calls_ok :: "'f constraint_system \<Rightarrow> 'f builder_call list \<Rightarrow> bool" where
  "calls_ok cs [] = True"
| "calls_ok cs (c # calls) = (call_ok cs c \<and> calls_ok (perform c cs) calls)"

fun perform_all :: "'f builder_call list \<Rightarrow> 'f constraint_system \<Rightarrow> 'f constraint_system" where
  "perform_all [] cs = cs"
| "perform_all (c # calls) cs = perform_all calls (perform c cs)"

inductive reachable :: "'f constraint_system \<Rightarrow> bool" where
  start: "reachable cs_default"
| step: "reachable cs \<Longrightarrow> call_ok cs call \<Longrightarrow> reachable (perform call cs)"

inductive_cases reachable_cases: "reachable cs"

section \<open>One step\<close>

lemma perform_alloc [simp]:
  "perform AllocSelector cs = cs\<lparr>num_selectors := Suc (num_selectors cs)\<rparr>"
  "perform AllocAdvice cs = cs\<lparr>num_advice_columns := Suc (num_advice_columns cs)\<rparr>"
  "perform AllocInstance cs = cs\<lparr>num_instance_columns := Suc (num_instance_columns cs)\<rparr>"
  by simp_all

lemma perform_create_gate:
  assumes "closure_ok cs c"
  shows "perform (CreateGate name c) cs =
     cs\<lparr>gates := gates cs @
       [\<lparr>gate_name = name, polys = fst (run_state c (new_virtual_cells cs)),
         gate_selectors = queried_selectors (snd (run_state c (new_virtual_cells cs))),
         gate_cells = queried_cells (snd (run_state c (new_virtual_cells cs)))\<rparr>]\<rparr>"
proof -
  from assms have "declared (snd (run_state c (new_virtual_cells cs))) =
      declared (new_virtual_cells cs)"
    by (simp add: closure_ok_def)
  then have "meta (snd (run_state c (new_virtual_cells cs))) = cs"
    by (cases "meta (snd (run_state c (new_virtual_cells cs)))"; cases cs)
       (simp add: declared_def)
  then show ?thesis
    by (simp add: run_create_gate split_beta)
qed

lemma cs_wf_default [simp]: "cs_wf cs_default"
  by (simp add: cs_wf_def cs_default_def)

lemma cs_wf_perform:
  assumes "cs_wf cs" and "call_ok cs call"
  shows "cs_wf (perform call cs)"
proof (cases call)
  case (CreateGate name c)
  with assms show ?thesis
    by (simp add: perform_create_gate del: perform.simps)
       (simp add: cs_wf_def gate_wf_def closure_ok_def)
qed (insert assms, auto intro: cs_wf_mono)

lemma reachable_perform_all:
  "reachable cs \<Longrightarrow> calls_ok cs calls \<Longrightarrow> reachable (perform_all calls cs)"
  by (induction calls arbitrary: cs) (auto intro: reachable.step)

text \<open>The invariant, by induction on the calls made.\<close>

lemma reachable_well_formed:
  assumes "reachable cs"
  shows "cs_wf cs"
  using assms by (induction rule: reachable.induct) (auto intro: cs_wf_perform)


lemma perform_create_gate_counts:
  assumes "closure_ok cs c"
  shows "num_selectors (perform (CreateGate name c) cs) = num_selectors cs"
    and "num_advice_columns (perform (CreateGate name c) cs) = num_advice_columns cs"
    and "num_instance_columns (perform (CreateGate name c) cs) = num_instance_columns cs"
  by (simp_all add: perform_create_gate [OF assms] del: perform.simps)

lemma closure_okI:
  assumes "preserves declared c"
    and "fst (run_state c (new_virtual_cells cs)) \<noteq> []"
    and "list_all (expr_wf cs) (fst (run_state c (new_virtual_cells cs)))"
  shows "closure_ok cs c"
  using assms by (simp add: closure_ok_def preservesD del: declared_new_virtual_cells)

lemma perform_all_append [simp]:
  "perform_all (xs @ ys) cs = perform_all ys (perform_all xs cs)"
  by (induction xs arbitrary: cs) simp_all

lemma calls_ok_append [simp]:
  "calls_ok cs (xs @ ys) \<longleftrightarrow> calls_ok cs xs \<and> calls_ok (perform_all xs cs) ys"
  by (induction xs arbitrary: cs) simp_all


lemma perform_gate_counts [simp]:
  assumes "preserves declared c"
  shows "num_selectors (perform (CreateGate name c) cs) = num_selectors cs"
    and "num_advice_columns (perform (CreateGate name c) cs) = num_advice_columns cs"
    and "num_instance_columns (perform (CreateGate name c) cs) = num_instance_columns cs"
  using create_gate_frame [OF assms] by simp_all

end
