(* ===== verification/Holdem_Config.thy ===== *)
theory Holdem_Config
  imports Plonk_Expression
begin

text \<open>
  The data of the chip in \<^verbatim>\<open>src/holdem/vanillaholdem.rs\<close>: the configuration
  record that names the six selectors, the five card columns and the two public columns,
  the chip that wraps a configuration, and its constructor.
\<close>

section \<open>Configuration and chip\<close>

record VanillaHoldemConfig =
  q_straight :: selector
  q_flush :: selector
  q_one_pair :: selector
  q_two_pair :: selector
  q_three_of_a_kind :: selector
  q_four_of_a_kind :: selector
  cards :: "advice_column array5"
  table_cards :: "instance_column array2"

record 'f VanillaHoldemChip =
  config :: VanillaHoldemConfig
  marker :: "'f itself"

definition construct :: "VanillaHoldemConfig \<Rightarrow> 'f VanillaHoldemChip" where
  "construct cfg = \<lparr>config = cfg, marker = TYPE('f)\<rparr>"

text \<open>
  The configuration that \<^verbatim>\<open>Circuit::configure\<close> returns on an empty constraint
  system (the selectors and columns numbered in the order of their allocation); the
  examples of the development are stated on it.
\<close>

definition example_config :: VanillaHoldemConfig where
  "example_config =
     \<lparr>q_straight = Selector 1 True, q_flush = Selector 0 True,
      q_one_pair = Selector 2 True, q_two_pair = Selector 3 True,
      q_three_of_a_kind = Selector 4 True, q_four_of_a_kind = Selector 5 True,
      cards = Array5 (AdviceColumn 0) (AdviceColumn 1) (AdviceColumn 2) (AdviceColumn 3)
                (AdviceColumn 4),
      table_cards = Array2 (InstanceColumn 0) (InstanceColumn 1)\<rparr>"

lemmas [holdem_defs] = construct_def

lemma config_construct [simp]: "config (construct cfg) = cfg"
  by (simp add: construct_def)

lemma example_config_simps [simp]:
  "q_straight example_config = Selector 1 True"
  "q_flush example_config = Selector 0 True"
  "q_one_pair example_config = Selector 2 True"
  "q_two_pair example_config = Selector 3 True"
  "q_three_of_a_kind example_config = Selector 4 True"
  "q_four_of_a_kind example_config = Selector 5 True"
  "cards example_config =
     Array5 (AdviceColumn 0) (AdviceColumn 1) (AdviceColumn 2) (AdviceColumn 3) (AdviceColumn 4)"
  "table_cards example_config = Array2 (InstanceColumn 0) (InstanceColumn 1)"
  by (simp_all add: example_config_def)

end
