(* ===== verification/Hand_Claims.thy ===== *)
theory Hand_Claims
  imports Holdem_Config
begin

text \<open>
  What the schema promises, stated without the constraint system: the hand categories a
  prover can claim, the selectors a claim activates, and the condition the specification
  attaches to each category on the five card cells and the two count cells of a row.
  \<open>claims_hold\<close> is the contract of a configured row, which the gates registered by
  the schema builder have to implement.
\<close>

section \<open>Categories and their conditions\<close>

datatype category =
  Straight | Flush | OnePair | TwoPair | ThreeOfAKind | FourOfAKind | FullHouse

definition categories :: "category list" where
  "categories = [Straight, Flush, OnePair, TwoPair, ThreeOfAKind, FourOfAKind, FullHouse]"

record 'f hand_row =
  hand :: "'f array5"
  num_of_pair :: 'f
  num_of_same_kind :: 'f

fun condition :: "category \<Rightarrow> ('f::comm_ring_1) hand_row \<Rightarrow> bool" where
  "condition Straight h = list_all (\<lambda>i. index5 (hand h) i = 1) [1..<5]"
| "condition Flush h = list_all (\<lambda>i. index5 (hand h) i = index5 (hand h) (i + 1)) [0..<4]"
| "condition OnePair h = (num_of_pair h = 1)"
| "condition TwoPair h = (num_of_pair h = 2)"
| "condition ThreeOfAKind h = (num_of_same_kind h = 3)"
| "condition FourOfAKind h = (num_of_same_kind h = 4)"
| "condition FullHouse h = (num_of_same_kind h = 3 \<and> num_of_pair h = 1)"

fun selectors_for :: "VanillaHoldemConfig \<Rightarrow> category \<Rightarrow> selector list" where
  "selectors_for cfg Straight = [q_straight cfg]"
| "selectors_for cfg Flush = [q_flush cfg]"
| "selectors_for cfg OnePair = [q_one_pair cfg]"
| "selectors_for cfg TwoPair = [q_two_pair cfg]"
| "selectors_for cfg ThreeOfAKind = [q_three_of_a_kind cfg]"
| "selectors_for cfg FourOfAKind = [q_four_of_a_kind cfg]"
| "selectors_for cfg FullHouse = [q_one_pair cfg, q_three_of_a_kind cfg]"

section \<open>Reading a row\<close>

definition read_row ::
  "VanillaHoldemConfig \<Rightarrow> advice_column \<Rightarrow> advice_column \<Rightarrow> 'f assignment \<Rightarrow> nat \<Rightarrow>
     'f hand_row" where
  "read_row cfg np nsk a r =
     \<lparr>hand = map_array5 (\<lambda>c. cell a c r) (cards cfg),
      num_of_pair = cell a np r, num_of_same_kind = cell a nsk r\<rparr>"

definition claimed :: "VanillaHoldemConfig \<Rightarrow> 'f assignment \<Rightarrow> nat \<Rightarrow> category \<Rightarrow> bool" where
  "claimed cfg a r c = list_all (\<lambda>q. enabled a q r) (selectors_for cfg c)"

definition claims_hold ::
  "VanillaHoldemConfig \<Rightarrow> advice_column \<Rightarrow> advice_column \<Rightarrow> ('f::comm_ring_1) assignment \<Rightarrow>
     nat \<Rightarrow> bool" where
  "claims_hold cfg np nsk a r =
     list_all (\<lambda>c. claimed cfg a r c \<longrightarrow> condition c (read_row cfg np nsk a r)) categories"

section \<open>Example tables\<close>

text \<open>
  A table of one row: the selectors whose indices are listed are enabled, and advice
  column \<open>c\<close> holds the \<open>c\<close>-th of the listed values (zero beyond them).
\<close>

definition one_row :: "nat list \<Rightarrow> 'f::comm_ring_1 list \<Rightarrow> 'f assignment" where
  "one_row on vals =
     \<lparr>n_rows = 1, selector_on = (\<lambda>i r. i \<in> set on),
      advice_at = (\<lambda>c r. if c < length vals then vals ! c else 0),
      instance_at = (\<lambda>c r. 0)\<rparr>"

definition columns5 :: "advice_column array5" where
  "columns5 = Array5 (AdviceColumn 0) (AdviceColumn 1) (AdviceColumn 2) (AdviceColumn 3)
     (AdviceColumn 4)"

section \<open>Reading, unfolded\<close>

lemma index5_hand_read_row [simp]:
  "i < 5 \<Longrightarrow> index5 (hand (read_row cfg np nsk a r)) i = cell a (index5 (cards cfg) i) r"
  by (simp add: read_row_def index5_map_array5)

lemma counts_read_row [simp]:
  "num_of_pair (read_row cfg np nsk a r) = cell a np r"
  "num_of_same_kind (read_row cfg np nsk a r) = cell a nsk r"
  by (simp_all add: read_row_def)

lemma one_row_simps [simp]:
  "n_rows (one_row on vals) = 1"
  "enabled (one_row on vals) q r \<longleftrightarrow> selector_index q \<in> set on"
  "cell (one_row on vals) c r =
     (if advice_index c < length vals then vals ! advice_index c else 0)"
  by (simp_all add: one_row_def enabled_def cell_def)

lemma condition_straight_iff:
  "condition Straight (read_row cfg np nsk a r) \<longleftrightarrow>
     list_all (\<lambda>i. cell a (index5 (cards cfg) i) r = 1) [1..<5]"
  by (simp add: loop_ranges)

lemma condition_flush_iff:
  "condition Flush (read_row cfg np nsk a r) \<longleftrightarrow>
     list_all (\<lambda>i. cell a (index5 (cards cfg) i) r = cell a (index5 (cards cfg) (i + 1)) r)
       [0..<4]"
  by (simp add: loop_ranges)

end
