(* ===== verification/Holdem_Gates.thy ===== *)
theory Holdem_Gates
  imports Builder_Calls Hand_Claims
begin

text \<open>
  The schema builder: the seven gate closures of
  \<^verbatim>\<open>VanillaHoldemChip::configure\<close> and the function itself, which registers
  them in the order of the source and returns the configuration. The lemmas give the
  value of every registered polynomial at a row of a table; the theorems characterise
  each gate and show that a configured row implements the contract of
  \<open>Hand_Claims\<close>. \<open>chip_calls\<close> gives the function as the calls it makes on the
  handle, each legal when its selectors and columns are allocated.
\<close>

section \<open>Gate closures\<close>

text \<open>
  Each closure queries its selector and its cells and returns its constraints; the
  polynomial of one constraint is a definition of its own, so that the closures below
  read like the loops of the source.
\<close>

definition straight_constraint ::
  "('f::comm_ring_1) expression \<Rightarrow> 'f expression \<Rightarrow> 'f expression" where
  "straight_constraint q_s diff = q_s * (diff - Constant 1)"

definition straight_gate ::
  "selector \<Rightarrow> advice_column array5 \<Rightarrow>
     (('f::comm_ring_1) virtual_cells, 'f expression list) state" where
  "straight_gate q cds = do {
     q_s \<leftarrow> query_selector q;
     State_Monad.traverse_list (\<lambda>i. do {
         diff \<leftarrow> query_advice (index5 cds i) cur;
         State_Monad.return (straight_constraint q_s diff)
       }) [1..<5]
   }"

definition flush_constraint ::
  "('f::comm_ring_1) expression \<Rightarrow> 'f expression \<Rightarrow> 'f expression \<Rightarrow> 'f expression" where
  "flush_constraint q_f this next = (let diff = this - next in q_f * diff)"

definition flush_gate ::
  "selector \<Rightarrow> advice_column array5 \<Rightarrow>
     (('f::comm_ring_1) virtual_cells, 'f expression list) state" where
  "flush_gate q cds = do {
     q_f \<leftarrow> query_selector q;
     State_Monad.traverse_list (\<lambda>i. do {
         this \<leftarrow> query_advice (index5 cds i) cur;
         next \<leftarrow> query_advice (index5 cds (i + 1)) cur;
         State_Monad.return (flush_constraint q_f this next)
       }) [0..<4]
   }"

definition one_pair_constraint ::
  "('f::comm_ring_1) expression \<Rightarrow> 'f expression \<Rightarrow> 'f expression" where
  "one_pair_constraint q_p n = q_p * (Constant 1 - n)"

definition one_pair_gate ::
  "selector \<Rightarrow> advice_column \<Rightarrow> (('f::comm_ring_1) virtual_cells, 'f expression list) state"
  where
  "one_pair_gate q np = do {
     q_p \<leftarrow> query_selector q;
     n \<leftarrow> query_advice np cur;
     State_Monad.return [one_pair_constraint q_p n]
   }"

definition two_pair_constraint ::
  "('f::comm_ring_1) expression \<Rightarrow> 'f expression \<Rightarrow> 'f expression" where
  "two_pair_constraint q_p n = q_p * (Constant (of_nat 2) - n)"

definition two_pair_gate ::
  "selector \<Rightarrow> advice_column \<Rightarrow> (('f::comm_ring_1) virtual_cells, 'f expression list) state"
  where
  "two_pair_gate q np = do {
     q_p \<leftarrow> query_selector q;
     n \<leftarrow> query_advice np cur;
     State_Monad.return [two_pair_constraint q_p n]
   }"

definition three_of_a_kind_constraint ::
  "('f::comm_ring_1) expression \<Rightarrow> 'f expression \<Rightarrow> 'f expression" where
  "three_of_a_kind_constraint q_t n = q_t * (Constant (of_nat 3) - n)"

definition three_of_a_kind_gate ::
  "selector \<Rightarrow> advice_column \<Rightarrow> (('f::comm_ring_1) virtual_cells, 'f expression list) state"
  where
  "three_of_a_kind_gate q nsk = do {
     q_t \<leftarrow> query_selector q;
     n \<leftarrow> query_advice nsk cur;
     State_Monad.return [three_of_a_kind_constraint q_t n]
   }"

definition four_of_a_kind_constraint ::
  "('f::comm_ring_1) expression \<Rightarrow> 'f expression \<Rightarrow> 'f expression" where
  "four_of_a_kind_constraint q_f n = q_f * (Constant (of_nat 4) - n)"

definition four_of_a_kind_gate ::
  "selector \<Rightarrow> advice_column \<Rightarrow> (('f::comm_ring_1) virtual_cells, 'f expression list) state"
  where
  "four_of_a_kind_gate q nsk = do {
     q_f \<leftarrow> query_selector q;
     n \<leftarrow> query_advice nsk cur;
     State_Monad.return [four_of_a_kind_constraint q_f n]
   }"

definition full_house_gate ::
  "selector \<Rightarrow> selector \<Rightarrow> advice_column \<Rightarrow> advice_column \<Rightarrow>
     (('f::comm_ring_1) virtual_cells, 'f expression list) state" where
  "full_house_gate q1 q3 np nsk = do {
     q_pair \<leftarrow> query_selector q1;
     q_three \<leftarrow> query_selector q3;
     n_kind \<leftarrow> query_advice nsk cur;
     n_pair \<leftarrow> query_advice np cur;
     State_Monad.return
       [q_three * (Constant (of_nat 3) - n_kind), q_pair * (Constant 1 - n_pair)]
   }"

lemmas constraint_defs =
  straight_constraint_def flush_constraint_def one_pair_constraint_def
  two_pair_constraint_def three_of_a_kind_constraint_def four_of_a_kind_constraint_def

lemmas [gate_defs] =
  straight_gate_def flush_gate_def one_pair_gate_def two_pair_gate_def
  three_of_a_kind_gate_def four_of_a_kind_gate_def full_house_gate_def

section \<open>Configure\<close>

definition chip_configure ::
  "selector \<Rightarrow> selector \<Rightarrow> selector \<Rightarrow> selector \<Rightarrow> selector \<Rightarrow> selector \<Rightarrow>
   advice_column array5 \<Rightarrow> instance_column array2 \<Rightarrow> advice_column \<Rightarrow> advice_column \<Rightarrow>
     (('f::comm_ring_1) constraint_system, VanillaHoldemConfig) state" where
  "chip_configure qfl qst q1 q2 q3 q4 cds tcs np nsk = do {
     create_gate ''straight'' (straight_gate qst cds);
     create_gate ''flush'' (flush_gate qfl cds);
     create_gate ''one pair'' (one_pair_gate q1 np);
     create_gate ''two pair'' (two_pair_gate q2 np);
     create_gate ''three of a kind'' (three_of_a_kind_gate q3 nsk);
     create_gate ''four of a kind'' (four_of_a_kind_gate q4 nsk);
     create_gate ''full house'' (full_house_gate q1 q3 np nsk);
     State_Monad.return
       \<lparr>q_straight = qst, q_flush = qfl, q_one_pair = q1, q_two_pair = q2,
        q_three_of_a_kind = q3, q_four_of_a_kind = q4, cards = cds, table_cards = tcs\<rparr>
   }"

text \<open>
  The same function as the sequence of calls it makes on the handle: seven gate
  registrations, in the order of the source.
\<close>

definition chip_calls ::
  "selector \<Rightarrow> selector \<Rightarrow> selector \<Rightarrow> selector \<Rightarrow> selector \<Rightarrow> selector \<Rightarrow>
   advice_column array5 \<Rightarrow> advice_column \<Rightarrow> advice_column \<Rightarrow>
     ('f::comm_ring_1) builder_call list" where
  "chip_calls qfl qst q1 q2 q3 q4 cds np nsk =
     [CreateGate ''straight'' (straight_gate qst cds),
      CreateGate ''flush'' (flush_gate qfl cds),
      CreateGate ''one pair'' (one_pair_gate q1 np),
      CreateGate ''two pair'' (two_pair_gate q2 np),
      CreateGate ''three of a kind'' (three_of_a_kind_gate q3 nsk),
      CreateGate ''four of a kind'' (four_of_a_kind_gate q4 nsk),
      CreateGate ''full house'' (full_house_gate q1 q3 np nsk)]"

section \<open>Derived systems\<close>

text \<open>
  The system the circuit configures: selectors 0 to 5 in the order flush, straight, one
  pair, two pair, three of a kind, four of a kind; card columns 0 to 4; the count
  columns 5 and 6. In the example rows below the advice values are listed by column.
\<close>

definition example_system :: "int constraint_system" where
  "example_system =
     snd (run_state
       (chip_configure (Selector 0 True) (Selector 1 True) (Selector 2 True) (Selector 3 True)
          (Selector 4 True) (Selector 5 True) columns5
          (Array2 (InstanceColumn 0) (InstanceColumn 1)) (AdviceColumn 5) (AdviceColumn 6))
       cs_default)"

text \<open>
  The constraint system with its last registered gate removed: the system
  \<open>chip_configure\<close> would build without the full-house gate.
\<close>

definition without_last_gate :: "'f constraint_system \<Rightarrow> 'f constraint_system" where
  "without_last_gate cs = cs\<lparr>gates := butlast (gates cs)\<rparr>"

lemmas [holdem_defs] = chip_configure_def

section \<open>The gate closures only query\<close>

lemma preserves_gates [simp, intro]:
  "preserves declared (straight_gate q cds)"
  "preserves declared (flush_gate q cds)"
  "preserves declared (one_pair_gate q np)"
  "preserves declared (two_pair_gate q np)"
  "preserves declared (three_of_a_kind_gate q nsk)"
  "preserves declared (four_of_a_kind_gate q nsk)"
  "preserves declared (full_house_gate q1 q3 np nsk)"
  unfolding gate_defs Let_def by (intro preserves_bind preserves_traverse_list; simp)+

section \<open>Running a closure\<close>

lemma run_straight_gate:
  "run_state (straight_gate q cds) vc =
     (map (\<lambda>i. straight_constraint (SelectorQ q) (Advice (index5 cds i) cur)) [1..<5],
      vc\<lparr>queried_selectors := queried_selectors vc @ [q],
         queried_cells := queried_cells vc @ map (\<lambda>i. (index5 cds i, cur)) [1..<5]\<rparr>)"
  unfolding straight_gate_def by (simp add: loop_ranges)

lemma run_flush_gate:
  "run_state (flush_gate q cds) vc =
     (map (\<lambda>i. flush_constraint (SelectorQ q) (Advice (index5 cds i) cur)
                 (Advice (index5 cds (i + 1)) cur)) [0..<4],
      vc\<lparr>queried_selectors := queried_selectors vc @ [q],
         queried_cells := queried_cells vc @
           concat (map (\<lambda>i. [(index5 cds i, cur), (index5 cds (i + 1), cur)]) [0..<4])\<rparr>)"
  unfolding flush_gate_def by (simp add: loop_ranges)

lemma run_count_gates:
  "run_state (one_pair_gate q np) vc =
     ([one_pair_constraint (SelectorQ q) (Advice np cur)],
      vc\<lparr>queried_selectors := queried_selectors vc @ [q],
         queried_cells := queried_cells vc @ [(np, cur)]\<rparr>)"
  "run_state (two_pair_gate q np) vc =
     ([two_pair_constraint (SelectorQ q) (Advice np cur)],
      vc\<lparr>queried_selectors := queried_selectors vc @ [q],
         queried_cells := queried_cells vc @ [(np, cur)]\<rparr>)"
  "run_state (three_of_a_kind_gate q nsk) vc =
     ([three_of_a_kind_constraint (SelectorQ q) (Advice nsk cur)],
      vc\<lparr>queried_selectors := queried_selectors vc @ [q],
         queried_cells := queried_cells vc @ [(nsk, cur)]\<rparr>)"
  "run_state (four_of_a_kind_gate q nsk) vc =
     ([four_of_a_kind_constraint (SelectorQ q) (Advice nsk cur)],
      vc\<lparr>queried_selectors := queried_selectors vc @ [q],
         queried_cells := queried_cells vc @ [(nsk, cur)]\<rparr>)"
  "run_state (full_house_gate q1 q3 np nsk) vc =
     ([SelectorQ q3 * (Constant 3 - Advice nsk cur),
       SelectorQ q1 * (Constant 1 - Advice np cur)],
      vc\<lparr>queried_selectors := queried_selectors vc @ [q1, q3],
         queried_cells := queried_cells vc @ [(nsk, cur), (np, cur)]\<rparr>)"
  unfolding gate_defs by simp_all

lemmas run_gates = run_straight_gate run_flush_gate run_count_gates

section \<open>The constraints as polynomials\<close>

lemma evaluate_constraints [simp]:
  "evaluate a r (straight_constraint q d) = evaluate a r q * (evaluate a r d - 1)"
  "evaluate a r (flush_constraint q x y) = evaluate a r q * (evaluate a r x - evaluate a r y)"
  "evaluate a r (one_pair_constraint q n) = evaluate a r q * (1 - evaluate a r n)"
  "evaluate a r (two_pair_constraint q n) = evaluate a r q * (2 - evaluate a r n)"
  "evaluate a r (three_of_a_kind_constraint q n) = evaluate a r q * (3 - evaluate a r n)"
  "evaluate a r (four_of_a_kind_constraint q n) = evaluate a r q * (4 - evaluate a r n)"
  by (simp_all add: constraint_defs)

lemma degree_constraints [simp]:
  "degree (straight_constraint q d) = degree q + degree d"
  "degree (flush_constraint q x y) = degree q + max (degree x) (degree y)"
  "degree (one_pair_constraint q n) = degree q + degree n"
  "degree (two_pair_constraint q n) = degree q + degree n"
  "degree (three_of_a_kind_constraint q n) = degree q + degree n"
  "degree (four_of_a_kind_constraint q n) = degree q + degree n"
  by (simp_all add: constraint_defs)

section \<open>What configure returns and registers\<close>

lemma run_chip_configure:
  "run_state (chip_configure qfl qst q1 q2 q3 q4 cds tcs np nsk) cs =
     (\<lparr>q_straight = qst, q_flush = qfl, q_one_pair = q1, q_two_pair = q2,
       q_three_of_a_kind = q3, q_four_of_a_kind = q4, cards = cds, table_cards = tcs\<rparr>,
      cs\<lparr>gates := gates cs @
        [\<lparr>gate_name = ''straight'',
          polys = map (\<lambda>i. straight_constraint (SelectorQ qst) (Advice (index5 cds i) cur))
                    [1..<5],
          gate_selectors = [qst],
          gate_cells = map (\<lambda>i. (index5 cds i, cur)) [1..<5]\<rparr>,
         \<lparr>gate_name = ''flush'',
          polys = map (\<lambda>i. flush_constraint (SelectorQ qfl) (Advice (index5 cds i) cur)
                    (Advice (index5 cds (i + 1)) cur)) [0..<4],
          gate_selectors = [qfl],
          gate_cells =
            concat (map (\<lambda>i. [(index5 cds i, cur), (index5 cds (i + 1), cur)]) [0..<4])\<rparr>,
         \<lparr>gate_name = ''one pair'',
          polys = [one_pair_constraint (SelectorQ q1) (Advice np cur)],
          gate_selectors = [q1], gate_cells = [(np, cur)]\<rparr>,
         \<lparr>gate_name = ''two pair'',
          polys = [two_pair_constraint (SelectorQ q2) (Advice np cur)],
          gate_selectors = [q2], gate_cells = [(np, cur)]\<rparr>,
         \<lparr>gate_name = ''three of a kind'',
          polys = [three_of_a_kind_constraint (SelectorQ q3) (Advice nsk cur)],
          gate_selectors = [q3], gate_cells = [(nsk, cur)]\<rparr>,
         \<lparr>gate_name = ''four of a kind'',
          polys = [four_of_a_kind_constraint (SelectorQ q4) (Advice nsk cur)],
          gate_selectors = [q4], gate_cells = [(nsk, cur)]\<rparr>,
         \<lparr>gate_name = ''full house'',
          polys = [SelectorQ q3 * (Constant 3 - Advice nsk cur),
                   SelectorQ q1 * (Constant 1 - Advice np cur)],
          gate_selectors = [q1, q3], gate_cells = [(nsk, cur), (np, cur)]\<rparr>]\<rparr>)"
  unfolding chip_configure_def by (simp add: run_create_gate run_gates)


lemma expr_wf_constraints [simp]:
  "expr_wf cs (straight_constraint q d) \<longleftrightarrow> expr_wf cs q \<and> expr_wf cs d"
  "expr_wf cs (flush_constraint q x y) \<longleftrightarrow> expr_wf cs q \<and> expr_wf cs x \<and> expr_wf cs y"
  "expr_wf cs (one_pair_constraint q n) \<longleftrightarrow> expr_wf cs q \<and> expr_wf cs n"
  "expr_wf cs (two_pair_constraint q n) \<longleftrightarrow> expr_wf cs q \<and> expr_wf cs n"
  "expr_wf cs (three_of_a_kind_constraint q n) \<longleftrightarrow> expr_wf cs q \<and> expr_wf cs n"
  "expr_wf cs (four_of_a_kind_constraint q n) \<longleftrightarrow> expr_wf cs q \<and> expr_wf cs n"
  by (simp_all add: constraint_defs)

section \<open>Configure as a sequence of calls\<close>

lemma chip_configure_calls:
  "snd (run_state (chip_configure qfl qst q1 q2 q3 q4 cds tcs np nsk) cs) =
     perform_all (chip_calls qfl qst q1 q2 q3 q4 cds np nsk) cs"
  by (simp add: chip_configure_def chip_calls_def split_beta)

text \<open>A gate closure is a legal registration exactly when what it queries is allocated.\<close>

lemma closure_ok_gates [simp]:
  "closure_ok cs (straight_gate q cds) \<longleftrightarrow>
     selector_index q < num_selectors cs \<and>
     list_all (\<lambda>c. advice_index c < num_advice_columns cs) (tl (list_of5 cds))"
  "closure_ok cs (flush_gate q cds) \<longleftrightarrow>
     selector_index q < num_selectors cs \<and>
     list_all (\<lambda>c. advice_index c < num_advice_columns cs) (list_of5 cds)"
  "closure_ok cs (one_pair_gate q np) \<longleftrightarrow>
     selector_index q < num_selectors cs \<and> advice_index np < num_advice_columns cs"
  "closure_ok cs (two_pair_gate q np) \<longleftrightarrow>
     selector_index q < num_selectors cs \<and> advice_index np < num_advice_columns cs"
  "closure_ok cs (three_of_a_kind_gate q nsk) \<longleftrightarrow>
     selector_index q < num_selectors cs \<and> advice_index nsk < num_advice_columns cs"
  "closure_ok cs (four_of_a_kind_gate q nsk) \<longleftrightarrow>
     selector_index q < num_selectors cs \<and> advice_index nsk < num_advice_columns cs"
  "closure_ok cs (full_house_gate q q' np nsk) \<longleftrightarrow>
     selector_index q < num_selectors cs \<and> selector_index q' < num_selectors cs \<and>
     advice_index np < num_advice_columns cs \<and> advice_index nsk < num_advice_columns cs"
  by (cases cds; auto simp: closure_ok_def run_gates declared_def loop_ranges)+

lemma calls_ok_chip_calls:
  assumes "list_all (\<lambda>q. selector_index q < num_selectors cs) [qfl, qst, q1, q2, q3, q4]"
    and "list_all (\<lambda>c. advice_index c < num_advice_columns cs) (list_of5 cds @ [np, nsk])"
  shows "calls_ok cs (chip_calls qfl qst q1 q2 q3 q4 cds np nsk)"
  using assms
  by (cases cds) (simp add: chip_calls_def loop_ranges del: perform.simps)

section \<open>A configured row, condition by condition\<close>

lemma claims_hold_iff:
  "claims_hold \<lparr>q_straight = qst, q_flush = qfl, q_one_pair = q1, q_two_pair = q2,
       q_three_of_a_kind = q3, q_four_of_a_kind = q4, cards = cds, table_cards = tcs\<rparr>
     np nsk a r \<longleftrightarrow>
     (enabled a qst r \<longrightarrow> list_all (\<lambda>i. cell a (index5 cds i) r = 1) [1..<5]) \<and>
     (enabled a qfl r \<longrightarrow>
        list_all (\<lambda>i. cell a (index5 cds i) r = cell a (index5 cds (i + 1)) r) [0..<4]) \<and>
     (enabled a q1 r \<longrightarrow> cell a np r = 1) \<and>
     (enabled a q2 r \<longrightarrow> cell a np r = 2) \<and>
     (enabled a q3 r \<longrightarrow> cell a nsk r = 3) \<and>
     (enabled a q4 r \<longrightarrow> cell a nsk r = 4)"
  by (auto simp: claims_hold_def categories_def claimed_def loop_ranges)

lemma configured_gates_hold_iff:
  assumes "r < n_rows a"
  shows "row_satisfied a r
           (snd (run_state (chip_configure qfl qst q1 q2 q3 q4 cds tcs np nsk) cs)) \<longleftrightarrow>
     row_satisfied a r cs \<and>
     (enabled a qst r \<longrightarrow> list_all (\<lambda>i. cell a (index5 cds i) r = 1) [1..<5]) \<and>
     (enabled a qfl r \<longrightarrow>
        list_all (\<lambda>i. cell a (index5 cds i) r = cell a (index5 cds (i + 1)) r) [0..<4]) \<and>
     (enabled a q1 r \<longrightarrow> cell a np r = 1) \<and>
     (enabled a q2 r \<longrightarrow> cell a np r = 2) \<and>
     (enabled a q3 r \<longrightarrow> cell a nsk r = 3) \<and>
     (enabled a q4 r \<longrightarrow> cell a nsk r = 4)"
  using assms
  by (simp add: run_chip_configure row_satisfied_registered vanish_map guarded_all) blast

section \<open>The configured example\<close>

lemma example_row_satisfied_iff:
  "row_satisfied (one_row on vals) 0 example_system \<longleftrightarrow>
     claims_hold
       \<lparr>q_straight = Selector 1 True, q_flush = Selector 0 True, q_one_pair = Selector 2 True,
        q_two_pair = Selector 3 True, q_three_of_a_kind = Selector 4 True,
        q_four_of_a_kind = Selector 5 True, cards = columns5,
        table_cards = Array2 (InstanceColumn 0) (InstanceColumn 1)\<rparr>
       (AdviceColumn 5) (AdviceColumn 6) (one_row on vals) 0"
  by (simp add: example_system_def configured_gates_hold_iff claims_hold_iff cs_default_def)

section \<open>The contract of a configured row\<close>

text \<open>
  C1. Refinement. After \<open>chip_configure\<close> a row of a table satisfies the constraint
  system exactly when it satisfied the gates registered before and the contract
  \<open>claims_hold\<close> holds of it for the returned configuration: for every category whose
  selectors are enabled at the row, the category's condition on the five card cells and the
  two count cells. The seven gates implement the table of conditions of the
  specification, no more and no less.
\<close>

theorem configured_row_implements_claims:
  assumes "r < n_rows a"
  shows "row_satisfied a r
           (snd (run_state (chip_configure qfl qst q1 q2 q3 q4 cds tcs np nsk) cs)) \<longleftrightarrow>
         row_satisfied a r cs \<and>
         claims_hold (fst (run_state (chip_configure qfl qst q1 q2 q3 q4 cds tcs np nsk) cs))
           np nsk a r"
  using assms
  by (simp add: configured_gates_hold_iff) (simp add: run_chip_configure claims_hold_iff)

theorem configured_row_implements_claims_witness:
  "row_satisfied (one_row [2] [10, 23, 4, 5, 6, 1, 0 :: int]) 0
     (snd (run_state
        (chip_configure (Selector 0 True) (Selector 1 True) (Selector 2 True) (Selector 3 True)
           (Selector 4 True) (Selector 5 True) columns5
           (Array2 (InstanceColumn 0) (InstanceColumn 1)) (AdviceColumn 5) (AdviceColumn 6))
        cs_default))"
  by (rule configured_row_implements_claims [THEN iffD2])
     (simp_all add: run_chip_configure claims_hold_iff cs_default_def)

section \<open>The gates, one by one\<close>

text \<open>
  C2. The polynomials of the straight gate all vanish at a row exactly when the straight
  selector is off there or each of the card cells 1 to 4 holds the field element 1. The
  first card cell is not read, and no cell is compared with its neighbour: five cards of
  consecutive ranks do not satisfy the gate.
\<close>

theorem straight_gate_forces_ones:
  assumes "r < n_rows a"
  shows "list_all (\<lambda>p. evaluate a r p = 0) (fst (run_state (straight_gate q cds) vc)) \<longleftrightarrow>
           (enabled a q r \<longrightarrow> list_all (\<lambda>i. cell a (index5 cds i) r = 1) [1..<5])"
  using assms by (simp add: run_straight_gate vanish_map guarded_all)

theorem straight_gate_forces_ones_witness:
  "list_all (\<lambda>p. evaluate (one_row [1] [7, 1, 1, 1, 1 :: int]) 0 p = 0)
     (fst (run_state (straight_gate (Selector 1 True) columns5) (new_virtual_cells cs_default)))"
  by (rule straight_gate_forces_ones [THEN iffD2]) (simp_all add: columns5_def loop_ranges)

text \<open>
  C3. The polynomials of the flush gate all vanish at a row exactly when the flush
  selector is off there or every card cell equals the next one, that is, all five card
  cells hold the same field element.
\<close>

theorem flush_gate_forces_equal_cells:
  assumes "r < n_rows a"
  shows "list_all (\<lambda>p. evaluate a r p = 0) (fst (run_state (flush_gate q cds) vc)) \<longleftrightarrow>
           (enabled a q r \<longrightarrow>
              list_all (\<lambda>i. cell a (index5 cds i) r = cell a (index5 cds (i + 1)) r) [0..<4])"
  using assms by (simp add: run_flush_gate vanish_map guarded_all)

theorem flush_gate_forces_equal_cells_witness:
  "list_all (\<lambda>p. evaluate (one_row [0] [9, 9, 9, 9, 9 :: int]) 0 p = 0)
     (fst (run_state (flush_gate (Selector 0 True) columns5) (new_virtual_cells cs_default)))"
  by (rule flush_gate_forces_equal_cells [THEN iffD2])
     (simp_all add: columns5_def loop_ranges)

text \<open>
  C9. Each of the four count gates holds at a row exactly when its selector is off or the
  count cell it reads holds its constant: 1 in \<^verbatim>\<open>num_of_pair\<close> for one pair, 2 in
  \<^verbatim>\<open>num_of_pair\<close> for two pair, 3 in \<^verbatim>\<open>num_of_same_kind\<close> for three of a
  kind, 4 in \<^verbatim>\<open>num_of_same_kind\<close> for four of a kind. No card cell is read.
\<close>

theorem count_gates_check_counts:
  assumes "r < n_rows a"
  shows "(list_all (\<lambda>p. evaluate a r p = 0) (fst (run_state (one_pair_gate q1 np) vc)) \<longleftrightarrow>
            (enabled a q1 r \<longrightarrow> cell a np r = 1)) \<and>
         (list_all (\<lambda>p. evaluate a r p = 0) (fst (run_state (two_pair_gate q2 np) vc)) \<longleftrightarrow>
            (enabled a q2 r \<longrightarrow> cell a np r = 2)) \<and>
         (list_all (\<lambda>p. evaluate a r p = 0)
            (fst (run_state (three_of_a_kind_gate q3 nsk) vc)) \<longleftrightarrow>
            (enabled a q3 r \<longrightarrow> cell a nsk r = 3)) \<and>
         (list_all (\<lambda>p. evaluate a r p = 0)
            (fst (run_state (four_of_a_kind_gate q4 nsk) vc)) \<longleftrightarrow>
            (enabled a q4 r \<longrightarrow> cell a nsk r = 4))"
  using assms by (auto simp: run_count_gates)

theorem count_gates_check_counts_witness:
  "list_all (\<lambda>p. evaluate (one_row [2, 5] [8, 8, 8, 8, 5, 1, 4 :: int]) 0 p = 0)
     (fst (run_state (one_pair_gate (Selector 2 True) (AdviceColumn 5))
        (new_virtual_cells cs_default))) \<and>
   \<not> list_all (\<lambda>p. evaluate (one_row [3] [8, 8, 8, 8, 5, 1, 4 :: int]) 0 p = 0)
     (fst (run_state (two_pair_gate (Selector 3 True) (AdviceColumn 5))
        (new_virtual_cells cs_default))) \<and>
   \<not> list_all (\<lambda>p. evaluate (one_row [4] [8, 8, 8, 8, 5, 1, 4 :: int]) 0 p = 0)
     (fst (run_state (three_of_a_kind_gate (Selector 4 True) (AdviceColumn 6))
        (new_virtual_cells cs_default))) \<and>
   list_all (\<lambda>p. evaluate (one_row [2, 5] [8, 8, 8, 8, 5, 1, 4 :: int]) 0 p = 0)
     (fst (run_state (four_of_a_kind_gate (Selector 5 True) (AdviceColumn 6))
        (new_virtual_cells cs_default)))"
  using
    count_gates_check_counts [of 0 "one_row [2, 5] [8, 8, 8, 8, 5, 1, 4 :: int]"
      "Selector 2 True" "AdviceColumn 5" "new_virtual_cells cs_default" _ _ "AdviceColumn 6"
      "Selector 5 True"]
    count_gates_check_counts [of 0 "one_row [3] [8, 8, 8, 8, 5, 1, 4 :: int]"
      _ "AdviceColumn 5" "new_virtual_cells cs_default" "Selector 3 True"]
    count_gates_check_counts [of 0 "one_row [4] [8, 8, 8, 8, 5, 1, 4 :: int]"
      _ _ "new_virtual_cells cs_default" _ "Selector 4 True" "AdviceColumn 6"]
  by simp

text \<open>
  C10. The full-house gate has no selector of its own: it holds at a row exactly when the
  three-of-a-kind selector is off or \<^verbatim>\<open>num_of_same_kind\<close> is 3, and the one-pair
  selector is off or \<^verbatim>\<open>num_of_pair\<close> is 1. With both selectors on it asks for both
  counts, the specification's full house.
\<close>

theorem full_house_gate_checks_both:
  assumes "r < n_rows a"
  shows "list_all (\<lambda>p. evaluate a r p = 0)
           (fst (run_state (full_house_gate q1 q3 np nsk) vc)) \<longleftrightarrow>
           (enabled a q3 r \<longrightarrow> cell a nsk r = 3) \<and> (enabled a q1 r \<longrightarrow> cell a np r = 1)"
  using assms by (auto simp: run_count_gates)

theorem full_house_gate_checks_both_witness:
  "list_all (\<lambda>p. evaluate (one_row [2, 4] [8, 8, 8, 3, 3, 1, 3 :: int]) 0 p = 0)
     (fst (run_state
        (full_house_gate (Selector 2 True) (Selector 4 True) (AdviceColumn 5) (AdviceColumn 6))
        (new_virtual_cells cs_default)))"
  by (rule full_house_gate_checks_both [THEN iffD2]) simp_all

section \<open>The system as a whole\<close>

text \<open>
  C20. Equivalence. The full-house gate adds nothing: a row satisfies the configured
  system exactly when it satisfies the system without that gate, because its two
  polynomials are those of the three-of-a-kind and the one-pair gate.
\<close>

theorem full_house_gate_redundant:
  assumes "r < n_rows a"
  shows "row_satisfied a r
           (snd (run_state (chip_configure qfl qst q1 q2 q3 q4 cds tcs np nsk) cs)) \<longleftrightarrow>
         row_satisfied a r (without_last_gate
           (snd (run_state (chip_configure qfl qst q1 q2 q3 q4 cds tcs np nsk) cs)))"
  using assms
  by (simp add: run_chip_configure without_last_gate_def butlast_append row_satisfied_def
        vanish_map guarded_all) blast

theorem full_house_gate_redundant_witness:
  "row_satisfied (one_row [2, 4] [8, 8, 8, 3, 3, 1, 3]) 0 (without_last_gate example_system)"
  unfolding example_system_def
  by (rule full_house_gate_redundant [THEN iffD1])
     (simp_all add: configured_gates_hold_iff cs_default_def)

text \<open>
  A row on which none of the six selectors is enabled satisfies the seven gates whatever
  its cells hold: the selectors, not the cell values, switch the constraints on.
\<close>

lemma unclaimed_row_satisfied:
  assumes "r < n_rows a"
    and "list_all (\<lambda>q. \<not> enabled a q r) [qfl, qst, q1, q2, q3, q4]"
  shows "row_satisfied a r
           (snd (run_state (chip_configure qfl qst q1 q2 q3 q4 cds tcs np nsk) cs)) \<longleftrightarrow>
         row_satisfied a r cs"
  using assms by (simp add: configured_gates_hold_iff)

lemma unclaimed_row_example:
  "row_satisfied (one_row [] [2, 9, 4, 11, 6, 0, 0]) 0 example_system"
  unfolding example_system_def
  by (rule unclaimed_row_satisfied [THEN iffD2]) (simp_all add: cs_default_def)

text \<open>
  One pair and two pair cannot be claimed on the same row, nor three and four of a
  kind: the count cell would have to hold two different field elements. This needs
  \<open>1 \<noteq> 2\<close> and \<open>3 \<noteq> 4\<close> only, which hold in every field.
\<close>

lemma contradictory_claims_unsatisfiable:
  assumes "r < n_rows a"
    and "enabled a q1 r \<and> enabled a q2 r \<or> enabled a q3 r \<and> enabled a q4 r"
  shows "\<not> row_satisfied a r
           (snd (run_state (chip_configure qfl qst q1 q2 q3 q4 cds tcs np nsk) cs))"
  using assms by (auto simp: configured_gates_hold_iff)

lemma contradictory_claims_example:
  "\<not> row_satisfied (one_row [2, 3] [8, 8, 3, 3, 5, 2, 0]) 0 example_system"
  unfolding example_system_def
  by (rule contradictory_claims_unsatisfiable) simp_all

text \<open>
  C22. No gate reads an instance column: replacing the public inputs of a table by any
  others changes nothing about which rows satisfy the configured system. The three public
  cards are therefore not bound to the card cells by the constraint system.
\<close>

theorem gates_never_read_public_columns:
  assumes "r < n_rows a"
    and "row_satisfied (a\<lparr>instance_at := pub\<rparr>) r cs \<longleftrightarrow> row_satisfied a r cs"
  shows "row_satisfied (a\<lparr>instance_at := pub\<rparr>) r
           (snd (run_state (chip_configure qfl qst q1 q2 q3 q4 cds tcs np nsk) cs)) \<longleftrightarrow>
         row_satisfied a r
           (snd (run_state (chip_configure qfl qst q1 q2 q3 q4 cds tcs np nsk) cs))"
  using assms by (simp add: configured_gates_hold_iff)

theorem gates_never_read_public_columns_witness:
  "row_satisfied ((one_row [2] [8, 8, 3, 4, 5, 1, 0])\<lparr>instance_at := (\<lambda>c r. 51)\<rparr>) 0
     example_system"
  unfolding example_system_def
  by (rule gates_never_read_public_columns [THEN iffD2])
     (simp_all add: configured_gates_hold_iff cs_default_def)

text \<open>
  When neither straight nor flush is claimed on a row, the card cells do not matter:
  two tables that agree on the two count cells of the row satisfy the configured system
  alike. A pair, two-pair, three-, four-of-a-kind or full-house claim is a claim about the
  count cells only, which the prover supplies.
\<close>

lemma count_claims_ignore_cards:
  assumes "r < n_rows a"
    and "\<not> enabled a qst r" and "\<not> enabled a qfl r"
    and "v (advice_index np) r = cell a np r" and "v (advice_index nsk) r = cell a nsk r"
    and "row_satisfied (a\<lparr>advice_at := v\<rparr>) r cs \<longleftrightarrow> row_satisfied a r cs"
  shows "row_satisfied (a\<lparr>advice_at := v\<rparr>) r
           (snd (run_state (chip_configure qfl qst q1 q2 q3 q4 cds tcs np nsk) cs)) \<longleftrightarrow>
         row_satisfied a r
           (snd (run_state (chip_configure qfl qst q1 q2 q3 q4 cds tcs np nsk) cs))"
  using assms by (simp add: configured_gates_hold_iff)

lemma count_claims_ignore_cards_example:
  "row_satisfied
     ((one_row [2] [8, 8, 3, 4, 5, 1, 0])\<lparr>advice_at := (\<lambda>c r. if c = 5 then 1 else 0)\<rparr>) 0
     example_system"
  unfolding example_system_def
  by (rule count_claims_ignore_cards [THEN iffD2])
     (simp_all add: configured_gates_hold_iff cs_default_def)


text \<open>
  \<open>chip_configure\<close> appends seven gates, named and ordered as in the source, keeps
  the gates registered before, and allocates nothing: the numbers of selectors, advice
  columns and instance columns are unchanged.
\<close>

lemma chip_configure_registers:
  "map gate_name
     (gates (snd (run_state (chip_configure qfl qst q1 q2 q3 q4 cds tcs np nsk) cs))) =
     map gate_name (gates cs) @
       [''straight'', ''flush'', ''one pair'', ''two pair'', ''three of a kind'',
        ''four of a kind'', ''full house''] \<and>
   num_selectors (snd (run_state (chip_configure qfl qst q1 q2 q3 q4 cds tcs np nsk) cs)) =
     num_selectors cs \<and>
   num_advice_columns
     (snd (run_state (chip_configure qfl qst q1 q2 q3 q4 cds tcs np nsk) cs)) =
     num_advice_columns cs \<and>
   num_instance_columns
     (snd (run_state (chip_configure qfl qst q1 q2 q3 q4 cds tcs np nsk) cs)) =
     num_instance_columns cs"
  by (simp add: run_chip_configure)

text \<open>
  \<open>chip_configure\<close> keeps the constraint system well formed when the selectors and
  advice columns it is given have been allocated on it.
\<close>

lemma cs_wf_chip_configure:
  assumes "cs_wf cs"
    and "list_all (\<lambda>q. selector_index q < num_selectors cs) [qfl, qst, q1, q2, q3, q4]"
    and "list_all (\<lambda>c. advice_index c < num_advice_columns cs) (list_of5 cds @ [np, nsk])"
  shows "cs_wf (snd (run_state (chip_configure qfl qst q1 q2 q3 q4 cds tcs np nsk) cs))"
  using assms by (cases cds) (simp add: run_chip_configure cs_wf_def gate_wf_def loop_ranges)

end
