(* ===== verification/Plonk_Region.thy ===== *)
theory Plonk_Region
  imports Plonk_Expression
begin

text \<open>
  The witness assigner's handle on the proving backend: a layouter that opens one
  region per call and a region that writes cells. The backend is not part of the
  repository; the operations are those the specification lists for the handle
  (\<open>begin_region\<close>, \<open>Region.assign(column, row, value)\<close> returning a result, a region
  finalised when its scope ends), in the calling convention of the source
  (\<^verbatim>\<open>layouter.assign_region(name, closure)\<close>,
  \<^verbatim>\<open>region.assign_advice(annotation, column, offset, value)\<close>). A write is
  rejected when the column is not one of the declared advice columns or the cell has
  been written before; a region whose closure fails leaves the layouter as it was.
  The theory also holds the invariant of a layout (assigned cells lie in declared
  columns), its shape, and the table a completed layout hands to the backend.
\<close>

section \<open>Errors and values\<close>

text \<open>
  The two write rejections of the backend, and the one way the source itself can stop:
  the \<^verbatim>\<open>unwrap\<close> of a failed conversion, a panic rather than an error value.
\<close>

datatype error =
    CellAlreadyAssigned nat nat
  | ColumnNotInSchema nat
  | UnwrapPanic

text \<open>
  A \<^verbatim>\<open>Value\<close> is known or not: \<open>None\<close> is \<^verbatim>\<open>Value::unknown()\<close>, the
  placeholder of the passes that only need the circuit's shape.
\<close>

type_synonym 'f val = "'f option"

section \<open>State\<close>

record 'v region =
  region_name :: string
  region_columns :: nat
  region_cells :: "nat \<times> nat \<rightharpoonup> 'v"

record 'v layouter =
  declared_columns :: nat
  table :: "nat \<times> nat \<rightharpoonup> 'v"
  regions :: "string list"

definition new_layouter :: "nat \<Rightarrow> 'v layouter" where
  "new_layouter n = \<lparr>declared_columns = n, table = Map.empty, regions = []\<rparr>"

section \<open>Operations\<close>

definition assign_advice ::
  "string \<Rightarrow> advice_column \<Rightarrow> nat \<Rightarrow> 'v \<Rightarrow> 'v region \<Rightarrow> (error, 'v region) result" where
  "assign_advice annotation column offset to region =
     (if region_columns region \<le> advice_index column
        then Inl (ColumnNotInSchema (advice_index column))
      else if region_cells region (advice_index column, offset) \<noteq> None
        then Inl (CellAlreadyAssigned (advice_index column) offset)
      else Inr (region\<lparr>region_cells :=
             (region_cells region)((advice_index column, offset) \<mapsto> to)\<rparr>))"

definition begin_region :: "string \<Rightarrow> 'v layouter \<Rightarrow> 'v region" where
  "begin_region name layouter =
     \<lparr>region_name = name, region_columns = declared_columns layouter,
      region_cells = table layouter\<rparr>"

definition assign_region ::
  "string \<Rightarrow> ('v region \<Rightarrow> (error, 'v region) result) \<Rightarrow> 'v layouter \<Rightarrow>
     (error, 'v layouter) result" where
  "assign_region name assignment layouter =
     and_then (assignment (begin_region name layouter))
       (\<lambda>region. Inr (layouter\<lparr>table := region_cells region,
                                  regions := regions layouter @ [name]\<rparr>))"

definition namespace :: "string \<Rightarrow> 'v layouter \<Rightarrow> 'v layouter" where
  "namespace name layouter = layouter"

section \<open>Well-formed layouts\<close>

text \<open>Every assigned cell lies in a declared column.\<close>

definition region_wf :: "'v region \<Rightarrow> bool" where
  "region_wf r \<longleftrightarrow> (\<forall>k \<in> dom (region_cells r). fst k < region_columns r)"

definition layouter_wf :: "'v layouter \<Rightarrow> bool" where
  "layouter_wf l \<longleftrightarrow> (\<forall>k \<in> dom (table l). fst k < declared_columns l)"

section \<open>Shapes and tables\<close>

text \<open>
  The shape of a region or a layouter is what does not depend on the values written:
  the declared columns, the set of assigned cells, the regions opened. The backend asks
  that a circuit lays out the same shape whatever its witness is.
\<close>

definition region_shape :: "'v region \<Rightarrow> nat \<times> (nat \<times> nat) set" where
  "region_shape r = (region_columns r, dom (region_cells r))"

definition layouter_shape :: "'v layouter \<Rightarrow> nat \<times> (nat \<times> nat) set \<times> string list" where
  "layouter_shape l = (declared_columns l, dom (table l), regions l)"

text \<open>
  The table the backend checks once the caller has completed the layouter's cells: the
  known values the layouter holds, \<open>rest\<close> in every other advice cell, the selector
  flags \<open>on\<close> and the public inputs \<open>inst\<close>. Every table that agrees with the
  layouter on its known cells is of this form.
\<close>

definition completed_table ::
  "'f val layouter \<Rightarrow> nat \<Rightarrow> (nat \<Rightarrow> nat \<Rightarrow> bool) \<Rightarrow> (nat \<Rightarrow> nat \<Rightarrow> 'f) \<Rightarrow> (nat \<Rightarrow> nat \<Rightarrow> 'f) \<Rightarrow>
     'f assignment" where
  "completed_table l n on rest inst =
     \<lparr>n_rows = n, selector_on = on,
      advice_at = (\<lambda>c r. case table l (c, r) of Some (Some v) \<Rightarrow> v | _ \<Rightarrow> rest c r),
      instance_at = inst\<rparr>"

lemmas [region_defs] =
  assign_advice_def begin_region_def assign_region_def namespace_def new_layouter_def

section \<open>A write, case by case\<close>

lemma assign_advice_ok:
  "advice_index column < region_columns region \<Longrightarrow>
   region_cells region (advice_index column, offset) = None \<Longrightarrow>
     assign_advice annotation column offset to region =
       Inr (region\<lparr>region_cells :=
              (region_cells region)((advice_index column, offset) \<mapsto> to)\<rparr>)"
  by (simp add: assign_advice_def)

lemma assign_advice_undeclared:
  "region_columns region \<le> advice_index column \<Longrightarrow>
     assign_advice annotation column offset to region =
       Inl (ColumnNotInSchema (advice_index column))"
  by (simp add: assign_advice_def)

lemma assign_advice_twice:
  "advice_index column < region_columns region \<Longrightarrow>
   region_cells region (advice_index column, offset) = Some v \<Longrightarrow>
     assign_advice annotation column offset to region =
       Inl (CellAlreadyAssigned (advice_index column) offset)"
  by (simp add: assign_advice_def)

lemma assign_advice_Inr_iff:
  "assign_advice annotation column offset to region = Inr region' \<longleftrightarrow>
     advice_index column < region_columns region \<and>
     region_cells region (advice_index column, offset) = None \<and>
     region' = region\<lparr>region_cells :=
                 (region_cells region)((advice_index column, offset) \<mapsto> to)\<rparr>"
  by (auto simp: assign_advice_def)

lemma assign_advice_Inl_iff:
  "assign_advice annotation column offset to region = Inl e \<longleftrightarrow>
     region_columns region \<le> advice_index column \<and> e = ColumnNotInSchema (advice_index column) \<or>
     advice_index column < region_columns region \<and>
       region_cells region (advice_index column, offset) \<noteq> None \<and>
       e = CellAlreadyAssigned (advice_index column) offset"
  by (auto simp: assign_advice_def)

text \<open>A write after a sequence of writes: the cells written before count as occupied.\<close>

lemma assign_advice_after_writes:
  "assign_advice ann col off v (region\<lparr>region_cells := write_cells kvs m\<rparr>) = Inl e \<longleftrightarrow>
     region_columns region \<le> advice_index col \<and> e = ColumnNotInSchema (advice_index col) \<or>
     advice_index col < region_columns region \<and>
       (m (advice_index col, off) \<noteq> None \<or> (advice_index col, off) \<in> set (map fst kvs)) \<and>
       e = CellAlreadyAssigned (advice_index col) off"
  by (simp add: assign_advice_Inl_iff write_cells_eq_None_iff)

lemma assign_advice_never_panics:
  "assign_advice annotation column offset to region \<noteq> Inl UnwrapPanic"
  by (simp add: assign_advice_def)

section \<open>Regions are all or nothing\<close>

lemma assign_region_Inr_iff:
  "assign_region name f layouter = Inr layouter' \<longleftrightarrow>
     (\<exists>region. f (begin_region name layouter) = Inr region \<and>
        layouter' = layouter\<lparr>table := region_cells region,
                              regions := regions layouter @ [name]\<rparr>)"
  by (auto simp: assign_region_def and_then_Inr_iff)

lemma assign_region_Inl_iff:
  "assign_region name f layouter = Inl e \<longleftrightarrow> f (begin_region name layouter) = Inl e"
  by (auto simp: assign_region_def and_then_Inl_iff)

lemma begin_region_simps [simp]:
  "region_name (begin_region name layouter) = name"
  "region_columns (begin_region name layouter) = declared_columns layouter"
  "region_cells (begin_region name layouter) = table layouter"
  by (simp_all add: begin_region_def)

lemma namespace_id [simp]: "namespace name layouter = layouter"
  by (simp add: namespace_def)

section \<open>Writes keep a layout well formed\<close>

lemma layouter_wf_new [simp]: "layouter_wf (new_layouter n)"
  by (simp add: layouter_wf_def new_layouter_def)

lemma region_wf_begin [simp]: "region_wf (begin_region name l) = layouter_wf l"
  by (simp add: region_wf_def layouter_wf_def)

lemma assign_advice_wf:
  "region_wf r \<Longrightarrow> assign_advice ann col off v r = Inr r' \<Longrightarrow>
     region_wf r' \<and> region_columns r' = region_columns r"
  by (auto simp: assign_advice_Inr_iff region_wf_def)

lemma assign_region_wf:
  assumes "\<And>r r'. region_wf r \<Longrightarrow> f r = Inr r' \<Longrightarrow>
             region_wf r' \<and> region_columns r' = region_columns r"
    and "layouter_wf l" and "assign_region name f l = Inr l'"
  shows "layouter_wf l'"
proof -
  from assms(3) obtain r where r: "f (begin_region name l) = Inr r"
    and l': "l' = l\<lparr>table := region_cells r, regions := regions l @ [name]\<rparr>"
    by (auto simp: assign_region_Inr_iff)
  from assms(1) [OF _ r] assms(2) have "region_wf r" "region_columns r = declared_columns l"
    by simp_all
  then show ?thesis
    by (simp add: l' layouter_wf_def region_wf_def)
qed

section \<open>Shapes do not depend on values\<close>

lemma assign_advice_shape:
  assumes "region_shape r1 = region_shape r2"
  shows "map_ok region_shape (assign_advice ann col off v1 r1) =
         map_ok region_shape (assign_advice ann col off v2 r2)"
proof -
  from assms have "region_columns r1 = region_columns r2"
    and "dom (region_cells r1) = dom (region_cells r2)"
    by (simp_all add: region_shape_def)
  moreover from this have
    "region_cells r1 (advice_index col, off) = None \<longleftrightarrow>
     region_cells r2 (advice_index col, off) = None"
    by (metis domIff)
  ultimately show ?thesis
    by (simp add: assign_advice_def region_shape_def)
qed

lemma assign_region_shape:
  assumes "map_ok region_shape (f (begin_region name lay)) =
           map_ok region_shape (g (begin_region name lay))"
  shows "map_ok layouter_shape (assign_region name f lay) =
         map_ok layouter_shape (assign_region name g lay)"
  using assms
  by (cases "f (begin_region name lay)"; cases "g (begin_region name lay)")
     (simp_all add: assign_region_def layouter_shape_def region_shape_def)

section \<open>Reading a completed table\<close>

lemma completed_table_simps [simp]:
  "n_rows (completed_table l n on rest inst) = n"
  "enabled (completed_table l n on rest inst) q r = on (selector_index q) r"
  "cell (completed_table l n on rest inst) c r =
     (case table l (advice_index c, r) of Some (Some v) \<Rightarrow> v | _ \<Rightarrow> rest (advice_index c) r)"
  by (simp_all add: completed_table_def enabled_def cell_def)

end
