(* ===== verification/Holdem_Assign.thy ===== *)
theory Holdem_Assign
  imports Plonk_Region Holdem_Config
begin

text \<open>
  The witness assigner: \<^verbatim>\<open>VanillaHoldemChip::assign_card\<close>, which puts the two
  private and the three public card values into the five card columns of row 0 of one
  region. \<open>assign_card_Inr_iff\<close> characterises a successful call; the theorems give
  what is written, when the call succeeds, how it fails, and what it preserves.
\<close>

section \<open>Assigning a hand\<close>

text \<open>
  The five values in the order of the columns: the private cards, then the public ones.
  The conversion to an array of five is the one place where the source can panic.
\<close>

definition hand_of :: "'v array2 \<Rightarrow> 'v array3 \<Rightarrow> 'v array5 option" where
  "hand_of cds tcs = try_into5 (list_of2 cds @ list_of3 tcs)"

text \<open>
  The loop of the region closure: one write per index, the first rejection ends it
  (the \<^verbatim>\<open>?\<close> of the source).
\<close>

fun assign_cells ::
  "VanillaHoldemConfig \<Rightarrow> 'v array5 \<Rightarrow> nat list \<Rightarrow> 'v region \<Rightarrow> (error, 'v region) result"
  where
  "assign_cells cfg hnd [] region = Inr region"
| "assign_cells cfg hnd (i # is) region =
     and_then (assign_advice ''cards'' (index5 (cards cfg) i) 0 (index5 hnd i) region)
       (assign_cells cfg hnd is)"

definition hand_check ::
  "VanillaHoldemConfig \<Rightarrow> 'v array5 \<Rightarrow> 'v region \<Rightarrow> (error, 'v region) result" where
  "hand_check cfg hnd region = and_then (assign_cells cfg hnd [0..<5] region) Inr"

definition assign_card ::
  "'f VanillaHoldemChip \<Rightarrow> 'f val array2 \<Rightarrow> 'f val array3 \<Rightarrow> 'f val layouter \<Rightarrow>
     (error, 'f val layouter) result" where
  "assign_card self cds tcs layouter =
     (case hand_of cds tcs of
        None \<Rightarrow> Inl UnwrapPanic
      | Some hnd \<Rightarrow> assign_region ''hand check'' (hand_check (config self) hnd) layouter)"

text \<open>
  What the loop is meant to write, as a list of cells: for each index the cell of the
  card column at row 0 and the value of the hand at that index.
\<close>

definition hand_cells ::
  "VanillaHoldemConfig \<Rightarrow> 'v array5 \<Rightarrow> nat list \<Rightarrow> ((nat \<times> nat) \<times> 'v) list" where
  "hand_cells cfg hnd is =
     map (\<lambda>i. ((advice_index (index5 (cards cfg) i), 0), index5 hnd i)) is"

text \<open>
  The layouter of the examples: seven declared advice columns, and the five cells of row
  0 that one call of \<open>assign_card\<close> on \<open>example_config\<close> fills.
\<close>

definition example_layouter :: "int val layouter" where
  "example_layouter =
     \<lparr>declared_columns = 7,
      table = [(0, 0) \<mapsto> Some 14, (1, 0) \<mapsto> Some 27, (2, 0) \<mapsto> Some 3,
               (3, 0) \<mapsto> Some 40, (4, 0) \<mapsto> Some 5],
      regions = [''hand check'']\<rparr>"

lemmas [holdem_defs] = hand_of_def hand_check_def assign_card_def

section \<open>The hand\<close>

lemma hand_of_arrays [simp]: "hand_of (Array2 a b) (Array3 c d e) = Some (Array5 a b c d e)"
  by (simp add: hand_of_def)

lemma hand_of_total: "\<exists>hnd. hand_of cds tcs = Some hnd"
  by (cases cds; cases tcs) simp

section \<open>The cells of a hand\<close>

lemma hand_cells_simps [simp]:
  "hand_cells cfg hnd [] = []"
  "hand_cells cfg hnd (i # is) =
     ((advice_index (index5 (cards cfg) i), 0), index5 hnd i) # hand_cells cfg hnd is"
  by (simp_all add: hand_cells_def)

lemma keys_hand_cells:
  "map fst (hand_cells cfg hnd [0..<5]) = map (\<lambda>c. (advice_index c, 0)) (list_of5 (cards cfg))"
  by (simp add: hand_cells_def list_of5_index5 comp_def)

lemma values_hand_cells: "map snd (hand_cells cfg hnd [0..<5]) = list_of5 hnd"
  by (simp add: hand_cells_def list_of5_index5 comp_def)

lemma keys_hand_cells_upt:
  "i \<le> 5 \<Longrightarrow> map fst (hand_cells cfg hnd [0..<i]) =
     map (\<lambda>k. (k, 0)) (take i (map advice_index (list_of5 (cards cfg))))"
  by (simp add: hand_cells_def list_of5_index5 take_map comp_def)

lemma hand_cells_zip:
  "hand_cells cfg (Array5 a b c d e) [0..<5] =
     zip (map (\<lambda>c. (advice_index c, 0)) (list_of5 (cards cfg))) [a, b, c, d, e]"
  by (cases "cards cfg") (simp add: upt_0_5)

lemma hand_keys_dom:
  "dom (map_of (hand_cells cfg hnd [0..<5])) =
     (\<lambda>c. (advice_index c, 0)) ` set (list_of5 (cards cfg))"
  by (simp only: dom_map_of_conv_image_fst set_map [symmetric] keys_hand_cells)

section \<open>The loop of writes\<close>

text \<open>
  The loop succeeds exactly when every cell it is to write is in a declared column, no
  two of them coincide and none is occupied; the region then holds the cells written in
  order. Otherwise it stops at the first rejected write with the backend's error.
\<close>

lemma assign_cells_Inr_iff:
  "assign_cells cfg hnd is region = Inr region' \<longleftrightarrow>
     list_all (\<lambda>k. fst k < region_columns region) (map fst (hand_cells cfg hnd is)) \<and>
     distinct (map fst (hand_cells cfg hnd is)) \<and>
     list_all (\<lambda>k. region_cells region k = None) (map fst (hand_cells cfg hnd is)) \<and>
     region' = region\<lparr>region_cells := write_cells (hand_cells cfg hnd is) (region_cells region)\<rparr>"
proof (induction "is" arbitrary: region)
  case Nil
  then show ?case by auto
next
  case (Cons i "is")
  show ?case
    by (auto simp: and_then_Inr_iff assign_advice_Inr_iff Cons.IH list_all_iff image_iff)
qed

lemma assign_cells_append:
  "assign_cells cfg hnd (is @ js) r =
     and_then (assign_cells cfg hnd is r) (assign_cells cfg hnd js)"
  by (induction "is" arbitrary: r) (auto simp: and_then_def split: sum.splits)

text \<open>
  The loop fails exactly when some write is rejected after the writes before it have
  succeeded.
\<close>

lemma assign_cells_stops:
  "assign_cells cfg hnd is r = Inl e \<longleftrightarrow>
     (\<exists>pre i post r'. is = pre @ i # post \<and> assign_cells cfg hnd pre r = Inr r' \<and>
        assign_advice ''cards'' (index5 (cards cfg) i) 0 (index5 hnd i) r' = Inl e)"
  (is "?stops is r \<longleftrightarrow> ?split is r")
proof
  show "?split is r \<Longrightarrow> ?stops is r"
    by (auto simp: assign_cells_append)
  show "?stops is r \<Longrightarrow> ?split is r"
  proof (induction "is" arbitrary: r)
    case Nil
    then show ?case by simp
  next
    case (Cons i "is")
    let ?w = "assign_advice ''cards'' (index5 (cards cfg) i) 0 (index5 hnd i) r"
    from Cons.prems consider "?w = Inl e"
      | r1 where "?w = Inr r1" and "assign_cells cfg hnd is r1 = Inl e"
      by (auto simp: and_then_Inl_iff)
    then show ?case
    proof cases
      case 1
      then have "i # is = [] @ i # is \<and> assign_cells cfg hnd [] r = Inr r \<and> ?w = Inl e"
        by simp
      then show ?thesis by blast
    next
      case 2
      from Cons.IH [OF 2(2)] obtain pre j post r' where "is = pre @ j # post"
        and "assign_cells cfg hnd pre r1 = Inr r'"
        and "assign_advice ''cards'' (index5 (cards cfg) j) 0 (index5 hnd j) r' = Inl e"
        by blast
      with 2(1) have "i # is = (i # pre) @ j # post \<and>
          assign_cells cfg hnd (i # pre) r = Inr r' \<and>
          assign_advice ''cards'' (index5 (cards cfg) j) 0 (index5 hnd j) r' = Inl e"
        by simp
      then show ?thesis by blast
    qed
  qed
qed


lemma assign_cells_shape:
  "region_shape r1 = region_shape r2 \<Longrightarrow>
     map_ok region_shape (assign_cells cfg h1 is r1) =
     map_ok region_shape (assign_cells cfg h2 is r2)"
proof (induction "is" arbitrary: r1 r2)
  case Nil
  then show ?case by simp
next
  case (Cons i "is")
  let ?x = "assign_advice ''cards'' (index5 (cards cfg) i) 0 (index5 h1 i) r1"
  let ?y = "assign_advice ''cards'' (index5 (cards cfg) i) 0 (index5 h2 i) r2"
  have "map_ok region_shape ?x = map_ok region_shape ?y"
    using Cons.prems by (rule assign_advice_shape)
  then show ?case
    by (cases ?x; cases ?y) (simp_all add: Cons.IH)
qed

section \<open>The whole call\<close>

lemma assign_card_Inr_iff:
  "assign_card self (Array2 a b) (Array3 c d e) lay = Inr lay' \<longleftrightarrow>
     list_all (\<lambda>c. advice_index c < declared_columns lay) (list_of5 (cards (config self))) \<and>
     distinct (map advice_index (list_of5 (cards (config self)))) \<and>
     list_all (\<lambda>c. table lay (advice_index c, 0) = None) (list_of5 (cards (config self))) \<and>
     lay' = lay\<lparr>table := table lay ++ map_of (hand_cells (config self) (Array5 a b c d e) [0..<5]),
                regions := regions lay @ [''hand check'']\<rparr>"
  by (auto simp: assign_card_def assign_region_Inr_iff hand_check_def and_then_Inr_iff
        assign_cells_Inr_iff keys_hand_cells distinct_keys list.pred_map comp_def
        write_cells_distinct)

lemma assign_card_Inl_iff:
  "assign_card self cds tcs lay = Inl e \<longleftrightarrow>
     (\<exists>i<5. \<exists>r. assign_cells (config self) (the (hand_of cds tcs)) [0..<i]
                  (begin_region ''hand check'' lay) = Inr r \<and>
        assign_advice ''cards'' (index5 (cards (config self)) i) 0
          (index5 (the (hand_of cds tcs)) i) r = Inl e)"
proof -
  obtain hnd where hnd: "hand_of cds tcs = Some hnd"
    using hand_of_total by blast
  show ?thesis
    by (auto simp: assign_card_def hnd assign_region_Inl_iff hand_check_def and_then_Inl_iff
          assign_cells_stops upt_eq_split_iff)
qed

lemma assign_card_Inr_table:
  assumes "assign_card self cds tcs lay = Inr lay'"
  obtains hnd where "hand_of cds tcs = Some hnd"
    and "table lay' = table lay ++ map_of (hand_cells (config self) hnd [0..<5])"
    and "declared_columns lay' = declared_columns lay"
    and "distinct (map advice_index (list_of5 (cards (config self))))"
    and "list_all (\<lambda>c. table lay (advice_index c, 0) = None) (list_of5 (cards (config self)))"
    and "list_all (\<lambda>c. advice_index c < declared_columns lay) (list_of5 (cards (config self)))"
  using assms by (cases cds; cases tcs) (auto simp: assign_card_Inr_iff)

lemma assign_card_shape:
  "map_ok layouter_shape (assign_card self c1 t1 lay) =
   map_ok layouter_shape (assign_card self c2 t2 lay)"
proof -
  obtain h1 h2 where "hand_of c1 t1 = Some h1" "hand_of c2 t2 = Some h2"
    using hand_of_total by blast
  moreover have
    "map_ok layouter_shape (assign_region ''hand check'' (hand_check (config self) h1) lay) =
     map_ok layouter_shape (assign_region ''hand check'' (hand_check (config self) h2) lay)"
    by (rule assign_region_shape) (simp add: hand_check_def assign_cells_shape)
  ultimately show ?thesis
    by (simp add: assign_card_def)
qed

lemma example_assign:
  "assign_card (construct example_config)
     (Array2 (Some 14) (Some 27)) (Array3 (Some 3) (Some 40) (Some 5)) (new_layouter 7) =
   Inr example_layouter"
  by (auto simp: assign_card_Inr_iff upt_0_5 new_layouter_def example_layouter_def)

lemma example_short_layouter:
  "assign_card (construct example_config)
     (Array2 (Some 14) (Some 27)) (Array3 (Some 3) (Some 40) (Some (5::int))) (new_layouter 3) =
   Inl (ColumnNotInSchema 3)"
  by (simp add: assign_card_def assign_region_def hand_check_def upt_0_5 assign_advice_def
        new_layouter_def begin_region_def)

text \<open>
  C4. When the five card columns of the configuration are declared, pairwise different
  and their cells of row 0 are free, \<open>assign_card\<close> succeeds: it adds to the table the
  two private values in the first two card columns and the three public values in the
  last three, all in row 0, leaves every other cell as it was and records one region
  named \<^verbatim>\<open>hand check\<close>.
\<close>

theorem assign_card_writes_hand:
  assumes "list_all (\<lambda>c. advice_index c < declared_columns lay) (list_of5 (cards cfg))"
    and "distinct (map advice_index (list_of5 (cards cfg)))"
    and "list_all (\<lambda>c. table lay (advice_index c, 0) = None) (list_of5 (cards cfg))"
  shows "assign_card (construct cfg) (Array2 a b) (Array3 c d e) lay =
           Inr (lay\<lparr>table := table lay ++
                   map_of (zip (map (\<lambda>c. (advice_index c, 0)) (list_of5 (cards cfg)))
                             [a, b, c, d, e]),
                 regions := regions lay @ [''hand check'']\<rparr>)"
  using assms by (simp add: assign_card_Inr_iff hand_cells_zip)

theorem assign_card_writes_hand_witness:
  "assign_card (construct example_config)
     (Array2 (Some 14) (Some 27)) (Array3 (Some 3) (Some 40) (Some (5::int))) (new_layouter 7) =
   Inr \<lparr>declared_columns = 7,
        table = [(0, 0) \<mapsto> Some 14, (1, 0) \<mapsto> Some 27, (2, 0) \<mapsto> Some 3,
                 (3, 0) \<mapsto> Some 40, (4, 0) \<mapsto> Some 5],
        regions = [''hand check'']\<rparr>"
  by (subst assign_card_writes_hand) (auto simp: new_layouter_def)

text \<open>
  C5. \<open>assign_card\<close> succeeds if and only if the five card columns are declared on the
  layouter, are five different columns, and none of their cells of row 0 has been
  written; the values play no part, so an unknown value is accepted like a known one.
\<close>

theorem assign_card_succeeds_iff:
  "is_ok (assign_card (construct cfg) cds tcs lay) \<longleftrightarrow>
     list_all (\<lambda>c. advice_index c < declared_columns lay) (list_of5 (cards cfg)) \<and>
     distinct (map advice_index (list_of5 (cards cfg))) \<and>
     list_all (\<lambda>c. table lay (advice_index c, 0) = None) (list_of5 (cards cfg))"
  by (cases cds; cases tcs) (auto simp: is_ok_iff assign_card_Inr_iff)

section \<open>Rejections\<close>

text \<open>
  The write at index \<open>i\<close> is the first to be rejected, read off the layouter: the
  columns before it are declared, free and different, and its own is not.
\<close>

lemma rejection_at:
  assumes "i < 5"
  shows "(\<exists>r. assign_cells cfg hnd [0..<i] (begin_region name lay) = Inr r \<and>
            assign_advice ''cards'' (index5 (cards cfg) i) 0 (index5 hnd i) r = Inl e) \<longleftrightarrow>
         list_all (\<lambda>k. k < declared_columns lay \<and> table lay (k, 0) = None)
           (take i (map advice_index (list_of5 (cards cfg)))) \<and>
         distinct (take i (map advice_index (list_of5 (cards cfg)))) \<and>
         (let k = map advice_index (list_of5 (cards cfg)) ! i in
            declared_columns lay \<le> k \<and> e = ColumnNotInSchema k \<or>
            k < declared_columns lay \<and>
              (table lay (k, 0) \<noteq> None \<or>
               k \<in> set (take i (map advice_index (list_of5 (cards cfg))))) \<and>
              e = CellAlreadyAssigned k 0)"
  using assms
  by (simp add: assign_cells_Inr_iff assign_advice_after_writes keys_hand_cells_upt
        nth_list_of5 list.pred_map comp_def distinct_keys image_iff Let_def)
     (auto simp: list_all_iff)

text \<open>
  C15. \<open>assign_card\<close> fails with the error \<open>e\<close> exactly when \<open>e\<close> is the
  rejection of the first write, in the order of the card columns, that the backend does
  not accept: every column before it is declared, free at row 0 and named once, and its
  own column is either not declared, which gives \<open>ColumnNotInSchema\<close>, or declared
  with the cell of row 0 occupied, by the table or by an earlier write of the same call,
  which gives \<open>CellAlreadyAssigned\<close>. No other error occurs: the conversion of the
  five values to an array never fails, so the \<^verbatim>\<open>unwrap\<close> never panics.
\<close>

theorem assign_card_first_rejection:
  "assign_card self cds tcs lay = Inl e \<longleftrightarrow>
     (\<exists>i<5. list_all (\<lambda>k. k < declared_columns lay \<and> table lay (k, 0) = None)
               (take i (map advice_index (list_of5 (cards (config self))))) \<and>
             distinct (take i (map advice_index (list_of5 (cards (config self))))) \<and>
             (let k = map advice_index (list_of5 (cards (config self))) ! i in
                declared_columns lay \<le> k \<and> e = ColumnNotInSchema k \<or>
                k < declared_columns lay \<and>
                  (table lay (k, 0) \<noteq> None \<or>
                   k \<in> set (take i (map advice_index (list_of5 (cards (config self)))))) \<and>
                  e = CellAlreadyAssigned k 0))"
  unfolding assign_card_Inl_iff by (intro ex_cong1 conj_cong refl) (erule rejection_at)

text \<open>A configuration that names a column twice is rejected at the second occurrence.\<close>

theorem assign_card_first_rejection_witness:
  "assign_card
     (construct (example_config\<lparr>cards := Array5 (AdviceColumn 0) (AdviceColumn 1)
        (AdviceColumn 0) (AdviceColumn 3) (AdviceColumn 4)\<rparr>))
     (Array2 None None) (Array3 None None None) (new_layouter 7 :: int val layouter) =
   Inl (CellAlreadyAssigned 0 0)"
  by (rule assign_card_first_rejection [THEN iffD2], rule exI [of _ 2])
     (simp add: new_layouter_def)

text \<open>
  C30. After a successful \<open>assign_card\<close> a second call on the resulting layouter is
  rejected, whatever values it carries: its first write finds the cell of the first card
  column at row 0 occupied.
\<close>

theorem assign_card_twice_rejected:
  assumes "assign_card self cds tcs lay = Inr lay'"
  shows "assign_card self cds' tcs' lay' =
           Inl (CellAlreadyAssigned (advice_index (index5 (cards (config self)) 0)) 0)"
proof -
  from assms obtain hnd where
    tab: "table lay' = table lay ++ map_of (hand_cells (config self) hnd [0..<5])"
    and cols: "declared_columns lay' = declared_columns lay"
    and decl: "list_all (\<lambda>c. advice_index c < declared_columns lay) (list_of5 (cards (config self)))"
    by (rule assign_card_Inr_table)
  obtain hnd' where hnd': "hand_of cds' tcs' = Some hnd'"
    using hand_of_total by blast
  have "(advice_index (index5 (cards (config self)) 0), 0) \<in> dom (table lay')"
    unfolding tab dom_map_add hand_keys_dom by (simp add: index5_in_range)
  moreover have "advice_index (index5 (cards (config self)) 0) < declared_columns lay'"
    using decl cols by (simp add: list_all_iff index5_in_range)
  ultimately show ?thesis
    by (auto simp: assign_card_def hnd' assign_region_def hand_check_def upt_0_5
          assign_advice_def)
qed

theorem assign_card_twice_rejected_witness:
  "assign_card (construct example_config) (Array2 None None) (Array3 None None None)
     example_layouter = Inl (CellAlreadyAssigned 0 0)"
  using assign_card_twice_rejected [OF example_assign] by simp

section \<open>What a successful call leaves in the table\<close>

text \<open>
  C31. After a successful \<open>assign_card\<close>, reading row 0 of the five card columns in
  the order of the configuration gives back the two private values followed by the three
  public values.
\<close>

theorem assign_card_reads_back:
  assumes "assign_card self cds tcs lay = Inr lay'"
  shows "map (\<lambda>col. table lay' (advice_index col, 0)) (list_of5 (cards (config self))) =
           map Some (list_of2 cds @ list_of3 tcs)"
proof -
  from assms obtain hnd where hnd: "hand_of cds tcs = Some hnd"
    and tab: "table lay' = table lay ++ map_of (hand_cells (config self) hnd [0..<5])"
    and dist: "distinct (map advice_index (list_of5 (cards (config self))))"
    by (rule assign_card_Inr_table)
  let ?kvs = "hand_cells (config self) hnd [0..<5]"
  have "map (table lay') (map fst ?kvs) = map (Some \<circ> snd) ?kvs"
    unfolding tab using dist by (intro map_add_map_of_keys) (simp add: keys_hand_cells distinct_keys)
  also have "map (Some \<circ> snd) ?kvs = map Some (list_of5 hnd)"
    by (simp only: map_map [symmetric] values_hand_cells)
  finally have "map (\<lambda>col. table lay' (advice_index col, 0)) (list_of5 (cards (config self))) =
      map Some (list_of5 hnd)"
    by (simp add: keys_hand_cells comp_def)
  with hnd show ?thesis
    by (simp add: hand_of_def try_into5_Some_iff)
qed

theorem assign_card_reads_back_witness:
  "map (\<lambda>col. table example_layouter (advice_index col, 0)) (list_of5 (cards example_config)) =
     [Some (Some 14), Some (Some 27), Some (Some 3), Some (Some 40), Some (Some 5)]"
  using assign_card_reads_back [OF example_assign] by simp

text \<open>
  C32. A successful \<open>assign_card\<close> writes exactly five new cells, the cells of row 0 of
  the five card columns, and changes no other cell of the table: in particular it writes
  nothing to the two count columns and nothing to a public column.
\<close>

theorem assign_card_frame:
  assumes "assign_card self cds tcs lay = Inr lay'"
  shows "dom (table lay') =
           dom (table lay) \<union> (\<lambda>c. (advice_index c, 0)) ` set (list_of5 (cards (config self))) \<and>
         card (dom (table lay') - dom (table lay)) = 5 \<and>
         (\<forall>k. k \<notin> (\<lambda>c. (advice_index c, 0)) ` set (list_of5 (cards (config self))) \<longrightarrow>
              table lay' k = table lay k)"
proof -
  let ?new = "(\<lambda>c. (advice_index c, 0::nat)) ` set (list_of5 (cards (config self)))"
  from assms obtain hnd where
    tab: "table lay' = table lay ++ map_of (hand_cells (config self) hnd [0..<5])"
    and dist: "distinct (map advice_index (list_of5 (cards (config self))))"
    and free: "list_all (\<lambda>c. table lay (advice_index c, 0) = None) (list_of5 (cards (config self)))"
    by (rule assign_card_Inr_table)
  have dom: "dom (table lay') = dom (table lay) \<union> ?new"
    unfolding tab dom_map_add hand_keys_dom by (rule Un_commute)
  from free have "?new \<inter> dom (table lay) = {}"
    by (auto simp: list_all_iff)
  then have "dom (table lay') - dom (table lay) = ?new"
    unfolding dom by blast
  moreover have "card ?new = 5"
    using dist distinct_card [of "map (\<lambda>c. (advice_index c, 0::nat)) (list_of5 (cards (config self)))"]
    by (simp add: distinct_keys)
  moreover have "table lay' k = table lay k" if "k \<notin> ?new" for k
    using that by (simp add: tab map_add_dom_app_simps hand_keys_dom)
  ultimately show ?thesis
    using dom by simp
qed

theorem assign_card_frame_witness:
  "dom (table example_layouter) = {(0, 0), (1, 0), (2, 0), (3, 0), (4, 0)} \<and>
   card (dom (table example_layouter)) = 5 \<and> table example_layouter (5, 0) = None \<and>
   table example_layouter (6, 0) = None"
  using assign_card_frame [OF example_assign] by (auto simp: new_layouter_def)

section \<open>The layout stays well formed\<close>



end
