(* ===== verification/Holdem_Circuit.thy ===== *)
theory Holdem_Circuit
  imports Holdem_Gates Holdem_Assign
begin

text \<open>
  The circuit of \<^verbatim>\<open>src/holdem/vanillaholdem.rs\<close>: the two private and three
  public card values it carries, the circuit without witnesses, the declaration of its
  selectors and columns followed by the chip's configuration, and the synthesis that
  hands the five values to the chip. The lemmas compute what configure allocates and
  returns; the theorems relate configuration and synthesis and show configure to be a
  legal run of the handle's state machine.
\<close>

section \<open>The circuit\<close>

record 'f VanillaHoldemCircuit =
  circuit_cards :: "'f val array2"
  circuit_table_cards :: "'f val array3"

definition circuit_default :: "'f VanillaHoldemCircuit" where
  "circuit_default =
     \<lparr>circuit_cards = Array2 None None, circuit_table_cards = Array3 None None None\<rparr>"

definition without_witnesses :: "'f VanillaHoldemCircuit \<Rightarrow> 'f VanillaHoldemCircuit" where
  "without_witnesses self = circuit_default"

section \<open>Configure\<close>

text \<open>The associated type \<^verbatim>\<open>Config\<close> of the circuit.\<close>

type_synonym circuit_config = VanillaHoldemConfig

definition alloc_cards :: "('f constraint_system, advice_column array5) state" where
  "alloc_cards = do {
     c0 \<leftarrow> advice_column;
     c1 \<leftarrow> advice_column;
     c2 \<leftarrow> advice_column;
     c3 \<leftarrow> advice_column;
     c4 \<leftarrow> advice_column;
     State_Monad.return (Array5 c0 c1 c2 c3 c4)
   }"

definition alloc_table_cards :: "('f constraint_system, instance_column array2) state" where
  "alloc_table_cards = do {
     t0 \<leftarrow> instance_column;
     t1 \<leftarrow> instance_column;
     State_Monad.return (Array2 t0 t1)
   }"

definition circuit_configure ::
  "(('f::comm_ring_1) constraint_system, circuit_config) state" where
  "circuit_configure = do {
     qfl \<leftarrow> selector;
     qst \<leftarrow> selector;
     q1 \<leftarrow> selector;
     q2 \<leftarrow> selector;
     q3 \<leftarrow> selector;
     q4 \<leftarrow> selector;
     cds \<leftarrow> alloc_cards;
     tcs \<leftarrow> alloc_table_cards;
     np \<leftarrow> advice_column;
     nsk \<leftarrow> advice_column;
     chip_configure qfl qst q1 q2 q3 q4 cds tcs np nsk
   }"

text \<open>
  The same function as the sequence of calls it makes on the handle: fifteen
  allocations in the order of the source, then the chip's gate registrations on the
  selectors and columns just allocated, numbered from the counts \<open>s\<close>, \<open>a\<close>, \<open>i\<close>
  of the system it starts from.
\<close>

definition alloc_calls :: "'f builder_call list" where
  "alloc_calls =
     replicate 6 AllocSelector @ replicate 5 AllocAdvice @ replicate 2 AllocInstance @
     replicate 2 AllocAdvice"

definition circuit_calls :: "nat \<Rightarrow> nat \<Rightarrow> nat \<Rightarrow> ('f::comm_ring_1) builder_call list" where
  "circuit_calls s a i =
     alloc_calls @
     chip_calls (Selector s True) (Selector (s + 1) True) (Selector (s + 2) True)
       (Selector (s + 3) True) (Selector (s + 4) True) (Selector (s + 5) True)
       (Array5 (AdviceColumn a) (AdviceColumn (a + 1)) (AdviceColumn (a + 2))
          (AdviceColumn (a + 3)) (AdviceColumn (a + 4)))
       (AdviceColumn (a + 5)) (AdviceColumn (a + 6))"

section \<open>Synthesize\<close>

definition synthesize ::
  "'f VanillaHoldemCircuit \<Rightarrow> circuit_config \<Rightarrow> 'f val layouter \<Rightarrow>
     (error, 'f val layouter) result" where
  "synthesize self cfg layouter =
     (let chip = (construct cfg :: 'f VanillaHoldemChip) in
      and_then
        (assign_card chip (circuit_cards self) (circuit_table_cards self)
           (namespace ''one hand'' layouter))
        Inr)"

lemmas [holdem_defs] =
  circuit_default_def without_witnesses_def alloc_cards_def alloc_table_cards_def
  circuit_configure_def synthesize_def

section \<open>What configure allocates\<close>

lemma run_alloc_cards:
  "run_state alloc_cards cs =
     (Array5 (AdviceColumn (num_advice_columns cs)) (AdviceColumn (num_advice_columns cs + 1))
        (AdviceColumn (num_advice_columns cs + 2)) (AdviceColumn (num_advice_columns cs + 3))
        (AdviceColumn (num_advice_columns cs + 4)),
      cs\<lparr>num_advice_columns := num_advice_columns cs + 5\<rparr>)"
  by (simp add: alloc_cards_def)

lemma run_alloc_table_cards:
  "run_state alloc_table_cards cs =
     (Array2 (InstanceColumn (num_instance_columns cs))
        (InstanceColumn (num_instance_columns cs + 1)),
      cs\<lparr>num_instance_columns := num_instance_columns cs + 2\<rparr>)"
  by (simp add: alloc_table_cards_def)

text \<open>
  The circuit's configuration is the chip's, run on the system with six more selectors,
  seven more advice columns and two more instance columns, numbered from the counts the
  system had.
\<close>

lemma run_circuit_configure:
  "run_state circuit_configure cs =
     run_state
       (chip_configure (Selector (num_selectors cs) True) (Selector (num_selectors cs + 1) True)
          (Selector (num_selectors cs + 2) True) (Selector (num_selectors cs + 3) True)
          (Selector (num_selectors cs + 4) True) (Selector (num_selectors cs + 5) True)
          (Array5 (AdviceColumn (num_advice_columns cs)) (AdviceColumn (num_advice_columns cs + 1))
            (AdviceColumn (num_advice_columns cs + 2)) (AdviceColumn (num_advice_columns cs + 3))
            (AdviceColumn (num_advice_columns cs + 4)))
          (Array2 (InstanceColumn (num_instance_columns cs))
            (InstanceColumn (num_instance_columns cs + 1)))
          (AdviceColumn (num_advice_columns cs + 5)) (AdviceColumn (num_advice_columns cs + 6)))
       (cs\<lparr>num_selectors := num_selectors cs + 6,
           num_instance_columns := num_instance_columns cs + 2,
           num_advice_columns := num_advice_columns cs + 7\<rparr>)"
  by (simp add: circuit_configure_def run_alloc_cards run_alloc_table_cards eval_nat_numeral)

lemma circuit_configure_config:
  "fst (run_state circuit_configure cs) =
     \<lparr>q_straight = Selector (num_selectors cs + 1) True,
      q_flush = Selector (num_selectors cs) True,
      q_one_pair = Selector (num_selectors cs + 2) True,
      q_two_pair = Selector (num_selectors cs + 3) True,
      q_three_of_a_kind = Selector (num_selectors cs + 4) True,
      q_four_of_a_kind = Selector (num_selectors cs + 5) True,
      cards = Array5 (AdviceColumn (num_advice_columns cs))
                (AdviceColumn (num_advice_columns cs + 1))
                (AdviceColumn (num_advice_columns cs + 2))
                (AdviceColumn (num_advice_columns cs + 3))
                (AdviceColumn (num_advice_columns cs + 4)),
      table_cards = Array2 (InstanceColumn (num_instance_columns cs))
                      (InstanceColumn (num_instance_columns cs + 1))\<rparr>"
  by (simp add: run_circuit_configure run_chip_configure)

lemma circuit_configure_counts:
  "num_selectors (snd (run_state circuit_configure cs)) = num_selectors cs + 6"
  "num_advice_columns (snd (run_state circuit_configure cs)) = num_advice_columns cs + 7"
  "num_instance_columns (snd (run_state circuit_configure cs)) = num_instance_columns cs + 2"
  by (simp_all add: run_circuit_configure run_chip_configure)

lemma configure_default_config:
  "fst (run_state circuit_configure cs_default) = example_config"
  by (simp add: circuit_configure_config cs_default_def example_config_def)

section \<open>The calls of configure\<close>

lemma perform_alloc_calls:
  "perform_all alloc_calls cs =
   cs\<lparr>num_selectors := num_selectors cs + 6,
      num_instance_columns := num_instance_columns cs + 2,
      num_advice_columns := num_advice_columns cs + 7\<rparr>"
  by (simp add: alloc_calls_def eval_nat_numeral)

lemma calls_ok_replicate [simp]:
  "calls_ok cs (replicate n AllocSelector)"
  "calls_ok cs (replicate n AllocAdvice)"
  "calls_ok cs (replicate n AllocInstance)"
  by (induction n arbitrary: cs) simp_all

lemma calls_ok_alloc_calls [simp]: "calls_ok cs alloc_calls"
  by (simp add: alloc_calls_def)

lemma calls_ok_circuit_calls:
  "calls_ok cs
     (circuit_calls (num_selectors cs) (num_advice_columns cs) (num_instance_columns cs))"
  by (simp add: circuit_calls_def perform_alloc_calls calls_ok_chip_calls)

lemma circuit_configure_perform_all:
  "snd (run_state circuit_configure cs) =
     perform_all
       (circuit_calls (num_selectors cs) (num_advice_columns cs) (num_instance_columns cs)) cs"
  by (simp add: circuit_calls_def run_circuit_configure chip_configure_calls
        perform_alloc_calls)

section \<open>Rows of the configured circuit\<close>

lemma circuit_row_satisfied_iff:
  assumes "r < n_rows t"
  shows "row_satisfied t r (snd (run_state circuit_configure cs)) \<longleftrightarrow>
     row_satisfied t r cs \<and>
     claims_hold (fst (run_state circuit_configure cs))
       (AdviceColumn (num_advice_columns cs + 5)) (AdviceColumn (num_advice_columns cs + 6)) t r"
  using assms unfolding run_circuit_configure
  by (simp add: configured_gates_hold_iff)
     (simp add: run_chip_configure claims_hold_iff row_satisfied_def)

lemma claims_hold_example_iff:
  "claims_hold example_config (AdviceColumn 5) (AdviceColumn 6) t r \<longleftrightarrow>
     (selector_on t 1 r \<longrightarrow>
        advice_at t 1 r = 1 \<and> advice_at t 2 r = 1 \<and> advice_at t 3 r = 1 \<and> advice_at t 4 r = 1) \<and>
     (selector_on t 0 r \<longrightarrow>
        advice_at t 0 r = advice_at t 1 r \<and> advice_at t 1 r = advice_at t 2 r \<and>
        advice_at t 2 r = advice_at t 3 r \<and> advice_at t 3 r = advice_at t 4 r) \<and>
     (selector_on t 2 r \<longrightarrow> advice_at t 5 r = 1) \<and>
     (selector_on t 3 r \<longrightarrow> advice_at t 5 r = 2) \<and>
     (selector_on t 4 r \<longrightarrow> advice_at t 6 r = 3) \<and>
     (selector_on t 5 r \<longrightarrow> advice_at t 6 r = 4)"
  unfolding example_config_def claims_hold_iff
  by (simp add: loop_ranges enabled_def cell_def)

lemma default_row_satisfied_iff:
  assumes "r < n_rows t"
  shows "row_satisfied t r (snd (run_state circuit_configure cs_default)) \<longleftrightarrow>
           claims_hold example_config (AdviceColumn 5) (AdviceColumn 6) t r"
  using assms
  by (simp add: circuit_row_satisfied_iff configure_default_config) (simp add: cs_default_def)

section \<open>Synthesis\<close>

lemma synthesize_assign_card:
  "synthesize circ cfg lay =
     assign_card (construct cfg :: 'f VanillaHoldemChip) (circuit_cards circ)
       (circuit_table_cards circ) (lay :: 'f val layouter)"
  by (simp add: synthesize_def)

lemma synthesize_default:
  "synthesize \<lparr>circuit_cards = Array2 a b, circuit_table_cards = Array3 c d e\<rparr>
     (fst (run_state circuit_configure (cs_default :: ('f::comm_ring_1) constraint_system)))
     (new_layouter 7) =
   Inr \<lparr>declared_columns = 7,
        table = [(0, 0) \<mapsto> a, (1, 0) \<mapsto> b, (2, 0) \<mapsto> c, (3, 0) \<mapsto> d, (4, 0) \<mapsto> (e :: 'f val)],
        regions = [''hand check'']\<rparr>"
  by (auto simp: synthesize_assign_card assign_card_Inr_iff circuit_configure_config
        cs_default_def new_layouter_def upt_0_5)

lemma circuit_cases:
  obtains a b c d e where
    "circ = \<lparr>circuit_cards = Array2 a b, circuit_table_cards = Array3 c d e\<rparr>"
  by (cases circ; cases "circuit_cards circ"; cases "circuit_table_cards circ") simp

section \<open>The configuration of the circuit\<close>

text \<open>
  C6. \<open>circuit_configure\<close> allocates, from the counts \<open>s\<close>, \<open>a\<close>, \<open>i\<close> the system
  has: the selectors \<open>s\<close> to \<open>s + 5\<close> in the order flush, straight, one pair, two pair,
  three of a kind, four of a kind; the card columns \<open>a\<close> to \<open>a + 4\<close>; the public columns
  \<open>i\<close> and \<open>i + 1\<close>; the count columns \<open>a + 5\<close> and \<open>a + 6\<close>, which are not part of
  the returned configuration. It then registers the chip's seven gates after the gates the
  system had.
\<close>

theorem circuit_configure_layout:
  "fst (run_state circuit_configure cs) =
     \<lparr>q_straight = Selector (num_selectors cs + 1) True,
      q_flush = Selector (num_selectors cs) True,
      q_one_pair = Selector (num_selectors cs + 2) True,
      q_two_pair = Selector (num_selectors cs + 3) True,
      q_three_of_a_kind = Selector (num_selectors cs + 4) True,
      q_four_of_a_kind = Selector (num_selectors cs + 5) True,
      cards = map_array5 (\<lambda>i. AdviceColumn (num_advice_columns cs + i)) (Array5 0 1 2 3 4),
      table_cards = map_array2 (\<lambda>i. InstanceColumn (num_instance_columns cs + i)) (Array2 0 1)\<rparr> \<and>
   num_selectors (snd (run_state circuit_configure cs)) = num_selectors cs + 6 \<and>
   num_advice_columns (snd (run_state circuit_configure cs)) = num_advice_columns cs + 7 \<and>
   num_instance_columns (snd (run_state circuit_configure cs)) = num_instance_columns cs + 2 \<and>
   map gate_name (gates (snd (run_state circuit_configure cs))) =
     map gate_name (gates cs) @
       [''straight'', ''flush'', ''one pair'', ''two pair'', ''three of a kind'',
        ''four of a kind'', ''full house'']"
  by (simp add: circuit_configure_config circuit_configure_counts)
     (simp add: run_circuit_configure run_chip_configure)

text \<open>
  C7. Configure, then synthesize: on a layouter that declares the advice columns of the
  configured system and whose five card cells of row 0 are free, \<open>synthesize\<close> with the
  configuration that \<open>circuit_configure\<close> returned succeeds, and writes the circuit's
  two private and three public values, in this order, to row 0 of the five card columns.
\<close>

theorem synthesize_after_configure:
  fixes cs :: "('f::comm_ring_1) constraint_system" and lay :: "'f val layouter"
  assumes "num_advice_columns (snd (run_state circuit_configure cs)) \<le> declared_columns lay"
    and "list_all (\<lambda>i. table lay (num_advice_columns cs + i, 0) = None) [0..<5]"
  shows "synthesize \<lparr>circuit_cards = Array2 a b, circuit_table_cards = Array3 c d e\<rparr>
           (fst (run_state circuit_configure cs)) lay =
         Inr (lay\<lparr>table := table lay ++
                 map_of (zip (map (\<lambda>i. (num_advice_columns cs + i, 0)) [0..<5]) [a, b, c, d, e]),
               regions := regions lay @ [''hand check'']\<rparr>)"
  using assms
  by (simp add: synthesize_assign_card assign_card_Inr_iff circuit_configure_config
        circuit_configure_counts upt_0_5)

theorem synthesize_after_configure_witness:
  "synthesize
     \<lparr>circuit_cards = Array2 (Some 14) (Some 27),
      circuit_table_cards = Array3 (Some 3) (Some 40) (Some 5)\<rparr>
     (fst (run_state circuit_configure (cs_default :: int constraint_system)))
     (new_layouter 7) = Inr example_layouter"
  by (subst synthesize_after_configure)
     (auto simp: circuit_configure_counts cs_default_def new_layouter_def example_layouter_def
        upt_0_5)

text \<open>
  Invariant. \<open>circuit_configure\<close> keeps the constraint system well formed: every
  gate has at least one polynomial, and every selector and column a gate reads has been
  allocated. The selectors and columns the gates are given are those allocated just
  before.
\<close>

lemma circuit_configure_well_formed:
  assumes "cs_wf cs"
  shows "cs_wf (snd (run_state circuit_configure cs))"
  unfolding run_circuit_configure
  by (rule cs_wf_chip_configure) (auto intro: cs_wf_mono [OF assms])

lemma circuit_configure_well_formed_example:
  "cs_wf (snd (run_state circuit_configure (cs_default :: int constraint_system)))"
  by (rule circuit_configure_well_formed) (simp add: cs_wf_def cs_default_def)

text \<open>
  C33. The circuit without witnesses lays out the same shape as the circuit with them:
  on the same configuration and layouter, \<open>synthesize\<close> fails with the same error or
  succeeds with the same declared columns, the same set of assigned cells and the same
  regions, whatever the five values are.
\<close>

theorem without_witnesses_same_shape:
  "map_ok layouter_shape (synthesize (without_witnesses circ) cfg lay) =
   map_ok layouter_shape (synthesize circ cfg lay)"
  unfolding synthesize_assign_card by (rule assign_card_shape)

section \<open>Configure as a run of the handle's state machine\<close>

text \<open>
  C37. Refinement. \<open>circuit_configure\<close> is a run of the handle's state machine: the
  system it leaves is the one reached by performing, one after the other, the calls of
  \<open>circuit_calls\<close> (six selector, five advice, two instance and two advice allocations,
  then the seven gate registrations), and each of these calls is legal at the point where
  it is made: every gate queries only selectors and columns allocated before it.
\<close>

theorem circuit_configure_is_call_sequence:
  "snd (run_state circuit_configure cs) =
     perform_all
       (circuit_calls (num_selectors cs) (num_advice_columns cs) (num_instance_columns cs)) cs \<and>
   calls_ok cs
     (circuit_calls (num_selectors cs) (num_advice_columns cs) (num_instance_columns cs))"
  by (simp only: circuit_configure_perform_all calls_ok_circuit_calls simp_thms)



end
