(* ===== verification/Assign_Steps.thy ===== *)
theory Assign_Steps
  imports Holdem_Assign "HOL-Library.While_Combinator"
begin

text \<open>
  The loop of the region closure of \<^verbatim>\<open>assign_card\<close>, one iteration at a time.
  \<open>Holdem_Assign\<close> gives the loop as a recursion over the indices \<open>0..5\<close>; here it is
  the machine the source runs: a counter and a region, a step that asks the range for its
  next index, performs the write and leaves the loop at the first rejection
  (the \<^verbatim>\<open>?\<close>), and the two ways the closure returns. The machine is given as a
  step function, as a step relation and as a while loop; the lemmas show that the three
  agree with \<open>assign_cells\<close>, that every run ends, and the invariant of the loop.
\<close>

section \<open>Configurations and steps\<close>

text \<open>
  \<open>Running i r\<close>: the range is at \<open>i\<close> and the region is \<open>r\<close>; \<open>Done r\<close>: the closure
  has returned \<^verbatim>\<open>Ok(())\<close> on the region \<open>r\<close>; \<open>Failed e\<close>: it has returned the error
  of a write.
\<close>

datatype 'v loop_state = Running nat "'v region" | Done "'v region" | Failed error

fun final :: "'v loop_state \<Rightarrow> bool" where
  "final (Running i r) = False"
| "final (Done r) = True"
| "final (Failed e) = True"

definition loop_body ::
  "VanillaHoldemConfig \<Rightarrow> 'v array5 \<Rightarrow> nat \<Rightarrow> 'v region \<Rightarrow> (error, 'v region) result" where
  "loop_body cfg hnd i region =
     assign_advice ''cards'' (index5 (cards cfg) i) 0 (index5 hnd i) region"

fun write_next :: "VanillaHoldemConfig \<Rightarrow> 'v array5 \<Rightarrow> 'v loop_state \<Rightarrow> 'v loop_state" where
  "write_next cfg hnd (Running i r) =
     (if i < 5
      then (case loop_body cfg hnd i r of Inr r' \<Rightarrow> Running (Suc i) r' | Inl e \<Rightarrow> Failed e)
      else Done r)"
| "write_next cfg hnd (Done r) = Done r"
| "write_next cfg hnd (Failed e) = Failed e"

inductive write_step ::
  "VanillaHoldemConfig \<Rightarrow> 'v array5 \<Rightarrow> 'v loop_state \<Rightarrow> 'v loop_state \<Rightarrow> bool"
  for cfg :: VanillaHoldemConfig and hnd :: "'v array5" where
  write_ok:
    "i < 5 \<Longrightarrow> loop_body cfg hnd i r = Inr r' \<Longrightarrow>
       write_step cfg hnd (Running i r) (Running (Suc i) r')"
| write_rejected:
    "i < 5 \<Longrightarrow> loop_body cfg hnd i r = Inl e \<Longrightarrow> write_step cfg hnd (Running i r) (Failed e)"
| loop_exit:
    "\<not> i < 5 \<Longrightarrow> write_step cfg hnd (Running i r) (Done r)"

code_pred write_step .

inductive_simps write_step_simps:
  "write_step cfg hnd (Running i r) t"
  "write_step cfg hnd (Done r) t"
  "write_step cfg hnd (Failed e) t"

text \<open>The loop as a while loop over the step function, and what the closure returns.\<close>

definition run_loop ::
  "VanillaHoldemConfig \<Rightarrow> 'v array5 \<Rightarrow> 'v region \<Rightarrow> 'v loop_state option" where
  "run_loop cfg hnd region =
     while_option (\<lambda>s. \<not> final s) (write_next cfg hnd) (Running 0 region)"

fun outcome :: "(error, 'v region) result \<Rightarrow> 'v loop_state" where
  "outcome (Inr r) = Done r"
| "outcome (Inl e) = Failed e"

text \<open>The steps a configuration is away from the end of the loop, at most.\<close>

fun steps_left :: "'v loop_state \<Rightarrow> nat" where
  "steps_left (Running i r) = Suc (5 - i)"
| "steps_left (Done r) = 0"
| "steps_left (Failed e) = 0"

text \<open>
  The invariant of the loop, for a run that started on the region \<open>r0\<close>: after \<open>i\<close>
  iterations the region holds the first \<open>i\<close> cells of the hand on top of \<open>r0\<close>; the
  closure returns \<^verbatim>\<open>Ok\<close> with all five; it fails with the rejection of one of
  the five writes.
\<close>

definition written ::
  "VanillaHoldemConfig \<Rightarrow> 'v array5 \<Rightarrow> nat \<Rightarrow> 'v region \<Rightarrow> 'v region" where
  "written cfg hnd i r0 =
     r0\<lparr>region_cells := write_cells (hand_cells cfg hnd [0..<i]) (region_cells r0)\<rparr>"

fun loop_inv ::
  "VanillaHoldemConfig \<Rightarrow> 'v array5 \<Rightarrow> 'v region \<Rightarrow> 'v loop_state \<Rightarrow> bool" where
  "loop_inv cfg hnd r0 (Running i r) \<longleftrightarrow> i \<le> 5 \<and> r = written cfg hnd i r0"
| "loop_inv cfg hnd r0 (Done r) \<longleftrightarrow> r = written cfg hnd 5 r0"
| "loop_inv cfg hnd r0 (Failed e) \<longleftrightarrow>
     list_ex (\<lambda>i. loop_body cfg hnd i (written cfg hnd i r0) = Inl e) [0..<5]"

section \<open>Steps\<close>




lemma write_step_decreases: "write_step cfg hnd s t \<Longrightarrow> steps_left t < steps_left s"
  by (induction rule: write_step.induct) auto


lemma assign_cells_from:
  "i < 5 \<Longrightarrow>
     assign_cells cfg hnd [i..<5] r =
       and_then (loop_body cfg hnd i r) (assign_cells cfg hnd [Suc i..<5])"
  by (simp add: upt_conv_Cons loop_body_def)

section \<open>Runs\<close>

text \<open>
  From the counter \<open>i\<close> the machine runs to the outcome of the remaining writes, as
  \<open>assign_cells\<close> computes it.
\<close>

lemma steps_to_outcome:
  "(write_step cfg hnd)\<^sup>*\<^sup>* (Running i r) (outcome (assign_cells cfg hnd [i..<5] r))"
proof (induction "5 - i" arbitrary: i r)
  case 0
  then have "write_step cfg hnd (Running i r) (Done r)"
    by (simp add: write_step_simps)
  with 0 show ?case
    by auto
next
  case (Suc n)
  then have i: "i < 5" and n: "n = 5 - Suc i"
    by simp_all
  show ?case
  proof (cases "loop_body cfg hnd i r")
    case (Inl e)
    with i show ?thesis
      by (auto simp: assign_cells_from intro: write_rejected)
  next
    case (Inr r')
    with i have "write_step cfg hnd (Running i r) (Running (Suc i) r')"
      by (rule write_ok)
    also note Suc.hyps(1) [OF n, of r']
    finally show ?thesis
      using i Inr by (simp add: assign_cells_from)
  qed
qed


lemma while_to_outcome:
  "while_option (\<lambda>s. \<not> final s) (write_next cfg hnd) (Running i r) =
     Some (outcome (assign_cells cfg hnd [i..<5] r))"
proof (induction "5 - i" arbitrary: i r)
  case 0
  then show ?case
    by (simp add: while_option_unfold [of _ _ "Running i r"] while_option_unfold [of _ _ "Done r"])
next
  case (Suc n)
  then have i: "i < 5" and n: "n = 5 - Suc i"
    by simp_all
  show ?case
  proof (cases "loop_body cfg hnd i r")
    case (Inl e)
    with i show ?thesis
      by (simp add: while_option_unfold [of _ _ "Running i r"]
            while_option_unfold [of _ _ "Failed e"] assign_cells_from)
  next
    case (Inr r')
    with i Suc.hyps(1) [OF n, of r'] show ?thesis
      by (simp add: while_option_unfold [of _ _ "Running i r"] assign_cells_from)
  qed
qed

section \<open>The invariant\<close>

lemma written_0 [simp]: "written cfg hnd 0 r0 = r0"
  by (simp add: written_def)

lemma written_Suc:
  "loop_body cfg hnd i (written cfg hnd i r0) = Inr r' \<Longrightarrow> r' = written cfg hnd (Suc i) r0"
  by (auto simp: loop_body_def assign_advice_Inr_iff written_def hand_cells_def)

lemma loop_inv_step:
  "write_step cfg hnd s t \<Longrightarrow> loop_inv cfg hnd r0 s \<Longrightarrow> loop_inv cfg hnd r0 t"
  by (induction rule: write_step.induct)
    (auto simp: list_ex_iff dest: written_Suc)

lemma example_run:
  "outcome (assign_cells example_config
      (Array5 (Some 14) (Some 27) (Some 3) (Some 40) (Some (5::int))) [0..<5]
      (begin_region ''hand check'' (new_layouter 7))) =
   Done \<lparr>region_name = ''hand check'', region_columns = 7,
         region_cells = [(0, 0) \<mapsto> Some 14, (1, 0) \<mapsto> Some 27, (2, 0) \<mapsto> Some 3,
                         (3, 0) \<mapsto> Some 40, (4, 0) \<mapsto> Some 5]\<rparr>"
  by (simp add: upt_0_5 assign_advice_def begin_region_def new_layouter_def)

section \<open>The loop ends\<close>

text \<open>
  C13. Termination. The while loop over the step function, started at index 0 on any
  region, returns: its result is the configuration that holds the outcome of
  \<open>hand_check\<close>, the closure as \<open>Holdem_Assign\<close> defines it. So the recursion over the
  index list and the machine of the source compute the same result, and neither can run
  for ever.
\<close>

theorem run_loop_returns:
  "run_loop cfg hnd region = Some (outcome (hand_check cfg hnd region))"
  by (simp add: run_loop_def hand_check_def while_to_outcome)



text \<open>
  C17. Invariant of the loop. In every configuration a run reaches from index 0 on a
  region \<open>r0\<close>, the region is \<open>r0\<close> with the cells of the first \<open>i\<close> cards written,
  \<open>i\<close> being the index the range is at and at most 5; the closure returns
  \<^verbatim>\<open>Ok\<close> only on the region with all five cells written, and an error only if it
  is the rejection of one of the five writes on the cells written before it.
\<close>

theorem write_loop_invariant:
  assumes "(write_step cfg hnd)\<^sup>*\<^sup>* (Running 0 r0) s"
  shows "loop_inv cfg hnd r0 s"
  using assms by (induction rule: rtranclp_induct) (auto intro: loop_inv_step)

theorem write_loop_invariant_witness:
  "loop_inv example_config (Array5 (Some 14) (Some 27) (Some 3) (Some 40) (Some (5::int)))
     (begin_region ''hand check'' (new_layouter 7))
     (Done \<lparr>region_name = ''hand check'', region_columns = 7,
         region_cells = [(0, 0) \<mapsto> Some 14, (1, 0) \<mapsto> Some 27, (2, 0) \<mapsto> Some 3,
                         (3, 0) \<mapsto> Some 40, (4, 0) \<mapsto> Some 5]\<rparr>)"
  using write_loop_invariant [OF steps_to_outcome, of example_config
      "Array5 (Some 14) (Some 27) (Some 3) (Some 40) (Some (5::int))"
      "begin_region ''hand check'' (new_layouter 7)"]
  by (simp only: example_run)

section \<open>The length of a run\<close>

text \<open>
  A run of \<open>n\<close> steps from a configuration \<open>s\<close> to a configuration
  \<open>t\<close> uses up \<open>n\<close> of the steps \<open>s\<close> is away from the end: no run is longer than
  six steps, five writes and the exit of the loop, and a run from index \<open>i\<close> is no
  longer than \<open>6 - i\<close>.
\<close>

lemma run_length_bounded:
  assumes "(write_step cfg hnd ^^ n) s t"
  shows "n + steps_left t \<le> steps_left s"
  using assms
proof (induction n arbitrary: t)
  case 0
  then show ?case by simp
next
  case (Suc n)
  then obtain u where "(write_step cfg hnd ^^ n) s u" and "write_step cfg hnd u t"
    by auto
  with Suc.IH [of u] write_step_decreases [of cfg hnd u t] show ?case
    by simp
qed

lemma run_length_example:
  "Suc 0 + steps_left (Done (begin_region ''hand check'' (new_layouter 7 :: int val layouter))) \<le>
     steps_left (Running 5 (begin_region ''hand check'' (new_layouter 7 :: int val layouter)))"
  by (rule run_length_bounded [where cfg = example_config
        and hnd = "Array5 (Some 14) (Some 27) (Some 3) (Some 40) (Some 5)"])
     (simp add: write_step_simps eq_OO)

end
