(* ===== verification/Layouter_Interface.thy ===== *)
theory Layouter_Interface
  imports Holdem_Assign
begin

text \<open>
  The witness assigner over any layouter. \<^verbatim>\<open>assign_card\<close> takes
  \<^verbatim>\<open>impl Layouter<F>\<close>: it is written against the operations of the trait
  and knows nothing of the layouter's state. \<open>layouter_ops\<close> is the record of the
  operations the source calls, \<open>assign_card_on\<close> the function over any such record, and
  \<open>implements_layouter\<close> the contract of the specification: an implementation
  simulates the layouter of \<open>Plonk_Region\<close> through an abstraction function and keeps
  its own invariant. The theorems of \<open>Holdem_Assign\<close> then hold for every
  implementation (\<open>assign_card_on_refines\<close>). Two implementations are given: the
  layouter of the specification itself, for which \<open>assign_card_on\<close> is
  \<open>assign_card\<close>, and a layouter that keeps the journal of its writes, on which the
  order of the five writes can be read.
\<close>

section \<open>The operations of a layouter\<close>

text \<open>
  \<open>'l\<close> is the layouter's state, \<open>'r\<close> the state of a region, \<open>'v\<close> the type of
  the values written. The closure handed to \<^verbatim>\<open>assign_region\<close> takes the region
  and returns it or an error.
\<close>

record ('l, 'r, 'v) layouter_ops =
  ops_assign_region :: "string \<Rightarrow> ('r \<Rightarrow> (error, 'r) result) \<Rightarrow> 'l \<Rightarrow> (error, 'l) result"
  ops_assign_advice :: "string \<Rightarrow> advice_column \<Rightarrow> nat \<Rightarrow> 'v \<Rightarrow> 'r \<Rightarrow> (error, 'r) result"
  ops_namespace :: "string \<Rightarrow> 'l \<Rightarrow> 'l"

section \<open>The assigner over the operations\<close>

fun assign_cells_on ::
  "('l, 'r, 'v) layouter_ops \<Rightarrow> VanillaHoldemConfig \<Rightarrow> 'v array5 \<Rightarrow> nat list \<Rightarrow> 'r \<Rightarrow>
     (error, 'r) result" where
  "assign_cells_on ops cfg hnd [] region = Inr region"
| "assign_cells_on ops cfg hnd (i # is) region =
     and_then (ops_assign_advice ops ''cards'' (index5 (cards cfg) i) 0 (index5 hnd i) region)
       (assign_cells_on ops cfg hnd is)"

definition hand_check_on ::
  "('l, 'r, 'v) layouter_ops \<Rightarrow> VanillaHoldemConfig \<Rightarrow> 'v array5 \<Rightarrow> 'r \<Rightarrow> (error, 'r) result"
  where
  "hand_check_on ops cfg hnd region = and_then (assign_cells_on ops cfg hnd [0..<5] region) Inr"

definition assign_card_on ::
  "('l, 'r, 'f val) layouter_ops \<Rightarrow> 'f VanillaHoldemChip \<Rightarrow> 'f val array2 \<Rightarrow> 'f val array3 \<Rightarrow>
     'l \<Rightarrow> (error, 'l) result" where
  "assign_card_on ops self cds tcs layouter =
     (case hand_of cds tcs of
        None \<Rightarrow> Inl UnwrapPanic
      | Some hnd \<Rightarrow>
          ops_assign_region ops ''hand check'' (hand_check_on ops (config self) hnd) layouter)"

section \<open>The contract of a layouter\<close>

text \<open>
  \<open>simulates ar invar f g\<close>: on every region that meets the invariant, the concrete
  closure \<open>f\<close> fails with the error of the abstract closure \<open>g\<close> or returns a region
  that meets the invariant and represents what \<open>g\<close> returns.
\<close>

definition simulates ::
  "('r \<Rightarrow> 'a) \<Rightarrow> ('r \<Rightarrow> bool) \<Rightarrow> ('r \<Rightarrow> (error, 'r) result) \<Rightarrow> ('a \<Rightarrow> (error, 'a) result) \<Rightarrow>
     bool" where
  "simulates ar invar f g \<longleftrightarrow>
     (\<forall>r. invar r \<longrightarrow> map_ok ar (f r) = g (ar r) \<and> (\<forall>r'. f r = Inr r' \<longrightarrow> invar r'))"

text \<open>
  An implementation meets the contract when a write simulates \<open>assign_advice\<close>, a
  region whose closure simulates an abstract closure simulates \<open>assign_region\<close> of that
  closure, and a namespace changes nothing that the abstraction sees.
\<close>

definition implements_layouter ::
  "('l, 'r, 'v) layouter_ops \<Rightarrow> ('l \<Rightarrow> 'v layouter) \<Rightarrow> ('r \<Rightarrow> 'v region) \<Rightarrow>
     ('l \<Rightarrow> bool) \<Rightarrow> ('r \<Rightarrow> bool) \<Rightarrow> bool" where
  "implements_layouter ops al ar invl invr \<longleftrightarrow>
     (\<forall>ann col off v.
        simulates ar invr (ops_assign_advice ops ann col off v) (assign_advice ann col off v)) \<and>
     (\<forall>name f g. simulates ar invr f g \<longrightarrow>
        simulates al invl (ops_assign_region ops name f) (assign_region name g)) \<and>
     (\<forall>name l. invl l \<longrightarrow>
        al (ops_namespace ops name l) = al l \<and> invl (ops_namespace ops name l))"

section \<open>The layouter of the specification\<close>

definition region_ops :: "('v layouter, 'v region, 'v) layouter_ops" where
  "region_ops =
     \<lparr>ops_assign_region = assign_region, ops_assign_advice = assign_advice,
      ops_namespace = namespace\<rparr>"

section \<open>A layouter that keeps a journal\<close>

text \<open>
  The writes in the order they were made, oldest first. A write is rejected under the
  same conditions as in the specification; the cell is occupied when the journal has an
  entry for it.
\<close>

record 'v journal =
  journal_columns :: nat
  writes :: "((nat \<times> nat) \<times> 'v) list"
  opened :: "string list"

record 'v journal_region =
  jr_name :: string
  jr_columns :: nat
  jr_writes :: "((nat \<times> nat) \<times> 'v) list"

definition new_journal :: "nat \<Rightarrow> 'v journal" where
  "new_journal n = \<lparr>journal_columns = n, writes = [], opened = []\<rparr>"

definition journal_assign_advice ::
  "string \<Rightarrow> advice_column \<Rightarrow> nat \<Rightarrow> 'v \<Rightarrow> 'v journal_region \<Rightarrow>
     (error, 'v journal_region) result" where
  "journal_assign_advice annotation column offset to r =
     (if jr_columns r \<le> advice_index column
        then Inl (ColumnNotInSchema (advice_index column))
      else if (advice_index column, offset) \<in> fst ` set (jr_writes r)
        then Inl (CellAlreadyAssigned (advice_index column) offset)
      else Inr (r\<lparr>jr_writes := jr_writes r @ [((advice_index column, offset), to)]\<rparr>))"

definition journal_assign_region ::
  "string \<Rightarrow> ('v journal_region \<Rightarrow> (error, 'v journal_region) result) \<Rightarrow> 'v journal \<Rightarrow>
     (error, 'v journal) result" where
  "journal_assign_region name assignment j =
     and_then
       (assignment \<lparr>jr_name = name, jr_columns = journal_columns j, jr_writes = writes j\<rparr>)
       (\<lambda>r. Inr (j\<lparr>writes := jr_writes r, opened := opened j @ [name]\<rparr>))"

definition journal_ops :: "('v journal, 'v journal_region, 'v) layouter_ops" where
  "journal_ops =
     \<lparr>ops_assign_region = journal_assign_region, ops_assign_advice = journal_assign_advice,
      ops_namespace = (\<lambda>name j. j)\<rparr>"

text \<open>
  What a journal represents: the table that maps each cell of the journal to its value.
  The invariant of a journal is that no cell has two entries.
\<close>

definition layouter_of :: "'v journal \<Rightarrow> 'v layouter" where
  "layouter_of j =
     \<lparr>declared_columns = journal_columns j, table = map_of (writes j), regions = opened j\<rparr>"

definition region_of :: "'v journal_region \<Rightarrow> 'v region" where
  "region_of r =
     \<lparr>region_name = jr_name r, region_columns = jr_columns r,
      region_cells = map_of (jr_writes r)\<rparr>"

definition journal_inv :: "'v journal \<Rightarrow> bool" where
  "journal_inv j \<longleftrightarrow> distinct (map fst (writes j))"

definition region_inv :: "'v journal_region \<Rightarrow> bool" where
  "region_inv r \<longleftrightarrow> distinct (map fst (jr_writes r))"

lemmas [region_defs] =
  region_ops_def journal_ops_def journal_assign_advice_def journal_assign_region_def
  layouter_of_def region_of_def new_journal_def journal_inv_def region_inv_def

section \<open>Simulation, combinator by combinator\<close>

lemma simulatesI:
  assumes "\<And>r. invar r \<Longrightarrow> map_ok ar (f r) = g (ar r)"
    and "\<And>r r'. invar r \<Longrightarrow> f r = Inr r' \<Longrightarrow> invar r'"
  shows "simulates ar invar f g"
  using assms by (simp add: simulates_def)

lemma simulatesD:
  assumes "simulates ar invar f g" and "invar r"
  shows "map_ok ar (f r) = g (ar r)" and "f r = Inr r' \<Longrightarrow> invar r'"
  using assms by (simp_all add: simulates_def)

lemma simulates_Inr [simp]: "simulates ar invar Inr Inr"
  by (simp add: simulates_def)

lemma simulates_and_then:
  assumes "simulates ar invar f g" and "simulates ar invar f' g'"
  shows "simulates ar invar (\<lambda>r. and_then (f r) f') (\<lambda>a. and_then (g a) g')"
proof (rule simulatesI)
  fix r assume r: "invar r"
  have g: "g (ar r) = map_ok ar (f r)"
    using simulatesD(1) [OF assms(1) r] by (rule sym)
  show "map_ok ar (and_then (f r) f') = and_then (g (ar r)) g'"
  proof (cases "f r")
    case (Inl e)
    then show ?thesis unfolding g by simp
  next
    case (Inr r1)
    with simulatesD(2) [OF assms(1) r] have "invar r1" by simp
    from simulatesD(1) [OF assms(2) this] Inr show ?thesis unfolding g by simp
  qed
next
  fix r r' assume r: "invar r" and "and_then (f r) f' = Inr r'"
  then obtain r1 where "f r = Inr r1" and "f' r1 = Inr r'"
    by (auto simp: and_then_Inr_iff)
  from simulatesD(2) [OF assms(2) simulatesD(2) [OF assms(1) r this(1)] this(2)]
  show "invar r'" .
qed

lemma implements_layouterD:
  assumes "implements_layouter ops al ar invl invr"
  shows "simulates ar invr (ops_assign_advice ops ann col off v) (assign_advice ann col off v)"
    and "simulates ar invr f g \<Longrightarrow>
      simulates al invl (ops_assign_region ops name f) (assign_region name g)"
    and "invl l \<Longrightarrow> al (ops_namespace ops name l) = al l"
    and "invl l \<Longrightarrow> invl (ops_namespace ops name l)"
  using assms by (simp_all add: implements_layouter_def)

section \<open>The assigner simulates the assigner of the specification\<close>

lemma assign_cells_on_simulates:
  assumes "implements_layouter ops al ar invl invr"
  shows "simulates ar invr (assign_cells_on ops cfg hnd is) (assign_cells cfg hnd is)"
proof (induction "is")
  case Nil
  have "assign_cells_on ops cfg hnd [] = Inr" and "assign_cells cfg hnd [] = Inr"
    by (simp_all add: fun_eq_iff)
  then show ?case by simp
next
  case (Cons i "is")
  have "assign_cells_on ops cfg hnd (i # is) =
      (\<lambda>r. and_then (ops_assign_advice ops ''cards'' (index5 (cards cfg) i) 0 (index5 hnd i) r)
        (assign_cells_on ops cfg hnd is))"
    and "assign_cells cfg hnd (i # is) =
      (\<lambda>r. and_then (assign_advice ''cards'' (index5 (cards cfg) i) 0 (index5 hnd i) r)
        (assign_cells cfg hnd is))"
    by (simp_all add: fun_eq_iff)
  then show ?case
    using simulates_and_then [OF implements_layouterD(1) [OF assms] Cons.IH] by simp
qed

lemma hand_check_on_simulates:
  assumes "implements_layouter ops al ar invl invr"
  shows "simulates ar invr (hand_check_on ops cfg hnd) (hand_check cfg hnd)"
proof -
  have "hand_check_on ops cfg hnd = assign_cells_on ops cfg hnd [0..<5]"
    and "hand_check cfg hnd = assign_cells cfg hnd [0..<5]"
    by (simp_all add: fun_eq_iff hand_check_on_def hand_check_def)
  then show ?thesis
    using assign_cells_on_simulates [OF assms] by simp
qed

lemma assign_card_on_simulates:
  assumes "implements_layouter ops al ar invl invr"
  shows "simulates al invl (assign_card_on ops self cds tcs) (assign_card self cds tcs)"
proof -
  obtain hnd where hnd: "hand_of cds tcs = Some hnd"
    using hand_of_total by blast
  have "assign_card_on ops self cds tcs =
      ops_assign_region ops ''hand check'' (hand_check_on ops (config self) hnd)"
    and "assign_card self cds tcs = assign_region ''hand check'' (hand_check (config self) hnd)"
    by (simp_all add: fun_eq_iff assign_card_on_def assign_card_def hnd)
  then show ?thesis
    using implements_layouterD(2) [OF assms hand_check_on_simulates [OF assms]] by simp
qed

text \<open>
  What \<open>Holdem_Assign\<close> proves of \<open>assign_card\<close> carries over; for one, when a
  call succeeds.
\<close>

lemma is_ok_map_ok [simp]: "is_ok (map_ok f r) = is_ok r"
  by (cases r) simp_all

lemma assign_card_on_succeeds_iff:
  assumes "implements_layouter ops al ar invl invr" and "invl l"
  shows "is_ok (assign_card_on ops self cds tcs l) \<longleftrightarrow>
     list_all (\<lambda>c. advice_index c < declared_columns (al l)) (list_of5 (cards (config self))) \<and>
     distinct (map advice_index (list_of5 (cards (config self)))) \<and>
     list_all (\<lambda>c. table (al l) (advice_index c, 0) = None) (list_of5 (cards (config self)))"
proof -
  have "is_ok (assign_card_on ops self cds tcs l) = is_ok (assign_card self cds tcs (al l))"
    using simulatesD(1) [OF assign_card_on_simulates [OF assms(1)] assms(2), of self cds tcs]
    by (metis is_ok_map_ok)
  then show ?thesis
    by (cases cds; cases tcs) (auto simp: is_ok_iff assign_card_Inr_iff)
qed

section \<open>The two implementations\<close>

lemma map_ok_id [simp]: "map_ok id r = r"
  by (cases r) simp_all

lemma simulates_id_iff [simp]: "simulates id (\<lambda>_. True) f g \<longleftrightarrow> f = g"
  by (simp add: simulates_def fun_eq_iff)

lemma region_ops_simps [simp]:
  "ops_assign_region region_ops = assign_region"
  "ops_assign_advice region_ops = assign_advice"
  "ops_namespace region_ops = namespace"
  by (simp_all add: region_ops_def)

lemma journal_ops_simps [simp]:
  "ops_assign_region journal_ops = journal_assign_region"
  "ops_assign_advice journal_ops = journal_assign_advice"
  "ops_namespace journal_ops name j = j"
  by (simp_all add: journal_ops_def)

lemma assign_cells_on_region_ops [simp]: "assign_cells_on region_ops = assign_cells"
proof (intro ext)
  fix cfg :: VanillaHoldemConfig and hnd :: "'a array5" and "is" and r :: "'a region"
  show "assign_cells_on region_ops cfg hnd is r = assign_cells cfg hnd is r"
    by (induction "is" arbitrary: r) (auto simp: and_then_def split: sum.splits)
qed

lemma hand_check_on_region_ops [simp]: "hand_check_on region_ops = hand_check"
  by (simp add: fun_eq_iff hand_check_on_def hand_check_def)

lemma assign_card_on_region_ops: "assign_card_on region_ops = assign_card"
  by (simp add: fun_eq_iff assign_card_on_def assign_card_def split: option.splits)

section \<open>The journal implements the contract\<close>

lemma map_add_fresh:
  "k \<notin> fst ` set kvs \<Longrightarrow> [k \<mapsto> v] ++ map_of kvs = (map_of kvs)(k \<mapsto> v)"
  by (simp add: map_add_upd_left dom_map_of_conv_image_fst)

lemma journal_write_simulates:
  "simulates region_of region_inv (journal_assign_advice ann col off v)
     (assign_advice ann col off v)"
  by (rule simulatesI)
     (auto simp: journal_assign_advice_def assign_advice_def region_of_def region_inv_def
        map_add_fresh map_of_eq_None_iff split: if_splits)

lemma journal_region_simulates:
  assumes "simulates region_of region_inv f g"
  shows "simulates layouter_of journal_inv (journal_assign_region name f)
           (assign_region name g)"
proof (rule simulatesI)
  fix j :: "'a journal" assume j: "journal_inv j"
  let ?r = "\<lparr>jr_name = name, jr_columns = journal_columns j, jr_writes = writes j\<rparr>"
  from j have r: "region_inv ?r" and b: "region_of ?r = begin_region name (layouter_of j)"
    by (simp_all add: region_defs)
  from simulatesD(1) [OF assms r, symmetric] have g: "g (begin_region name (layouter_of j)) =
      map_ok region_of (f ?r)"
    unfolding b .
  show "map_ok layouter_of (journal_assign_region name f j) = assign_region name g (layouter_of j)"
    unfolding assign_region_def g journal_assign_region_def
    by (cases "f ?r") (simp_all add: layouter_of_def region_of_def)
  fix j' assume "journal_assign_region name f j = Inr j'"
  then show "journal_inv j'"
    using simulatesD(2) [OF assms r]
    by (auto simp: journal_assign_region_def and_then_Inr_iff journal_inv_def region_inv_def)
qed

lemma journal_implements:
  "implements_layouter journal_ops layouter_of region_of journal_inv region_inv"
  by (simp add: implements_layouter_def journal_write_simulates journal_region_simulates)

lemma region_ops_implements:
  "implements_layouter region_ops id id (\<lambda>_. True) (\<lambda>_. True)"
  unfolding implements_layouter_def region_ops_simps
  by simp

section \<open>The journal of a call\<close>

lemma journal_cells_Inr_iff:
  "assign_cells_on journal_ops cfg hnd is r = Inr r' \<longleftrightarrow>
     list_all (\<lambda>k. fst k < jr_columns r) (map fst (hand_cells cfg hnd is)) \<and>
     distinct (map fst (hand_cells cfg hnd is)) \<and>
     list_all (\<lambda>k. k \<notin> fst ` set (jr_writes r)) (map fst (hand_cells cfg hnd is)) \<and>
     r' = r\<lparr>jr_writes := jr_writes r @ hand_cells cfg hnd is\<rparr>"
proof (induction "is" arbitrary: r)
  case Nil
  then show ?case by auto
next
  case (Cons i "is")
  show ?case
    by (auto simp: and_then_Inr_iff journal_assign_advice_def Cons.IH list_all_iff image_iff)
qed

lemma journal_card_Inr_iff:
  "assign_card_on journal_ops self (Array2 a b) (Array3 c d e) j = Inr j' \<longleftrightarrow>
     list_all (\<lambda>c. advice_index c < journal_columns j) (list_of5 (cards (config self))) \<and>
     distinct (map advice_index (list_of5 (cards (config self)))) \<and>
     list_all (\<lambda>c. (advice_index c, 0) \<notin> fst ` set (writes j)) (list_of5 (cards (config self))) \<and>
     j' = j\<lparr>writes := writes j @ hand_cells (config self) (Array5 a b c d e) [0..<5],
            opened := opened j @ [''hand check'']\<rparr>"
  by (auto simp: assign_card_on_def journal_assign_region_def hand_check_on_def
        and_then_Inr_iff journal_cells_Inr_iff keys_hand_cells distinct_keys list.pred_map
        comp_def)

lemma example_journal:
  "assign_card_on journal_ops (construct example_config)
     (Array2 (Some 14) (Some 27)) (Array3 (Some 3) (Some 40) (Some (5::int))) (new_journal 7) =
   Inr \<lparr>journal_columns = 7,
        writes = [((0, 0), Some 14), ((1, 0), Some 27), ((2, 0), Some 3), ((3, 0), Some 40),
                  ((4, 0), Some 5)],
        opened = [''hand check'']\<rparr>"
  by (simp add: journal_card_Inr_iff new_journal_def upt_0_5)

section \<open>Every implementation behaves as the specification's\<close>

text \<open>
  C14. Refinement. Over any implementation of the layouter that meets the contract,
  from a state that meets the implementation's invariant, \<open>assign_card_on\<close> fails
  with the error that \<open>assign_card\<close> returns on the layouter the state represents, or
  succeeds with a state that represents the layouter \<open>assign_card\<close> returns and meets
  the invariant again. What \<open>Holdem_Assign\<close> proves of \<open>assign_card\<close> therefore
  holds of the source's function on every such layouter.
\<close>

theorem assign_card_on_refines:
  assumes "implements_layouter ops al ar invl invr" and "invl l"
  shows "map_ok al (assign_card_on ops self cds tcs l) = assign_card self cds tcs (al l) \<and>
         (\<forall>l'. assign_card_on ops self cds tcs l = Inr l' \<longrightarrow> invl l')"
  using simulatesD [OF assign_card_on_simulates [OF assms(1)] assms(2)] by blast

theorem assign_card_on_refines_witness:
  "map_ok layouter_of
     (assign_card_on journal_ops (construct example_config)
        (Array2 (Some 14) (Some 27)) (Array3 (Some 3) (Some 40) (Some (5::int))) (new_journal 7)) =
   Inr example_layouter \<and>
   journal_inv
     \<lparr>journal_columns = 7,
      writes = [((0, 0), Some 14), ((1, 0), Some 27), ((2, 0), Some 3), ((3, 0), Some 40),
                ((4, 0), Some (5::int))],
      opened = [''hand check'']\<rparr>"
  using assign_card_on_refines [OF journal_implements, of "new_journal 7"
      "construct example_config" "Array2 (Some 14) (Some 27)"
      "Array3 (Some 3) (Some 40) (Some (5::int))"]
    example_assign example_journal
  by (simp add: region_defs)

text \<open>
  C19. The order of the writes. On the layouter that keeps a journal, a successful
  \<open>assign_card_on\<close> appends exactly five entries, in this order: the two private
  values in the first and second card column, then the three public values in the third,
  fourth and fifth, all at row 0; it then records the region \<^verbatim>\<open>hand check\<close>. It
  succeeds exactly when the five card columns are declared, pairwise different and have
  no entry at row 0.
\<close>

theorem assign_card_writes_in_order:
  "assign_card_on journal_ops self (Array2 a b) (Array3 c d e) j = Inr j' \<longleftrightarrow>
     list_all (\<lambda>c. advice_index c < journal_columns j) (list_of5 (cards (config self))) \<and>
     distinct (map advice_index (list_of5 (cards (config self)))) \<and>
     list_all (\<lambda>c. (advice_index c, 0) \<notin> fst ` set (writes j)) (list_of5 (cards (config self))) \<and>
     j' = j\<lparr>writes := writes j @
              zip (map (\<lambda>c. (advice_index c, 0)) (list_of5 (cards (config self))))
                [a, b, c, d, e],
            opened := opened j @ [''hand check'']\<rparr>"
  by (simp add: journal_card_Inr_iff hand_cells_zip)

end
