(* ===== verification/Poker_Hands.thy ===== *)
theory Poker_Hands
  imports Holdem_Gates "HOL-Library.Multiset"
begin

text \<open>
  What the gates mean for playing cards. The repository fixes no encoding of a card as
  a field element and computes no count; this theory states the rules of the game on
  hands of five cards (flush, straight, the counts of equal ranks and the patterns they
  form), what it means that a row of a table holds a hand under an encoding, and the
  adjacency check that the specification names as the likely intent of the straight
  gate. The lemmas relate the counts to the patterns; the theorems compare the gates of
  \<open>Holdem_Gates\<close> with the rules: which hands the flush and straight gates accept
  under which encodings, and that the straight gate as written and the adjacency check
  exclude each other.
\<close>

section \<open>Cards and hands\<close>

datatype suit = Clubs | Diamonds | Hearts | Spades

text \<open>Ranks are 2 to 14, the ace being 14.\<close>

datatype playing_card = Card (rank_of: nat) (suit_of: suit)

type_synonym poker_hand = "playing_card array5"

definition ranks :: "poker_hand \<Rightarrow> nat list" where
  "ranks h = map rank_of (list_of5 h)"

definition suits :: "poker_hand \<Rightarrow> suit list" where
  "suits h = map suit_of (list_of5 h)"

fun suit_index :: "suit \<Rightarrow> nat" where
  "suit_index Clubs = 0"
| "suit_index Diamonds = 1"
| "suit_index Hearts = 2"
| "suit_index Spades = 3"

section \<open>The rules\<close>

text \<open>
  A flush: one suit. A straight: five ranks in sequence, the ace counting high or, in
  the sequence ace to five, low. \<open>ascending\<close> is a straight laid out in the order of
  the columns. \<open>pairs\<close> is the number of ranks that occur exactly twice, \<open>same_kind\<close>
  the largest number of cards of one rank.
\<close>

definition is_flush :: "poker_hand \<Rightarrow> bool" where
  "is_flush h \<longleftrightarrow> list_all (\<lambda>s. s = suit_of (index5 h 0)) (suits h)"

definition is_straight :: "poker_hand \<Rightarrow> bool" where
  "is_straight h \<longleftrightarrow>
     (let rs = sort (ranks h) in rs = [hd rs..<hd rs + 5] \<or> rs = [2, 3, 4, 5, 14])"

definition ascending :: "poker_hand \<Rightarrow> bool" where
  "ascending h \<longleftrightarrow>
     list_all (\<lambda>i. rank_of (index5 h i) = rank_of (index5 h (i - 1)) + 1) [1..<5]"

definition pairs :: "poker_hand \<Rightarrow> nat" where
  "pairs h = length (filter (\<lambda>r. count_list (ranks h) r = 2) (remdups (ranks h)))"

definition same_kind :: "poker_hand \<Rightarrow> nat" where
  "same_kind h = fold max (map (count_list (ranks h)) (ranks h)) 0"

text \<open>
  The pattern of a hand: how often each of its ranks occurs, in ascending order. The
  five categories that count equal ranks are patterns: \<open>[1, 1, 1, 2]\<close> is one pair,
  \<open>[1, 2, 2]\<close> two pair, \<open>[1, 1, 3]\<close> three of a kind, \<open>[1, 4]\<close> four of a kind and
  \<open>[2, 3]\<close> a full house. \<open>fits cat p\<close> says which patterns meet the condition that
  the specification attaches to a claim of \<open>cat\<close>: one pair asks for exactly one pair
  and three of a kind for three equal ranks, which a full house has as well.
\<close>

definition kind_pattern :: "poker_hand \<Rightarrow> nat list" where
  "kind_pattern h = sort (map (count_list (ranks h)) (remdups (ranks h)))"

fun fits :: "category \<Rightarrow> nat list \<Rightarrow> bool" where
  "fits OnePair p \<longleftrightarrow> p = [1, 1, 1, 2] \<or> p = [2, 3]"
| "fits TwoPair p \<longleftrightarrow> p = [1, 2, 2]"
| "fits ThreeOfAKind p \<longleftrightarrow> p = [1, 1, 3] \<or> p = [2, 3]"
| "fits FourOfAKind p \<longleftrightarrow> p = [1, 4]"
| "fits FullHouse p \<longleftrightarrow> p = [2, 3]"
| "fits _ p \<longleftrightarrow> False"

section \<open>Rows that hold a hand\<close>

text \<open>
  Row \<open>r\<close> of the table \<open>a\<close> holds the hand \<open>h\<close> in the card columns \<open>cds\<close> when
  each card cell holds the encoding of the card of its column.
\<close>

definition holds_hand ::
  "'f assignment \<Rightarrow> nat \<Rightarrow> advice_column array5 \<Rightarrow> (playing_card \<Rightarrow> 'f) \<Rightarrow> poker_hand \<Rightarrow> bool"
  where
  "holds_hand a r cds enc h \<longleftrightarrow>
     list_all (\<lambda>i. cell a (index5 cds i) r = enc (index5 h i)) [0..<5]"

section \<open>The adjacency check\<close>

text \<open>
  The check the specification documents as the likely intent of the straight gate: each
  card cell after the first exceeds its left neighbour by one. It is not in the source;
  it is stated in the form of the source's gates to compare the straight gate with it.
\<close>

definition adjacent_constraint ::
  "('f::comm_ring_1) expression \<Rightarrow> 'f expression \<Rightarrow> 'f expression \<Rightarrow> 'f expression" where
  "adjacent_constraint q_s prev this = q_s * (this - prev - Constant 1)"

definition adjacent_gate ::
  "selector \<Rightarrow> advice_column array5 \<Rightarrow>
     (('f::comm_ring_1) virtual_cells, 'f expression list) state" where
  "adjacent_gate q cds = do {
     q_s \<leftarrow> query_selector q;
     State_Monad.traverse_list (\<lambda>i. do {
         prev \<leftarrow> query_advice (index5 cds (i - 1)) cur;
         this \<leftarrow> query_advice (index5 cds i) cur;
         State_Monad.return (adjacent_constraint q_s prev this)
       }) [1..<5]
   }"

section \<open>Hands, unfolded\<close>

lemma holds_hand_iff:
  "holds_hand a r (Array5 k0 k1 k2 k3 k4) enc (Array5 c0 c1 c2 c3 c4) \<longleftrightarrow>
     cell a k0 r = enc c0 \<and> cell a k1 r = enc c1 \<and> cell a k2 r = enc c2 \<and>
     cell a k3 r = enc c3 \<and> cell a k4 r = enc c4"
  by (simp add: holds_hand_def upt_0_5)

lemma is_flush_iff:
  "is_flush (Array5 c0 c1 c2 c3 c4) \<longleftrightarrow>
     suit_of c1 = suit_of c0 \<and> suit_of c2 = suit_of c0 \<and> suit_of c3 = suit_of c0 \<and>
     suit_of c4 = suit_of c0"
  by (simp add: is_flush_def suits_def)

lemma ascending_iff:
  "ascending (Array5 c0 c1 c2 c3 c4) \<longleftrightarrow>
     rank_of c1 = rank_of c0 + 1 \<and> rank_of c2 = rank_of c1 + 1 \<and>
     rank_of c3 = rank_of c2 + 1 \<and> rank_of c4 = rank_of c3 + 1"
  by (simp add: ascending_def loop_ranges)

lemma straight_distinct:
  assumes "is_straight h"
  shows "distinct (ranks h)"
proof -
  let ?rs = "sort (ranks h)"
  from assms consider "?rs = [hd ?rs..<hd ?rs + 5]" | "?rs = [2, 3, 4, 5, 14]"
    by (auto simp: is_straight_def Let_def)
  then have "distinct ?rs"
  proof cases
    case 1
    from distinct_upt [of "hd ?rs" "hd ?rs + 5"] show ?thesis
      unfolding 1 [symmetric] .
  next
    case 2
    show ?thesis
      unfolding 2 by simp
  qed
  then show ?thesis
    by simp
qed

lemma inj_suit_index: "inj suit_index"
proof (rule injI)
  fix x y
  assume "suit_index x = suit_index y"
  then show "x = y"
    by (cases x; cases y) simp_all
qed

lemma inj_on_suit_code: "inj_on (int \<circ> suit_index) A"
  by (rule inj_on_subset [OF inj_compose subset_UNIV]) (simp_all add: inj_suit_index)

section \<open>Counts and patterns\<close>

text \<open>
  The pattern of a hand is a partition of 5, and the two counts are read off it: \<open>pairs\<close>
  is the number of its entries 2, \<open>same_kind\<close> its largest entry.
\<close>

lemma sum_list_sort_nat: "sum_list (sort xs) = sum_list (xs :: nat list)"
  by (metis mset_sort sum_mset_sum_list)

lemma count_list_sort: "count_list (sort xs) x = count_list (xs :: nat list) x"
  by (metis count_mset mset_sort)

lemma sum_counts: "sum_list (map (count_list xs) (remdups xs)) = length xs"
  by (simp add: sum_list_distinct_conv_sum_set sum_count_set)

lemma length_le_sum_list: "\<forall>x \<in> set p. 0 < (x::nat) \<Longrightarrow> length p \<le> sum_list p"
  by (induction p) auto

lemma short_list_cases:
  assumes "length p \<le> 5"
  obtains "p = []" | a where "p = [a]" | a b where "p = [a, b]" | a b c where "p = [a, b, c]"
  | a b c d where "p = [a, b, c, d]" | a b c d e where "p = [a, b, c, d, e]"
proof -
  from assms have "length p = 0 \<or> length p = 1 \<or> length p = 2 \<or> length p = 3 \<or>
      length p = 4 \<or> length p = 5"
    by arith
  then show ?thesis
    using that by (auto simp: length_Suc_conv eval_nat_numeral)
qed

lemma partitions_of_5:
  assumes "sorted p" and "sum_list p = 5" and "\<forall>x \<in> set p. 0 < (x::nat)"
  shows "p \<in> {[5], [1, 4], [2, 3], [1, 1, 3], [1, 2, 2], [1, 1, 1, 2], [1, 1, 1, 1, 1]}"
proof -
  from assms(2,3) have "length p \<le> 5"
    using length_le_sum_list [of p] by simp
  then show ?thesis
    using assms by (cases p rule: short_list_cases) (simp_all, presburger+)
qed

lemma pattern_partition:
  "kind_pattern h \<in>
     {[5], [1, 4], [2, 3], [1, 1, 3], [1, 2, 2], [1, 1, 1, 2], [1, 1, 1, 1, 1]}"
proof (rule partitions_of_5)
  show "sum_list (kind_pattern h) = 5"
    by (cases h) (simp add: kind_pattern_def sum_list_sort_nat sum_counts ranks_def)
  show "\<forall>x \<in> set (kind_pattern h). 0 < x"
    using count_list_0_iff by (fastforce simp: kind_pattern_def)
qed (simp add: kind_pattern_def)

lemma count_list_map: "count_list (map f xs) y = length (filter (\<lambda>x. f x = y) xs)"
  by (induction xs) auto

lemma pairs_pattern: "pairs h = count_list (kind_pattern h) 2"
  by (simp add: pairs_def kind_pattern_def count_list_sort count_list_map)

lemma same_kind_pattern: "same_kind h = Max (insert 0 (set (kind_pattern h)))"
  by (simp add: same_kind_def kind_pattern_def Max.set_eq_fold [symmetric])

lemma counts_fit:
  "pairs h = 1 \<longleftrightarrow> fits OnePair (kind_pattern h)"
  "pairs h = 2 \<longleftrightarrow> fits TwoPair (kind_pattern h)"
  "same_kind h = 3 \<longleftrightarrow> fits ThreeOfAKind (kind_pattern h)"
  "same_kind h = 4 \<longleftrightarrow> fits FourOfAKind (kind_pattern h)"
  "same_kind h = 3 \<and> pairs h = 1 \<longleftrightarrow> fits FullHouse (kind_pattern h)"
  using pattern_partition [of h] by (auto simp: pairs_pattern same_kind_pattern)

lemma counts_le_5: "pairs h \<le> 5" "same_kind h \<le> 5"
  using pattern_partition [of h] by (auto simp: pairs_pattern same_kind_pattern)

section \<open>The gates on a row, cell by cell\<close>

lemma flush_gate_cells:
  assumes "r < n_rows a"
  shows "list_all (\<lambda>p. evaluate a r p = 0)
           (fst (run_state (flush_gate q (Array5 k0 k1 k2 k3 k4)) vc)) \<longleftrightarrow>
         (enabled a q r \<longrightarrow>
            cell a k0 r = cell a k1 r \<and> cell a k1 r = cell a k2 r \<and>
            cell a k2 r = cell a k3 r \<and> cell a k3 r = cell a k4 r)"
  using assms by (simp add: run_flush_gate vanish_map guarded_all) (simp add: upt_0_4)

lemma straight_gate_cells:
  assumes "r < n_rows a"
  shows "list_all (\<lambda>p. evaluate a r p = 0)
           (fst (run_state (straight_gate q (Array5 k0 k1 k2 k3 k4)) vc)) \<longleftrightarrow>
         (enabled a q r \<longrightarrow>
            cell a k1 r = 1 \<and> cell a k2 r = 1 \<and> cell a k3 r = 1 \<and> cell a k4 r = 1)"
  using assms by (simp add: run_straight_gate vanish_map guarded_all) (simp add: loop_ranges)

lemma run_adjacent_gate:
  "run_state (adjacent_gate q cds) vc =
     (map (\<lambda>i. adjacent_constraint (SelectorQ q) (Advice (index5 cds (i - 1)) cur)
                 (Advice (index5 cds i) cur)) [1..<5],
      vc\<lparr>queried_selectors := queried_selectors vc @ [q],
         queried_cells := queried_cells vc @
           concat (map (\<lambda>i. [(index5 cds (i - 1), cur), (index5 cds i, cur)]) [1..<5])\<rparr>)"
  unfolding adjacent_gate_def by (simp add: loop_ranges)

lemma evaluate_adjacent [simp]:
  "evaluate a r (adjacent_constraint q x y) =
     evaluate a r q * (evaluate a r y - evaluate a r x - 1)"
  by (simp add: adjacent_constraint_def)

lemma adjacent_gate_cells:
  assumes "r < n_rows a"
  shows "list_all (\<lambda>p. evaluate a r p = 0)
           (fst (run_state (adjacent_gate q (Array5 k0 k1 k2 k3 k4)) vc)) \<longleftrightarrow>
         (enabled a q r \<longrightarrow>
            cell a k1 r = cell a k0 r + 1 \<and> cell a k2 r = cell a k1 r + 1 \<and>
            cell a k3 r = cell a k2 r + 1 \<and> cell a k4 r = cell a k3 r + 1)"
  using assms
  by (simp add: run_adjacent_gate vanish_map guarded_all)
     (simp add: loop_ranges algebra_simps)

lemma adjacent_gate_ascending:
  assumes "r < n_rows a" and "holds_hand a r cds (of_nat \<circ> rank_of) h" and "ascending h"
  shows "list_all (\<lambda>p. evaluate a r p = 0) (fst (run_state (adjacent_gate q cds) vc))"
  using assms
  by (cases cds; cases h) (simp add: adjacent_gate_cells holds_hand_iff ascending_iff)

text \<open>The encoding of the examples: four times the rank plus the index of the suit.\<close>

lemma example_flush_row:
  "holds_hand (one_row [0] [10, 22, 38, 46, 54 :: int]) 0 columns5
     (\<lambda>c. int (4 * rank_of c + suit_index (suit_of c)))
     (Array5 (Card 2 Hearts) (Card 5 Hearts) (Card 9 Hearts) (Card 11 Hearts) (Card 13 Hearts))"
  by (simp add: holds_hand_iff columns5_def)

lemma example_straight_row:
  "holds_hand (one_row [1] [3, 4, 5, 6, 7 :: int]) 0 columns5 (int \<circ> rank_of)
     (Array5 (Card 3 Clubs) (Card 4 Hearts) (Card 5 Hearts) (Card 6 Spades) (Card 7 Clubs))"
  by (simp add: holds_hand_iff columns5_def)

lemma royal_flush:
  "is_flush (Array5 (Card 10 Spades) (Card 11 Spades) (Card 12 Spades) (Card 13 Spades)
     (Card 14 Spades)) \<and>
   is_straight (Array5 (Card 10 Spades) (Card 11 Spades) (Card 12 Spades) (Card 13 Spades)
     (Card 14 Spades))"
  by (simp add: is_flush_iff is_straight_def ranks_def)

section \<open>Flush\<close>

text \<open>
  C24. Under an encoding that gives the five cards of a hand five different field
  elements, the flush gate rejects the hand when its selector is on: the gate asks for
  five equal cells, and five different cards are never equal. A flush of five hearts is
  rejected like any other hand.
\<close>

theorem flush_gate_rejects_distinct_cards:
  assumes "r < n_rows a" and "enabled a q r" and "holds_hand a r cds enc h"
    and "inj_on enc (set (list_of5 h))" and "distinct (list_of5 h)"
  shows "\<not> list_all (\<lambda>p. evaluate a r p = 0) (fst (run_state (flush_gate q cds) vc))"
proof
  assume vanish: "list_all (\<lambda>p. evaluate a r p = 0) (fst (run_state (flush_gate q cds) vc))"
  obtain k0 k1 k2 k3 k4 c0 c1 c2 c3 c4 where
    cds: "cds = Array5 k0 k1 k2 k3 k4" and h: "h = Array5 c0 c1 c2 c3 c4"
    by (cases cds; cases h) blast
  from vanish assms(1-3) have "enc c0 = enc c1"
    by (auto simp: cds h flush_gate_cells holds_hand_iff)
  moreover have "c0 \<in> set (list_of5 h)" and "c1 \<in> set (list_of5 h)"
    by (simp_all add: h)
  ultimately have "c0 = c1"
    using assms(4) by (auto dest: inj_onD)
  with assms(5) show False
    by (simp add: h)
qed

theorem flush_gate_rejects_distinct_cards_witness:
  "is_flush (Array5 (Card 2 Hearts) (Card 5 Hearts) (Card 9 Hearts) (Card 11 Hearts)
     (Card 13 Hearts)) \<and>
   \<not> list_all (\<lambda>p. evaluate (one_row [0] [10, 22, 38, 46, 54 :: int]) 0 p = 0)
       (fst (run_state (flush_gate (Selector 0 True) columns5) (new_virtual_cells cs_default)))"
  using flush_gate_rejects_distinct_cards [OF _ _ example_flush_row]
  by (simp add: is_flush_iff)

text \<open>
  C23. When the card cells hold an encoding of the suits alone, different suits having
  different codes, the flush gate decides the flush: its polynomials vanish at a row
  exactly when the flush selector is off or the five cards of the hand have one suit.
\<close>

theorem flush_gate_decides_flush:
  assumes "r < n_rows a" and "holds_hand a r cds (code \<circ> suit_of) h"
    and "inj_on code (set (suits h))"
  shows "list_all (\<lambda>p. evaluate a r p = 0) (fst (run_state (flush_gate q cds) vc)) \<longleftrightarrow>
           (enabled a q r \<longrightarrow> is_flush h)"
proof -
  obtain k0 k1 k2 k3 k4 c0 c1 c2 c3 c4 where
    cds: "cds = Array5 k0 k1 k2 k3 k4" and h: "h = Array5 c0 c1 c2 c3 c4"
    by (cases cds; cases h) blast
  from assms(3) have eq: "code (suit_of x) = code (suit_of y) \<longleftrightarrow> suit_of x = suit_of y"
    if "x \<in> set (list_of5 h)" and "y \<in> set (list_of5 h)" for x y
    using that by (simp add: suits_def inj_on_eq_iff)
  from assms(1,2) show ?thesis
    unfolding cds h by (simp add: flush_gate_cells holds_hand_iff is_flush_iff eq h) metis
qed

theorem flush_gate_decides_flush_witness:
  "\<not> list_all (\<lambda>p. evaluate (one_row [0] [2, 2, 2, 0, 2 :: int]) 0 p = 0)
       (fst (run_state (flush_gate (Selector 0 True) columns5) (new_virtual_cells cs_default)))"
  using flush_gate_decides_flush [OF _ _ inj_on_suit_code, of 0
      "one_row [0] [2, 2, 2, 0, 2 :: int]" columns5
      "Array5 (Card 2 Hearts) (Card 5 Hearts) (Card 9 Hearts) (Card 11 Clubs) (Card 13 Hearts)"
      "Selector 0 True" "new_virtual_cells cs_default"]
  by (simp add: holds_hand_iff columns5_def is_flush_iff)

section \<open>Straight\<close>

text \<open>
  C25. When the card cells hold an encoding of the ranks, different ranks of the hand
  having different codes, the straight gate rejects every straight when its selector is
  on, in whatever order the cards are laid out: the gate asks the last four cells to
  hold the same element, and the ranks of a straight are pairwise different.
\<close>

theorem straight_gate_rejects_straights:
  assumes "r < n_rows a" and "enabled a q r" and "holds_hand a r cds (code \<circ> rank_of) h"
    and "inj_on code (set (ranks h))" and "is_straight h"
  shows "\<not> list_all (\<lambda>p. evaluate a r p = 0) (fst (run_state (straight_gate q cds) vc))"
proof -
  from \<open>is_straight h\<close> have "distinct (ranks h)"
    by (rule straight_distinct)
  moreover obtain k0 k1 k2 k3 k4 c0 c1 c2 c3 c4 where
    cds: "cds = Array5 k0 k1 k2 k3 k4" and h: "h = Array5 c0 c1 c2 c3 c4"
    by (cases cds; cases h) blast
  ultimately have "rank_of c1 \<noteq> rank_of c2"
    by (simp add: ranks_def)
  moreover have "rank_of c1 \<in> set (ranks h)" and "rank_of c2 \<in> set (ranks h)"
    by (simp_all add: h ranks_def)
  ultimately have "code (rank_of c1) \<noteq> code (rank_of c2)"
    using assms(4) by (auto dest: inj_onD)
  with assms(1-3) show ?thesis
    by (auto simp: cds h straight_gate_cells holds_hand_iff)
qed

theorem straight_gate_rejects_straights_witness:
  "\<not> list_all (\<lambda>p. evaluate (one_row [1] [3, 4, 5, 6, 7 :: int]) 0 p = 0)
       (fst (run_state (straight_gate (Selector 1 True) columns5) (new_virtual_cells cs_default)))"
  using straight_gate_rejects_straights [OF _ _ example_straight_row]
  by (simp add: is_straight_def ranks_def)

text \<open>
  C26. The straight gate is not the adjacency check, and no table reconciles them: on a
  row with the selector on, the polynomials of the straight gate and those of the
  adjacency check never vanish together. The gate as written forces the second and the
  third card cell to 1, the adjacency check forces the third to exceed the second by 1.
\<close>

theorem straight_gate_excludes_adjacency:
  assumes "r < n_rows a" and "enabled a q r"
    and "list_all (\<lambda>p. evaluate a r p = 0) (fst (run_state (adjacent_gate q cds) vc))"
  shows "\<not> list_all (\<lambda>p. evaluate a r p = 0) (fst (run_state (straight_gate q cds) vc'))"
  using assms
  by (cases cds) (auto simp: straight_gate_cells adjacent_gate_cells)

theorem straight_gate_excludes_adjacency_witness:
  "list_all (\<lambda>p. evaluate (one_row [1] [3, 4, 5, 6, 7 :: int]) 0 p = 0)
     (fst (run_state (adjacent_gate (Selector 1 True) columns5) (new_virtual_cells cs_default))) \<and>
   \<not> list_all (\<lambda>p. evaluate (one_row [1] [3, 4, 5, 6, 7 :: int]) 0 p = 0)
       (fst (run_state (straight_gate (Selector 1 True) columns5) (new_virtual_cells cs_default)))"
  using straight_gate_excludes_adjacency [where q = "Selector 1 True"
      and vc = "new_virtual_cells cs_default" and vc' = "new_virtual_cells cs_default",
      OF _ _ adjacent_gate_ascending [OF _ example_straight_row]]
    adjacent_gate_ascending [where q = "Selector 1 True"
      and vc = "new_virtual_cells cs_default", OF _ example_straight_row]
  by (simp add: ascending_iff)


end
