(* ===== verification/Spec2Isabelle.thy ===== *)
theory Spec2Isabelle
  imports Holdem_Circuit Assign_Steps Layouter_Interface Poker_Hands "HOL-Library.Numeral_Type"
begin

text \<open>
  \<^bold>\<open>A verification development for halo2-holdem.\<close>

  The repository is one Rust file, \<^verbatim>\<open>src/holdem/vanillaholdem.rs\<close>, that describes
  a circuit for a PLONK-style proof system: a prover holds two private cards, three
  community cards are public, and a row of the circuit is meant to show that the five
  cards form a claimed poker hand (straight, flush, one pair, two pair, three of a kind,
  four of a kind, full house). The program has two parts that run in this order.

  \<^item> The \<^emph>\<open>schema builder\<close> (\<^verbatim>\<open>Circuit::configure\<close> and
    \<^verbatim>\<open>VanillaHoldemChip::configure\<close>) allocates six selectors, seven advice
    (witness) columns and two instance (public) columns on the backend's constraint system
    and registers seven named gates. A gate is a list of polynomials over the cells of a
    row, each multiplied by a selector; the backend accepts a table when every polynomial
    is zero on every row.
  \<^item> The \<^emph>\<open>witness assigner\<close> (\<^verbatim>\<open>Circuit::synthesize\<close> and
    \<^verbatim>\<open>VanillaHoldemChip::assign_card\<close>) opens one region on the backend's
    layouter and writes the five card values into the five card columns of its row 0.

  The proving backend (\<^verbatim>\<open>halo2_proofs\<close>) is not in the repository. The two
  narrow interfaces the program calls are modelled from the specification; key generation,
  proving and verification are not modelled, and the development stops at whether a table
  satisfies the constraint system.

  \<^bold>\<open>Theories.\<close>

  \<^descr>[\<open>Holdem_Prelude\<close>] The fact collections (\<open>plonk_defs\<close>, \<open>gate_defs\<close>,
    \<open>region_defs\<close>, \<open>holdem_defs\<close>), Rust's fixed-size arrays as datatypes
    (\<open>array2\<close>, \<open>array3\<close>, \<open>array5\<close> with \<open>index5\<close> and \<open>try_into5\<close>),
    \<^verbatim>\<open>Result\<close> as a sum with \<open>and_then\<close> for the \<^verbatim>\<open>?\<close> operator and
    \<open>map_ok\<close>, a sequence of writes to a map (\<open>write_cells\<close>), the predicate
    \<open>preserves\<close> on state-monad computations with one rule per combinator, and the
    ring, list and map facts the component proofs share.
  \<^descr>[\<open>Plonk_Expression\<close>] Selectors, typed columns, rotations, the backend's expression
    tree with the operators the source uses (\<open>*\<close> and \<open>-\<close> by instantiating the
    syntactic classes), tables (\<open>assignment\<close>) and \<open>evaluate\<close>. The field is any type
    of class \<open>comm_ring_1\<close>: all that is proved holds in every commutative ring with
    \<open>0 \<noteq> 1\<close>, in particular in every prime field. The constants \<^verbatim>\<open>F::one()\<close>
    and \<^verbatim>\<open>F::from_u128(k)\<close> for \<open>k = 2, 3, 4\<close> are the ring's numerals.
  \<^descr>[\<open>Constraint_System\<close>] The constraint-system handle: its state as a record, the
    allocation calls \<open>selector\<close>, \<open>advice_column\<close>, \<open>instance_column\<close>, the queries
    \<open>query_selector\<close> and \<open>query_advice\<close> of a gate closure, and \<open>create_gate\<close>,
    all as computations of HOL-Library's state monad; satisfaction (\<open>gate_satisfied\<close>,
    \<open>row_satisfied\<close>, \<open>cs_satisfied\<close>), well-formedness (\<open>cs_wf\<close>: gates are not
    empty and read declared selectors and columns only, monotone under allocation) and
    scope: a well-formed system is satisfied alike by tables that agree on what it has
    allocated (\<open>agree_on\<close>, \<open>cs_satisfied_agree\<close>).
  \<^descr>[\<open>Builder_Calls\<close>] The handle as a state machine: the datatype
    \<open>builder_call\<close> of its four calls, the step function \<open>perform\<close>, legality of a
    call (\<open>call_ok\<close>: a gate closure only queries, returns a polynomial, and reads
    what is allocated), and the inductive predicate \<open>reachable\<close> with the invariant
    \<open>reachable_well_formed\<close>, proved by rule induction.
  \<^descr>[\<open>Plonk_Region\<close>] The layouter and region handle: \<open>assign_advice\<close> fails with
    \<open>ColumnNotInSchema\<close> or \<open>CellAlreadyAssigned\<close>, \<open>assign_region\<close> commits the
    region's cells only when the closure succeeds. \<open>layouter_wf\<close> is the invariant
    that assigned cells lie in declared columns; \<open>layouter_shape\<close> is what a layout
    keeps when the values are forgotten; \<open>completed_table\<close> is the table the backend
    checks once the caller has chosen the selector flags, the cells the layouter leaves
    open and the public inputs.
  \<^descr>[\<open>Holdem_Config\<close>] \<^verbatim>\<open>VanillaHoldemConfig\<close>, \<^verbatim>\<open>VanillaHoldemChip\<close>
    and \<^verbatim>\<open>construct\<close>; \<open>example_config\<close>, the configuration of the examples.
  \<^descr>[\<open>Hand_Claims\<close>] The abstract specification: the hand categories, the condition
    the specification's table attaches to each, the selectors a claim of a category
    enables, and \<open>claims_hold\<close>, the contract of a configured row.
  \<^descr>[\<open>Holdem_Gates\<close>] The schema builder: one definition per gate closure
    (\<open>straight_gate\<close>, \<open>flush_gate\<close>, \<open>one_pair_gate\<close>, \<open>two_pair_gate\<close>,
    \<open>three_of_a_kind_gate\<close>, \<open>four_of_a_kind_gate\<close>, \<open>full_house_gate\<close>), the
    polynomial of each constraint as a definition of its own, and \<open>chip_configure\<close>.
    \<open>run_chip_configure\<close> computes what it returns and registers and
    \<open>configured_gates_hold_iff\<close> reads the seven gates as conditions on a row. The
    theorems show that the configured system refines \<open>claims_hold\<close>
    (\<open>configured_row_implements_claims\<close>), characterise every gate
    (\<open>straight_gate_forces_ones\<close>, \<open>flush_gate_forces_equal_cells\<close>,
    \<open>count_gates_check_counts\<close>, \<open>full_house_gate_checks_both\<close>), and record what
    the gates do not check: the full-house gate is redundant, a row without a claim is
    accepted, contradictory claims are not, no gate reads a public column or relates the
    counts to the cards; every polynomial has degree 2 and the gates are registered in
    the order of the source (\<open>chip_configure_registers\<close>). \<open>chip_calls\<close> is the
    function as a list of calls on the handle.
  \<^descr>[\<open>Holdem_Assign\<close>] The witness assigner: \<open>hand_of\<close>, \<open>assign_cells\<close>,
    \<open>hand_check\<close> and \<open>assign_card\<close> on the layouter of \<open>Plonk_Region\<close>,
    with the panic of the failed conversion and the backend's rejections as error values.
    \<open>assign_card_Inr_iff\<close> is the whole behaviour of a successful call and
    \<open>assign_cells_stops\<close> that of a failing loop. The theorems give what a call writes
    (\<open>assign_card_writes_hand\<close>), exactly when it succeeds
    (\<open>assign_card_succeeds_iff\<close>), which error a failing call returns, namely the
    rejection of the first write the backend does not accept and never the panic
    (\<open>assign_card_first_rejection\<close>), that a second call is rejected, that the written
    row reads back as the hand, that nothing else is written and that the layouter stays
    well formed.
  \<^descr>[\<open>Assign_Steps\<close>] The loop of the region closure as the machine the source runs:
    configurations \<open>loop_state\<close> (the range's index with the region, or the value the
    closure returned), the step function \<open>write_next\<close>, the step relation
    \<open>write_step\<close> and the loop \<open>run_loop\<close>, a \<open>while_option\<close> over the step
    function. The theorems show that the loop returns and agrees with \<open>hand_check\<close>
    (\<open>run_loop_returns\<close>), that every run reaches exactly one final configuration
    (\<open>every_run_ends\<close>), the invariant of the loop by induction on the run
    (\<open>write_loop_invariant\<close>) and that no run has more than six steps
    (\<open>run_length_bounded\<close>).
  \<^descr>[\<open>Layouter_Interface\<close>] The assigner as the source types it, over any
    \<^verbatim>\<open>impl Layouter<F>\<close>: the record \<open>layouter_ops\<close> of the operations the
    source calls (\<^verbatim>\<open>assign_region\<close>, \<^verbatim>\<open>assign_advice\<close>,
    \<^verbatim>\<open>namespace\<close>), the functions \<open>assign_cells_on\<close>, \<open>hand_check_on\<close>
    and \<open>assign_card_on\<close> over such a record, and the contract
    \<open>implements_layouter\<close>: through an abstraction function and under an invariant
    of its own, an implementation simulates the layouter of \<open>Plonk_Region\<close>
    (\<open>simulates\<close>, with one rule per combinator). \<open>assign_card_on_refines\<close> is the
    client's theorem, for every implementation that meets the contract. Two
    implementations discharge it: \<open>region_ops\<close>, the layouter of the specification, on
    which \<open>assign_card_on\<close> is \<open>assign_card\<close>, and \<open>journal_ops\<close>, a
    layouter that keeps the list of its writes in the order they were made, with the
    invariant that no cell has two entries. On the journal the order of the five writes
    is a theorem (\<open>assign_card_writes_in_order\<close>).
  \<^descr>[\<open>Holdem_Circuit\<close>] \<^verbatim>\<open>VanillaHoldemCircuit\<close>, \<open>without_witnesses\<close>,
    the associated type \<^verbatim>\<open>Config\<close> (\<open>circuit_config\<close>),
    \<open>circuit_configure\<close> and \<open>synthesize\<close>. The theorems give the numbering of the
    allocated selectors and columns (\<open>circuit_configure_layout\<close>), the success of
    synthesis after configuration (\<open>synthesize_after_configure\<close>), well-formedness of
    the configured system as an invariant, that the circuit without witnesses lays out
    the same shape, that \<open>circuit_configure\<close> is the run of the twenty-two legal calls
    of \<open>circuit_calls\<close> and keeps the system reachable.
  \<^descr>[\<open>Poker_Hands\<close>] The rules of the game, which the repository leaves to the
    caller: suits, cards, \<open>is_flush\<close>, \<open>is_straight\<close> (ace high or low), the counts
    \<open>pairs\<close> and \<open>same_kind\<close>, the pattern of equal ranks of a hand
    (\<open>kind_pattern\<close>, a partition of 5 by \<open>pattern_partition\<close>) with the patterns
    that fit each claim (\<open>fits\<close>, \<open>counts_fit\<close>), what it means that a row holds a
    hand under an encoding (\<open>holds_hand\<close>), and the adjacency check that the
    specification documents as the likely intent of the straight gate
    (\<open>adjacent_gate\<close>). The theorems compare the gates with the rules: the flush gate
    decides a flush when the cells hold the suits alone and rejects every hand of five
    different cards when the encoding tells the cards apart; the straight gate rejects
    every straight and excludes the adjacency check.
  \<^descr>[\<open>Spec2Isabelle\<close>] This theory: the properties that span the schema builder and
    the witness assigner, and \<open>synthesize_on\<close>, \<^verbatim>\<open>Circuit::synthesize\<close> over
    any layouter, which refines \<open>synthesize\<close> for every implementation that meets the
    contract (\<open>synthesize_on_simulates\<close>) and so writes the hand after
    \<open>circuit_configure\<close> on each of them (\<open>synthesize_on_after_configure\<close>). The
    synthesized row satisfies the configured system exactly when
    the claimed categories' conditions hold of the circuit's inputs
    (\<open>synthesized_row_refines_claims\<close>); with no selector enabled every circuit is
    accepted; with the count cells left at zero no count-based claim is, in a field of
    characteristic above 3, while in the integers modulo 2 and modulo 3 some are
    (\<open>small_characteristic_accepts_zero_counts\<close>); for the circuit
    of a hand (\<open>circuit_of\<close>) no hand of five different cards can be proved a straight
    or a flush (\<open>straight_and_flush_unprovable\<close>), a caller who writes the counts of
    the hand has a count claim accepted exactly when the hand's pattern fits it
    (\<open>honest_count_claim_decided\<close>), and a caller who writes the counts a claim
    demands has the claim accepted for every hand (\<open>forged_count_claim_accepted\<close>).
    \<open>provable_claims_characterised\<close> puts these together: for every category it
    gives the condition on the five card values (\<open>card_condition\<close>) under which
    the synthesized table has a completion that satisfies the configured system, and the
    condition is that of \<open>Hand_Claims\<close> with the counts left to the prover
    (\<open>card_condition_iff\<close>). \<open>selectors_claim_categories\<close> reads a claim back
    from the selector flags: full house is the one category without a selector of its own.
    The configured system is satisfied alike by tables that agree on its allocated
    selectors and columns (\<open>configured_system_scoped\<close>).

  \<^bold>\<open>Modelling decisions.\<close>

  \<^item> A value of type \<^verbatim>\<open>Value<Assigned<F>>\<close> is \<open>'f option\<close>: \<open>None\<close> is
    \<^verbatim>\<open>Value::unknown()\<close>. The deferred inversion inside \<^verbatim>\<open>Assigned\<close> is not
    modelled; \<open>assign_card\<close> never looks inside a value.
  \<^item> The loops of the source run over literal ranges (\<^verbatim>\<open>1..5\<close>, \<^verbatim>\<open>0..4\<close>,
    \<^verbatim>\<open>0..5\<close>); in the component theories they are \<open>traverse_list\<close> and a
    \<open>fun\<close> over the index list, which terminate structurally. The write loop, the one
    loop that can leave early, is also given with its counter (\<open>Assign_Steps\<close>); its
    \<open>while_option\<close> needs no fuel, because \<open>run_loop_returns\<close> proves that it
    returns, and \<open>steps_left\<close> is the measure that decreases with every step.
  \<^item> Rust's array types fix the lengths, so an index is in range whenever it is below the
    literal bound; no definition depends on \<open>index5\<close> beyond index 4, and the conversion
    of the chained values to an array of five always succeeds (\<open>hand_of_total\<close>).
  \<^item> The source is generic in the layouter. \<open>Holdem_Assign\<close> and
    \<open>Holdem_Circuit\<close> fix the layouter of the specification; \<open>Layouter_Interface\<close>
    has the same functions over a record of operations, and its refinement theorem
    carries every result over to an implementation that meets the contract. The contract
    quantifies over the closures handed to \<^verbatim>\<open>assign_region\<close>: a region whose
    closure simulates an abstract closure simulates the abstract region of that closure.
  \<^item> The field is a type parameter of class \<open>comm_ring_1\<close>; where a theorem needs
    that 2, 3 and 4 are not zero, or that the numbers 0 to 5 are different, it says so.
    The examples are evaluated in the integers; the types \<open>2\<close> and \<open>3\<close> of
    HOL-Library's \<open>Numeral_Type\<close>, the integers modulo 2 and 3, show that the
    hypotheses cannot be dropped.
  \<^item> A region's offset 0 is row 0 of the table: the specification asks that a second
    assignment to the same cells is rejected, which rules out a floor planner that moves
    the region.
  \<^item> The source never enables a selector and never writes the two count columns; the
    specification leaves both to the caller. \<open>completed_table\<close> therefore takes the
    selector flags and the open cells as arguments, and the end-to-end theorems hold for
    every choice of them. An unknown value counts as an open cell.
  \<^item> \<open>synthesized_row_refines_claims\<close> and the component theorems hold from any
    constraint system and any layouter that meets their hypotheses. The other
    end-to-end theorems start from \<open>cs_default\<close>, the empty constraint system the
    backend hands to \<^verbatim>\<open>Circuit::configure\<close>, and a fresh layouter with the seven
    advice columns of the configured system.
  \<^item> The encoding of a card is a parameter of every theorem on playing cards; the
    hypotheses say what an encoding has to tell apart (the cards, the suits or the ranks
    of the hand). The examples use four times the rank plus the index of the suit.

  \<^bold>\<open>Not modelled.\<close> Key generation, proof generation and verification, commitments
  and the transcript: they are the backend's, and the specification puts them out of
  scope. The floor planner \<^verbatim>\<open>V1\<close>, a library type the source only names as
  the associated type \<^verbatim>\<open>FloorPlanner\<close>. Fixed columns, lookups, equality
  constraints, the backend's query indices and the \<^verbatim>\<open>AssignedCell\<close> returned by
  a write, which the source does not use. Schema errors: the specification allows the
  backend to run out of resources while a schema is built, but the handle's operations
  return no result in the source, so such a failure never reaches the code modelled here.
  The computation of the counts and the choice of the selectors belong to a caller that
  is not in the repository; \<open>Poker_Hands\<close> states the rules they are meant to follow
  and the theorems quantify over every caller.

  Every function, method and struct of the source file has its definition, and so has
  the associated type \<^verbatim>\<open>Config\<close>. The lines without one are the imports, the headers and braces of the
  \<^verbatim>\<open>impl\<close> blocks, and the line that names the floor planner.

  \<^bold>\<open>What the development found.\<close> The straight gate forces the last four cards to
  the constant 1 and ignores the first; the flush gate forces all five card cells to be
  equal; together they reject every hand of five different cards, whatever the encoding.
  The count-based gates are right for a caller who writes the true counts, but they
  constrain only cells the prover supplies, so every hand is accepted under every count
  claim; the public columns are never read; and \<open>synthesize\<close> alone yields a table
  that proves no claim. So the claims that can be proved are: a straight when the last
  four card values are 1, a flush when the five card values are equal, and every other
  category for every hand. A failing \<open>assign_card\<close> reports the first rejected write in
  column order, and a configuration that names a card column twice is rejected only at
  the second write to it.
\<close>

section \<open>Synthesis over any layouter\<close>

text \<open>
  \<^verbatim>\<open>Circuit::synthesize\<close> takes \<^verbatim>\<open>impl Layouter<F>\<close> as
  \<^verbatim>\<open>assign_card\<close> does; this is the function over the operations of a layouter.
\<close>

definition synthesize_on ::
  "('l, 'r, 'f val) layouter_ops \<Rightarrow> 'f VanillaHoldemCircuit \<Rightarrow> VanillaHoldemConfig \<Rightarrow> 'l \<Rightarrow>
     (error, 'l) result" where
  "synthesize_on ops self cfg layouter =
     (let chip = (construct cfg :: 'f VanillaHoldemChip) in
      and_then
        (assign_card_on ops chip (circuit_cards self) (circuit_table_cards self)
           (ops_namespace ops ''one hand'' layouter))
        Inr)"

section \<open>Hands as circuits, and callers\<close>

text \<open>The circuit of a hand: the first two cards are the private ones.\<close>

fun circuit_of :: "(playing_card \<Rightarrow> 'f) \<Rightarrow> poker_hand \<Rightarrow> 'f VanillaHoldemCircuit" where
  "circuit_of enc (Array5 c0 c1 c2 c3 c4) =
     \<lparr>circuit_cards = Array2 (Some (enc c0)) (Some (enc c1)),
      circuit_table_cards = Array3 (Some (enc c2)) (Some (enc c3)) (Some (enc c4))\<rparr>"

text \<open>
  The flags and the open cells of a caller who claims the category \<open>cat\<close> on row 0 and
  writes into the two count cells, columns 5 and 6 of the system configured from the
  empty one, what the gates of \<open>cat\<close> compare them with.
\<close>

fun demanded_pairs :: "category \<Rightarrow> nat" where
  "demanded_pairs OnePair = 1"
| "demanded_pairs TwoPair = 2"
| "demanded_pairs FullHouse = 1"
| "demanded_pairs _ = 0"

fun demanded_kind :: "category \<Rightarrow> nat" where
  "demanded_kind ThreeOfAKind = 3"
| "demanded_kind FourOfAKind = 4"
| "demanded_kind FullHouse = 3"
| "demanded_kind _ = 0"

definition claim_flags :: "VanillaHoldemConfig \<Rightarrow> category \<Rightarrow> nat \<Rightarrow> nat \<Rightarrow> bool" where
  "claim_flags cfg cat q r \<longleftrightarrow> r = 0 \<and> q \<in> selector_index ` set (selectors_for cfg cat)"

definition forged_counts :: "category \<Rightarrow> nat \<Rightarrow> nat \<Rightarrow> 'f::comm_ring_1" where
  "forged_counts cat c r =
     (if c = 5 then of_nat (demanded_pairs cat)
      else if c = 6 then of_nat (demanded_kind cat) else 0)"

text \<open>A caller who writes the counts of the hand itself.\<close>

definition honest_counts :: "poker_hand \<Rightarrow> nat \<Rightarrow> nat \<Rightarrow> 'f::comm_ring_1" where
  "honest_counts h c r =
     (if c = 5 then of_nat (pairs h) else if c = 6 then of_nat (same_kind h) else 0)"

fun count_category :: "category \<Rightarrow> bool" where
  "count_category Straight = False"
| "count_category Flush = False"
| "count_category _ = True"

text \<open>
  What a claim of a category asks of the five card values alone, the count cells being
  the caller's: the condition of the category with the counts chosen freely
  (\<open>card_condition_iff\<close>).
\<close>

fun card_condition :: "category \<Rightarrow> ('f::comm_ring_1) array5 \<Rightarrow> bool" where
  "card_condition Straight (Array5 v0 v1 v2 v3 v4) \<longleftrightarrow> v1 = 1 \<and> v2 = 1 \<and> v3 = 1 \<and> v4 = 1"
| "card_condition Flush (Array5 v0 v1 v2 v3 v4) \<longleftrightarrow> v0 = v1 \<and> v1 = v2 \<and> v2 = v3 \<and> v3 = v4"
| "card_condition c v \<longleftrightarrow> True"

declare circuit_of.simps [simp del]

section \<open>Synthesis refines synthesis on the specification's layouter\<close>

lemma synthesize_on_region_ops: "synthesize_on region_ops = synthesize"
  by (simp add: fun_eq_iff synthesize_on_def synthesize_def assign_card_on_region_ops)

lemma synthesize_on_simulates:
  assumes "implements_layouter ops al ar invl invr"
  shows "simulates al invl (synthesize_on ops circ cfg) (synthesize circ cfg)"
proof (rule simulatesI)
  fix l assume l: "invl l"
  let ?n = "ops_namespace ops ''one hand'' l"
  let ?on = "assign_card_on ops (construct cfg) (circuit_cards circ) (circuit_table_cards circ) ?n"
  have card: "simulates al invl
      (assign_card_on ops (construct cfg) (circuit_cards circ) (circuit_table_cards circ))
      (assign_card (construct cfg) (circuit_cards circ) (circuit_table_cards circ))"
    using assms by (rule assign_card_on_simulates)
  from assms l have n: "invl ?n" and abs: "al ?n = al l"
    by (rule implements_layouterD(4), rule implements_layouterD(3))
  have on: "synthesize_on ops circ cfg l = ?on"
    by (simp add: synthesize_on_def)
  have "map_ok al ?on =
      assign_card (construct cfg) (circuit_cards circ) (circuit_table_cards circ) (al ?n)"
    using card n by (rule simulatesD(1))
  also have "\<dots> = synthesize circ cfg (al l)"
    unfolding abs by (rule synthesize_assign_card [symmetric])
  finally show "map_ok al (synthesize_on ops circ cfg l) = synthesize circ cfg (al l)"
    unfolding on .
  fix l' assume "synthesize_on ops circ cfg l = Inr l'"
  then have "?on = Inr l'"
    unfolding on .
  with card n show "invl l'"
    by (rule simulatesD(2))
qed

lemma map_ok_eq_Inr_iff: "map_ok f r = Inr y \<longleftrightarrow> (\<exists>x. r = Inr x \<and> f x = y)"
  by (cases r) auto

text \<open>
  C40. Configure, then synthesize, on any layouter. Let an implementation of the
  layouter's operations meet the contract, and let its state meet its invariant and
  represent a layouter that declares the seven advice columns of the configured system
  and has the five card cells of row 0 free. Then \<open>synthesize_on\<close>, with the
  configuration that \<open>circuit_configure\<close> returned, succeeds; the new state meets the
  invariant and represents the layouter with the two private and the three public values
  written to row 0 of the five card columns and the region \<^verbatim>\<open>hand check\<close>
  recorded.
\<close>

theorem synthesize_on_after_configure:
  fixes cs :: "('f::comm_ring_1) constraint_system" and ops :: "('l, 'r, 'f val) layouter_ops"
  assumes "implements_layouter ops al ar invl invr" and "invl l"
    and "num_advice_columns cs + 7 \<le> declared_columns (al l)"
    and "list_all (\<lambda>i. table (al l) (num_advice_columns cs + i, 0) = None) [0..<5]"
  shows "\<exists>l'. synthesize_on ops \<lparr>circuit_cards = Array2 a b, circuit_table_cards = Array3 c d e\<rparr>
            (fst (run_state circuit_configure cs)) l = Inr l' \<and> invl l' \<and>
          al l' = (al l)\<lparr>table := table (al l) ++
                    map_of (zip (map (\<lambda>i. (num_advice_columns cs + i, 0)) [0..<5])
                      [a, b, c, d, e]),
                  regions := regions (al l) @ [''hand check'']\<rparr>"
proof -
  let ?circ = "\<lparr>circuit_cards = Array2 a b, circuit_table_cards = Array3 c d e\<rparr>"
  let ?cfg = "fst (run_state circuit_configure cs)"
  let ?lay = "(al l)\<lparr>table := table (al l) ++
      map_of (zip (map (\<lambda>i. (num_advice_columns cs + i, 0)) [0..<5]) [a, b, c, d, e]),
      regions := regions (al l) @ [''hand check'']\<rparr>"
  note sim = simulatesD [OF synthesize_on_simulates [OF assms(1)] assms(2), of ?circ ?cfg]
  from assms(3,4) have "synthesize ?circ ?cfg (al l) = Inr ?lay"
    by (simp add: synthesize_def assign_card_Inr_iff circuit_configure_config upt_0_5)
  with sim(1) obtain l' where l': "synthesize_on ops ?circ ?cfg l = Inr l'" and "al l' = ?lay"
    by (auto simp: map_ok_eq_Inr_iff)
  with sim(2) [OF l'] show ?thesis
    by blast
qed

theorem synthesize_on_after_configure_witness:
  "\<exists>j. synthesize_on journal_ops
       \<lparr>circuit_cards = Array2 (Some 14) (Some 27),
        circuit_table_cards = Array3 (Some 3) (Some 40) (Some (5::int))\<rparr>
       (fst (run_state circuit_configure (cs_default :: int constraint_system)))
       (new_journal 7) = Inr j \<and>
     journal_inv j \<and> layouter_of j = example_layouter"
proof -
  let ?j = "new_journal 7 :: int val journal"
  have "journal_inv ?j"
    and "num_advice_columns (cs_default :: int constraint_system) + 7 \<le>
      declared_columns (layouter_of ?j)"
    and "list_all (\<lambda>i. table (layouter_of ?j)
      (num_advice_columns (cs_default :: int constraint_system) + i, 0) = None) [0..<5]"
    by (simp_all add: region_defs cs_default_simps list_all_iff)
  from synthesize_on_after_configure [OF journal_implements this,
      of "Some 14" "Some 27" "Some 3" "Some 40" "Some 5"]
  have "\<exists>j. synthesize_on journal_ops
       \<lparr>circuit_cards = Array2 (Some 14) (Some 27),
        circuit_table_cards = Array3 (Some 3) (Some 40) (Some (5::int))\<rparr>
       (fst (run_state circuit_configure (cs_default :: int constraint_system))) ?j = Inr j \<and>
     journal_inv j \<and>
     layouter_of j = (layouter_of ?j)\<lparr>table := table (layouter_of ?j) ++
         map_of (zip (map (\<lambda>i. (num_advice_columns (cs_default :: int constraint_system) + i, 0))
           [0..<5]) [Some 14, Some 27, Some 3, Some 40, Some 5]),
       regions := regions (layouter_of ?j) @ [''hand check'']\<rparr>" .
  moreover have "(layouter_of ?j)\<lparr>table := table (layouter_of ?j) ++
         map_of (zip (map (\<lambda>i. (num_advice_columns (cs_default :: int constraint_system) + i, 0))
           [0..<5]) [Some 14, Some 27, Some 3, Some 40, Some 5]),
       regions := regions (layouter_of ?j) @ [''hand check'']\<rparr> = example_layouter"
    by (auto simp: layouter_of_def new_journal_def example_layouter_def upt_0_5 cs_default_simps)
  ultimately show ?thesis
    by simp
qed

section \<open>From the circuit's inputs to the accepted claims\<close>

text \<open>
  The properties below run the two parts one after the other, as the backend does:
  \<open>circuit_configure\<close> on a constraint system, then \<open>synthesize\<close> with the
  returned configuration on a layouter that declares the advice columns of the configured
  system. The caller completes the layouter's cells to a table (\<open>completed_table\<close>):
  it chooses the selector flags, the cells that \<open>synthesize\<close> left unassigned, among
  them the two count cells, and the public inputs.
\<close>

text \<open>
  C8. Refinement, end to end. Let \<open>circuit_configure\<close> run on any constraint system
  and \<open>synthesize\<close>, with the returned configuration and known card values \<open>a\<close>,
  \<open>b\<close> (private) and \<open>c\<close>, \<open>d\<close>, \<open>e\<close> (public), on any layouter that declares the
  seven new advice columns and has the five card cells of row 0 free. Then
  \<open>synthesize\<close> succeeds; row 0 of every completion of the resulting table reads as
  the hand \<open>a, b, c, d, e\<close>; and row 0 satisfies the configured constraint system
  exactly when it satisfies the gates that were there before and the contract
  \<open>claims_hold\<close> holds of it, that is, when every category the caller claims has its
  condition true of that hand and the count cells.
\<close>

theorem synthesized_row_refines_claims:
  fixes a b c d e :: "'f::comm_ring_1"
    and cs :: "'f constraint_system" and lay :: "'f val layouter"
  assumes "num_advice_columns cs + 7 \<le> declared_columns lay"
    and "list_all (\<lambda>i. table lay (num_advice_columns cs + i, 0) = None) [0..<5]"
  shows "\<exists>lay'. synthesize
            \<lparr>circuit_cards = Array2 (Some a) (Some b),
             circuit_table_cards = Array3 (Some c) (Some d) (Some e)\<rparr>
            (fst (run_state circuit_configure cs)) lay = Inr lay' \<and>
          hand (read_row (fst (run_state circuit_configure cs))
                  (AdviceColumn (num_advice_columns cs + 5))
                  (AdviceColumn (num_advice_columns cs + 6))
                  (completed_table lay' (Suc n) on rest inst) 0) = Array5 a b c d e \<and>
          (row_satisfied (completed_table lay' (Suc n) on rest inst) 0
             (snd (run_state circuit_configure cs)) \<longleftrightarrow>
           row_satisfied (completed_table lay' (Suc n) on rest inst) 0 cs \<and>
           claims_hold (fst (run_state circuit_configure cs))
             (AdviceColumn (num_advice_columns cs + 5))
             (AdviceColumn (num_advice_columns cs + 6))
             (completed_table lay' (Suc n) on rest inst) 0)"
proof -
  let ?cfg = "fst (run_state circuit_configure cs)"
  let ?lay = "lay\<lparr>table := table lay ++
      map_of (zip (map (\<lambda>i. (num_advice_columns cs + i, 0)) [0..<5])
        [Some a, Some b, Some c, Some d, Some e]),
      regions := regions lay @ [''hand check'']\<rparr>"
  let ?t = "completed_table ?lay (Suc n) on rest inst"
  from assms have "synthesize
      \<lparr>circuit_cards = Array2 (Some a) (Some b),
       circuit_table_cards = Array3 (Some c) (Some d) (Some e)\<rparr> ?cfg lay = Inr ?lay"
    by (simp add: synthesize_def assign_card_Inr_iff circuit_configure_config upt_0_5)
  moreover have "hand (read_row ?cfg (AdviceColumn (num_advice_columns cs + 5))
      (AdviceColumn (num_advice_columns cs + 6)) ?t 0) = Array5 a b c d e"
    by (simp add: read_row_def circuit_configure_config upt_0_5)
  moreover have "row_satisfied ?t 0 (snd (run_state circuit_configure cs)) \<longleftrightarrow>
      row_satisfied ?t 0 cs \<and>
      claims_hold ?cfg (AdviceColumn (num_advice_columns cs + 5))
        (AdviceColumn (num_advice_columns cs + 6)) ?t 0"
    by (simp add: circuit_row_satisfied_iff)
  ultimately show ?thesis
    by blast
qed

theorem synthesized_row_refines_claims_witness:
  "\<exists>lay. synthesize
       \<lparr>circuit_cards = Array2 (Some 9) (Some 1),
        circuit_table_cards = Array3 (Some 1) (Some 1) (Some (1::int))\<rparr>
       (fst (run_state circuit_configure (cs_default :: int constraint_system)))
       (new_layouter 7) = Inr lay \<and>
     row_satisfied (completed_table lay 1 (\<lambda>q r. q = 1) (\<lambda>c r. 0) (\<lambda>c r. 0)) 0
       (snd (run_state circuit_configure cs_default))"
proof -
  let ?circ = "\<lparr>circuit_cards = Array2 (Some 9) (Some 1),
      circuit_table_cards = Array3 (Some 1) (Some 1) (Some (1::int))\<rparr>"
  let ?cfg = "fst (run_state circuit_configure (cs_default :: int constraint_system))"
  let ?t = "\<lambda>lay. completed_table lay 1 (\<lambda>q r. q = 1) (\<lambda>c r. 0) (\<lambda>c r. 0 :: int)"
  have "num_advice_columns (cs_default :: int constraint_system) + 7 \<le>
      declared_columns (new_layouter 7 :: int val layouter)"
    and "list_all (\<lambda>i. table (new_layouter 7 :: int val layouter)
      (num_advice_columns (cs_default :: int constraint_system) + i, 0) = None) [0..<5]"
    by (simp_all add: cs_default_simps new_layouter_def list_all_iff)
  from synthesized_row_refines_claims [OF this, of 9 1 1 1 1 0 "\<lambda>q r. q = 1" "\<lambda>c r. 0"
      "\<lambda>c r. 0"]
  obtain lay where lay: "synthesize ?circ ?cfg (new_layouter 7) = Inr lay"
    and hnd: "hand (read_row example_config (AdviceColumn 5) (AdviceColumn 6) (?t lay) 0) =
      Array5 9 1 1 1 1"
    and sat: "row_satisfied (?t lay) 0 (snd (run_state circuit_configure cs_default)) \<longleftrightarrow>
      claims_hold example_config (AdviceColumn 5) (AdviceColumn 6) (?t lay) 0"
    by (auto simp: cs_default_simps configure_default_config)
  from hnd have "claims_hold example_config (AdviceColumn 5) (AdviceColumn 6) (?t lay) 0"
    by (simp add: claims_hold_example_iff read_row_def cell_def completed_table_def)
  with sat lay show ?thesis
    by blast
qed

section \<open>What the synthesized witness proves on its own\<close>

text \<open>
  C34. \<open>synthesize\<close> enables no selector, and with no selector enabled the table it
  produces satisfies the configured constraint system at every row, for every circuit:
  whatever the five values are, known or not, and whatever the other cells hold.
\<close>

theorem unclaimed_synthesis_accepted:
  fixes circ :: "('f::comm_ring_1) VanillaHoldemCircuit"
  shows "\<exists>lay. synthesize circ (fst (run_state circuit_configure (cs_default :: 'f constraint_system)))
            (new_layouter 7) = Inr lay \<and>
          cs_satisfied (snd (run_state circuit_configure cs_default))
            (completed_table lay n (\<lambda>q r. False) rest inst)"
proof -
  obtain a b c d e where
    circ: "circ = \<lparr>circuit_cards = Array2 a b, circuit_table_cards = Array3 c d e\<rparr>"
    by (rule circuit_cases)
  have "cs_satisfied (snd (run_state circuit_configure cs_default))
          (completed_table lay n (\<lambda>q r. False) rest inst)" for lay :: "'f val layouter"
    by (simp add: cs_satisfied_rows default_row_satisfied_iff claims_hold_example_iff
          completed_table_def)
  then show ?thesis
    unfolding circ using synthesize_default [of a b c d e] by blast
qed

text \<open>
  C35. \<open>synthesize\<close> never writes the two count cells. If they are left at zero, the
  value of an unassigned cell, no claim of one pair, two pair, three of a kind, four of a
  kind or full house is accepted on the synthesized row, whatever the cards are, in
  every field of characteristic other than 2 and 3: such a claim can only be proved
  with count cells the caller writes.
\<close>

theorem count_claims_need_caller:
  fixes circ :: "('f::comm_ring_1) VanillaHoldemCircuit"
  assumes "on 2 0 \<or> on 3 0 \<or> on 4 0 \<or> on 5 0"
    and "(2::'f) \<noteq> 0" and "(3::'f) \<noteq> 0" and "(4::'f) \<noteq> 0"
  shows "\<exists>lay. synthesize circ (fst (run_state circuit_configure (cs_default :: 'f constraint_system)))
            (new_layouter 7) = Inr lay \<and>
          \<not> row_satisfied (completed_table lay (Suc n) on (\<lambda>c r. 0) inst) 0
              (snd (run_state circuit_configure cs_default))"
proof -
  obtain a b c d e where
    circ: "circ = \<lparr>circuit_cards = Array2 a b, circuit_table_cards = Array3 c d e\<rparr>"
    by (rule circuit_cases)
  let ?lay = "\<lparr>declared_columns = 7,
        table = [(0, 0) \<mapsto> a, (1, 0) \<mapsto> b, (2, 0) \<mapsto> c, (3, 0) \<mapsto> d, (4, 0) \<mapsto> e],
        regions = [''hand check'']\<rparr>"
  from assms have "\<not> row_satisfied (completed_table ?lay (Suc n) on (\<lambda>c r. 0) inst) 0
      (snd (run_state circuit_configure cs_default))"
    by (auto simp: default_row_satisfied_iff claims_hold_example_iff completed_table_def)
  then show ?thesis
    unfolding circ using synthesize_default [of a b c d e] by blast
qed

theorem count_claims_need_caller_witness:
  "\<exists>lay. synthesize
       \<lparr>circuit_cards = Array2 (Some 8) (Some 8),
        circuit_table_cards = Array3 (Some 3) (Some 4) (Some (5::int))\<rparr>
       (fst (run_state circuit_configure (cs_default :: int constraint_system)))
       (new_layouter 7) = Inr lay \<and>
     \<not> row_satisfied (completed_table lay 1 (\<lambda>q r. q = 2) (\<lambda>c r. 0) (\<lambda>c r. 0)) 0
         (snd (run_state circuit_configure cs_default))"
  using count_claims_need_caller [of "\<lambda>q r. q = 2"
      "\<lparr>circuit_cards = Array2 (Some 8) (Some 8),
        circuit_table_cards = Array3 (Some 3) (Some 4) (Some (5::int))\<rparr>" 0 "\<lambda>c r. 0"]
  by simp

text \<open>
  C36. The hypotheses on the field are needed. In the integers modulo 3 a claim of three
  of a kind is accepted on the synthesized row with the count cells left at zero, and in
  the integers modulo 2 so are the claims of two pair and of four of a kind, for every
  circuit: the constants 3, 2 and 4 that the gates compare the counts with are zero
  there. The gates tell the counts apart only in a field of characteristic above 3.
\<close>

theorem small_characteristic_accepts_zero_counts:
  fixes c3 :: "3 VanillaHoldemCircuit" and c2 :: "2 VanillaHoldemCircuit"
  shows "(\<exists>lay. synthesize c3 (fst (run_state circuit_configure (cs_default :: 3 constraint_system)))
            (new_layouter 7) = Inr lay \<and>
          row_satisfied (completed_table lay (Suc n) (\<lambda>q r. q = 4) (\<lambda>c r. 0) inst) 0
            (snd (run_state circuit_configure cs_default))) \<and>
         (\<exists>lay. synthesize c2 (fst (run_state circuit_configure (cs_default :: 2 constraint_system)))
            (new_layouter 7) = Inr lay \<and>
          row_satisfied (completed_table lay (Suc n) (\<lambda>q r. q = 3 \<or> q = 5) (\<lambda>c r. 0) inst') 0
            (snd (run_state circuit_configure cs_default)))"
proof -
  obtain a b c d e where
    c3: "c3 = \<lparr>circuit_cards = Array2 a b, circuit_table_cards = Array3 c d e\<rparr>"
    by (rule circuit_cases)
  obtain a' b' c' d' e' where
    c2: "c2 = \<lparr>circuit_cards = Array2 a' b', circuit_table_cards = Array3 c' d' e'\<rparr>"
    by (rule circuit_cases)
  have "row_satisfied (completed_table lay (Suc n) (\<lambda>q r. q = 4) (\<lambda>c r. 0) inst) 0
      (snd (run_state circuit_configure (cs_default :: 3 constraint_system)))"
    if "table lay (6, 0) = None" for lay
    using that by (simp add: default_row_satisfied_iff claims_hold_example_iff completed_table_def)
  moreover have "row_satisfied
      (completed_table lay (Suc n) (\<lambda>q r. q = 3 \<or> q = 5) (\<lambda>c r. 0) inst') 0
      (snd (run_state circuit_configure (cs_default :: 2 constraint_system)))"
    if "table lay (5, 0) = None" "table lay (6, 0) = None" for lay
    using that by (simp add: default_row_satisfied_iff claims_hold_example_iff completed_table_def)
  ultimately show ?thesis
    unfolding c3 c2 using synthesize_default [of a b c d e] synthesize_default [of a' b' c' d' e']
    by simp
qed

section \<open>The circuit on playing cards\<close>

text \<open>What \<open>synthesize\<close> produces for the circuit of a hand.\<close>

lemma synthesize_circuit_of:
  fixes enc :: "playing_card \<Rightarrow> 'f::comm_ring_1"
  shows "synthesize (circuit_of enc (Array5 c0 c1 c2 c3 c4))
     (fst (run_state circuit_configure (cs_default :: 'f constraint_system))) (new_layouter 7) =
   Inr \<lparr>declared_columns = 7,
        table = [(0, 0) \<mapsto> Some (enc c0), (1, 0) \<mapsto> Some (enc c1), (2, 0) \<mapsto> Some (enc c2),
                 (3, 0) \<mapsto> Some (enc c3), (4, 0) \<mapsto> Some (enc c4)],
        regions = [''hand check'']\<rparr>"
  using synthesize_default [of "Some (enc c0)" "Some (enc c1)" "Some (enc c2)" "Some (enc c3)"
      "Some (enc c4)"]
  by (simp add: circuit_of.simps)

text \<open>
  C27. With a caller who writes the counts of the hand itself, the count gates decide
  the categories: in a field where the numbers 0 to 5 are different, a claim of one pair,
  two pair, three of a kind, four of a kind or full house on the row that
  \<open>synthesize\<close> writes for a hand is accepted exactly when the pattern of the hand
  fits the claim. A claim of one pair or of three of a kind is accepted for a full house
  as well: the gates compare each count on its own.
\<close>

theorem honest_count_claim_decided:
  fixes enc :: "playing_card \<Rightarrow> 'f::comm_ring_1"
  assumes "count_category cat" and "inj_on (of_nat :: nat \<Rightarrow> 'f) {..5}"
  shows "\<exists>lay. synthesize (circuit_of enc h)
            (fst (run_state circuit_configure (cs_default :: 'f constraint_system)))
            (new_layouter 7) = Inr lay \<and>
          (cs_satisfied (snd (run_state circuit_configure cs_default))
             (completed_table lay (Suc n)
                (claim_flags
                   (fst (run_state circuit_configure (cs_default :: 'f constraint_system))) cat)
                (honest_counts h) inst) \<longleftrightarrow>
           fits cat (kind_pattern h))"
proof -
  obtain c0 c1 c2 c3 c4 where h: "h = Array5 c0 c1 c2 c3 c4"
    by (cases h)
  let ?lay = "\<lparr>declared_columns = 7,
      table = [(0, 0) \<mapsto> Some (enc c0), (1, 0) \<mapsto> Some (enc c1), (2, 0) \<mapsto> Some (enc c2),
               (3, 0) \<mapsto> Some (enc c3), (4, 0) \<mapsto> Some (enc c4)],
      regions = [''hand check'']\<rparr>"
  have eq: "(of_nat m :: 'f) = of_nat k \<longleftrightarrow> m = k" if "m \<le> 5" and "k \<le> 5" for m k
    using assms(2) that by (simp add: inj_on_eq_iff)
  have counts:
    "(of_nat (pairs h) :: 'f) = 1 \<longleftrightarrow> pairs h = 1"
    "(of_nat (pairs h) :: 'f) = 2 \<longleftrightarrow> pairs h = 2"
    "(of_nat (same_kind h) :: 'f) = 3 \<longleftrightarrow> same_kind h = 3"
    "(of_nat (same_kind h) :: 'f) = 4 \<longleftrightarrow> same_kind h = 4"
    using eq [of "pairs h" 1] eq [of "pairs h" 2] eq [of "same_kind h" 3]
      eq [of "same_kind h" 4] counts_le_5 [of h]
    by simp_all
  from assms(1) have "cs_satisfied (snd (run_state circuit_configure cs_default))
      (completed_table ?lay (Suc n)
         (claim_flags (fst (run_state circuit_configure (cs_default :: 'f constraint_system))) cat)
         (honest_counts h) inst) \<longleftrightarrow>
      fits cat (kind_pattern h)"
    by (cases cat)
       (auto simp: cs_satisfied_rows default_row_satisfied_iff claims_hold_example_iff
          completed_table_def claim_flags_def honest_counts_def configure_default_config
          counts counts_fit [symmetric] simp del: fits.simps)
  then show ?thesis
    unfolding h using synthesize_circuit_of [of enc c0 c1 c2 c3 c4] by blast
qed

theorem honest_count_claim_decided_witness:
  "\<exists>lay. synthesize
       (circuit_of (\<lambda>c. int (4 * rank_of c + suit_index (suit_of c)))
          (Array5 (Card 13 Clubs) (Card 7 Spades) (Card 13 Diamonds) (Card 7 Clubs)
             (Card 13 Hearts)))
       (fst (run_state circuit_configure (cs_default :: int constraint_system)))
       (new_layouter 7) = Inr lay \<and>
     cs_satisfied (snd (run_state circuit_configure cs_default))
       (completed_table lay 1
          (claim_flags (fst (run_state circuit_configure (cs_default :: int constraint_system)))
             OnePair)
          (honest_counts
             (Array5 (Card 13 Clubs) (Card 7 Spades) (Card 13 Diamonds) (Card 7 Clubs)
                (Card 13 Hearts)))
          (\<lambda>c r. 0))"
  using honest_count_claim_decided [where cat = OnePair
      and enc = "\<lambda>c. int (4 * rank_of c + suit_index (suit_of c))"
      and h = "Array5 (Card 13 Clubs) (Card 7 Spades) (Card 13 Diamonds) (Card 7 Clubs)
        (Card 13 Hearts)"
      and n = 0 and inst = "\<lambda>c r. 0"]
  by (simp add: kind_pattern_def ranks_def)

text \<open>
  C11. No hand of five different cards can be proved a straight or a flush. Under an
  encoding that gives the five cards different field elements, the table that
  \<open>circuit_configure\<close> and \<open>synthesize\<close> produce for the hand does not satisfy the
  configured system once the straight or the flush selector is enabled on row 0,
  whatever the caller writes elsewhere: the flush gate asks for five equal cells and the
  straight gate for four. A royal flush is rejected under both claims.
\<close>

theorem straight_and_flush_unprovable:
  fixes enc :: "playing_card \<Rightarrow> 'f::comm_ring_1"
  assumes "inj_on enc (set (list_of5 h))" and "distinct (list_of5 h)"
    and "on 0 0 \<or> on 1 0"
  shows "\<exists>lay. synthesize (circuit_of enc h)
            (fst (run_state circuit_configure (cs_default :: 'f constraint_system)))
            (new_layouter 7) = Inr lay \<and>
          \<not> cs_satisfied (snd (run_state circuit_configure cs_default))
              (completed_table lay (Suc n) on rest inst)"
proof -
  obtain c0 c1 c2 c3 c4 where h: "h = Array5 c0 c1 c2 c3 c4"
    by (cases h)
  let ?lay = "\<lparr>declared_columns = 7,
      table = [(0, 0) \<mapsto> Some (enc c0), (1, 0) \<mapsto> Some (enc c1), (2, 0) \<mapsto> Some (enc c2),
               (3, 0) \<mapsto> Some (enc c3), (4, 0) \<mapsto> Some (enc c4)],
      regions = [''hand check'']\<rparr>"
  from assms(1,2) have "enc c0 \<noteq> enc c1" and "enc c1 \<noteq> enc c2"
    by (auto simp: h dest: inj_onD)
  with assms(3) have "\<not> row_satisfied (completed_table ?lay (Suc n) on rest inst) 0
      (snd (run_state circuit_configure cs_default))"
    by (auto simp: default_row_satisfied_iff claims_hold_example_iff completed_table_def)
  then have "\<not> cs_satisfied (snd (run_state circuit_configure cs_default))
      (completed_table ?lay (Suc n) on rest inst)"
    by (auto simp: cs_satisfied_rows)
  then show ?thesis
    unfolding h using synthesize_circuit_of [of enc c0 c1 c2 c3 c4] by blast
qed

theorem straight_and_flush_unprovable_witness:
  "is_flush (Array5 (Card 10 Spades) (Card 11 Spades) (Card 12 Spades) (Card 13 Spades)
     (Card 14 Spades)) \<and>
   is_straight (Array5 (Card 10 Spades) (Card 11 Spades) (Card 12 Spades) (Card 13 Spades)
     (Card 14 Spades)) \<and>
   (\<exists>lay. synthesize
       (circuit_of (\<lambda>c. int (4 * rank_of c + suit_index (suit_of c)))
          (Array5 (Card 10 Spades) (Card 11 Spades) (Card 12 Spades) (Card 13 Spades)
             (Card 14 Spades)))
       (fst (run_state circuit_configure (cs_default :: int constraint_system)))
       (new_layouter 7) = Inr lay \<and>
     \<not> cs_satisfied (snd (run_state circuit_configure cs_default))
         (completed_table lay 1 (\<lambda>q r. q \<le> 1) (\<lambda>c r. 1) (\<lambda>c r. 0)))"
  using straight_and_flush_unprovable [where on = "\<lambda>q r. q \<le> 1"
      and enc = "\<lambda>c. int (4 * rank_of c + suit_index (suit_of c))"
      and h = "Array5 (Card 10 Spades) (Card 11 Spades) (Card 12 Spades) (Card 13 Spades)
        (Card 14 Spades)"
      and n = 0 and rest = "\<lambda>c r. 1" and inst = "\<lambda>c r. 0"]
    royal_flush
  by simp

text \<open>
  C12. Whatever the hand is and however it is encoded, every claim of one pair, two
  pair, three of a kind, four of a kind or full house is accepted on the table that
  \<open>circuit_configure\<close> and \<open>synthesize\<close> produce, once the caller enables the
  selectors of the claim on row 0 and writes the counts the gates of the claim compare
  the count cells with: the counts are never compared with the cards. A hand of five
  different ranks is accepted as four of a kind.
\<close>

theorem forged_count_claim_accepted:
  fixes enc :: "playing_card \<Rightarrow> 'f::comm_ring_1"
  assumes "count_category cat"
  shows "\<exists>lay. synthesize (circuit_of enc h)
            (fst (run_state circuit_configure (cs_default :: 'f constraint_system)))
            (new_layouter 7) = Inr lay \<and>
          cs_satisfied (snd (run_state circuit_configure cs_default))
            (completed_table lay (Suc n)
               (claim_flags (fst (run_state circuit_configure (cs_default :: 'f constraint_system)))
                  cat)
               (forged_counts cat) inst)"
proof -
  obtain c0 c1 c2 c3 c4 where h: "h = Array5 c0 c1 c2 c3 c4"
    by (cases h)
  let ?lay = "\<lparr>declared_columns = 7,
      table = [(0, 0) \<mapsto> Some (enc c0), (1, 0) \<mapsto> Some (enc c1), (2, 0) \<mapsto> Some (enc c2),
               (3, 0) \<mapsto> Some (enc c3), (4, 0) \<mapsto> Some (enc c4)],
      regions = [''hand check'']\<rparr>"
  from assms have "cs_satisfied (snd (run_state circuit_configure cs_default))
      (completed_table ?lay (Suc n)
         (claim_flags (fst (run_state circuit_configure (cs_default :: 'f constraint_system))) cat)
         (forged_counts cat) inst)"
    by (cases cat)
       (auto simp: cs_satisfied_rows default_row_satisfied_iff claims_hold_example_iff
          completed_table_def claim_flags_def forged_counts_def configure_default_config)
  then show ?thesis
    unfolding h using synthesize_circuit_of [of enc c0 c1 c2 c3 c4] by blast
qed

theorem forged_count_claim_accepted_witness:
  "pairs (Array5 (Card 2 Clubs) (Card 5 Diamonds) (Card 9 Hearts) (Card 11 Spades)
     (Card 13 Clubs)) = 0 \<and>
   same_kind (Array5 (Card 2 Clubs) (Card 5 Diamonds) (Card 9 Hearts) (Card 11 Spades)
     (Card 13 Clubs)) = 1 \<and>
   (\<exists>lay. synthesize
       (circuit_of (\<lambda>c. int (4 * rank_of c + suit_index (suit_of c)))
          (Array5 (Card 2 Clubs) (Card 5 Diamonds) (Card 9 Hearts) (Card 11 Spades)
             (Card 13 Clubs)))
       (fst (run_state circuit_configure (cs_default :: int constraint_system)))
       (new_layouter 7) = Inr lay \<and>
     cs_satisfied (snd (run_state circuit_configure cs_default))
       (completed_table lay 1
          (claim_flags (fst (run_state circuit_configure (cs_default :: int constraint_system)))
             FourOfAKind)
          (forged_counts FourOfAKind) (\<lambda>c r. 0)))"
  using forged_count_claim_accepted [where cat = FourOfAKind
      and enc = "\<lambda>c. int (4 * rank_of c + suit_index (suit_of c))"
      and h = "Array5 (Card 2 Clubs) (Card 5 Diamonds) (Card 9 Hearts) (Card 11 Spades)
        (Card 13 Clubs)"
      and n = 0 and inst = "\<lambda>c r. 0"]
  by (simp add: pairs_def same_kind_def ranks_def)

section \<open>The claims that can be proved\<close>

lemma card_condition_iff:
  "card_condition cat v \<longleftrightarrow>
     (\<exists>np nsk. condition cat \<lparr>hand = v, num_of_pair = np, num_of_same_kind = nsk\<rparr>)"
  by (cases cat; cases v) (auto simp: loop_ranges)

text \<open>
  C21. The claims that can be proved. For the circuit of a hand under any encoding, the
  table that \<open>circuit_configure\<close> and \<open>synthesize\<close> produce can be completed by
  the caller to one that satisfies the configured system under the claim of a category
  exactly when the card values meet the condition of the category with the counts left
  open: for a straight the last four values are 1, for a flush the five values are
  equal, and for one pair, two pair, three of a kind, four of a kind and full house
  there is no condition at all. This is all a proof says about the cards.
\<close>

theorem provable_claims_characterised:
  fixes enc :: "playing_card \<Rightarrow> 'f::comm_ring_1"
  shows "\<exists>lay. synthesize (circuit_of enc h)
            (fst (run_state circuit_configure (cs_default :: 'f constraint_system)))
            (new_layouter 7) = Inr lay \<and>
          ((\<exists>rest. cs_satisfied (snd (run_state circuit_configure cs_default))
             (completed_table lay (Suc n)
                (claim_flags
                   (fst (run_state circuit_configure (cs_default :: 'f constraint_system))) cat)
                rest inst)) \<longleftrightarrow>
           card_condition cat (map_array5 enc h))"
proof -
  obtain c0 c1 c2 c3 c4 where h: "h = Array5 c0 c1 c2 c3 c4"
    by (cases h)
  let ?lay = "\<lparr>declared_columns = 7,
      table = [(0, 0) \<mapsto> Some (enc c0), (1, 0) \<mapsto> Some (enc c1), (2, 0) \<mapsto> Some (enc c2),
               (3, 0) \<mapsto> Some (enc c3), (4, 0) \<mapsto> Some (enc c4)],
      regions = [''hand check'']\<rparr>"
  let ?t = "\<lambda>rest. completed_table ?lay (Suc n)
      (claim_flags (fst (run_state circuit_configure (cs_default :: 'f constraint_system))) cat)
      rest inst"
  have row: "cs_satisfied (snd (run_state circuit_configure cs_default)) (?t rest) \<longleftrightarrow>
      claims_hold example_config (AdviceColumn 5) (AdviceColumn 6) (?t rest) 0" for rest
    by (auto simp: cs_satisfied_rows default_row_satisfied_iff claims_hold_example_iff
          completed_table_def claim_flags_def)
  have sound: "card_condition cat (Array5 (enc c0) (enc c1) (enc c2) (enc c3) (enc c4))"
    if "claims_hold example_config (AdviceColumn 5) (AdviceColumn 6) (?t rest) 0" for rest
    using that
    by (cases cat)
       (simp_all add: claims_hold_example_iff completed_table_def claim_flags_def
          configure_default_config)
  have complete: "claims_hold example_config (AdviceColumn 5) (AdviceColumn 6)
      (?t (forged_counts cat)) 0"
    if "card_condition cat (Array5 (enc c0) (enc c1) (enc c2) (enc c3) (enc c4))"
    using that
    by (cases cat)
       (simp_all add: claims_hold_example_iff completed_table_def claim_flags_def
          forged_counts_def configure_default_config)
  from sound complete have "(\<exists>rest. cs_satisfied (snd (run_state circuit_configure cs_default))
      (?t rest)) \<longleftrightarrow> card_condition cat (map_array5 enc h)"
    unfolding row h by auto
  then show ?thesis
    unfolding h using synthesize_circuit_of [of enc c0 c1 c2 c3 c4] by blast
qed

text \<open>A royal flush cannot be proved a flush, whatever the caller writes.\<close>

theorem provable_claims_characterised_witness:
  "\<exists>lay. synthesize
       (circuit_of (\<lambda>c. int (4 * rank_of c + suit_index (suit_of c)))
          (Array5 (Card 10 Spades) (Card 11 Spades) (Card 12 Spades) (Card 13 Spades)
             (Card 14 Spades)))
       (fst (run_state circuit_configure (cs_default :: int constraint_system)))
       (new_layouter 7) = Inr lay \<and>
     \<not> (\<exists>rest. cs_satisfied (snd (run_state circuit_configure cs_default))
            (completed_table lay 1
               (claim_flags (fst (run_state circuit_configure (cs_default :: int constraint_system)))
                  Flush)
               rest (\<lambda>c r. 0)))"
  using provable_claims_characterised [where cat = Flush
      and enc = "\<lambda>c. int (4 * rank_of c + suit_index (suit_of c))"
      and h = "Array5 (Card 10 Spades) (Card 11 Spades) (Card 12 Spades) (Card 13 Spades)
        (Card 14 Spades)"
      and n = 0 and inst = "\<lambda>c r. 0"]
  by simp



section \<open>Scope of the configured system\<close>

text \<open>
  C18. Scoping. Started on any constraint system that legal calls have built,
  \<open>circuit_configure\<close> yields a system whose gates read allocated selectors and
  columns only: two tables with the same rows that agree on every allocated selector,
  advice column and instance column satisfy the configured system alike, whatever they
  hold elsewhere.
\<close>

theorem configured_system_scoped:
  assumes "reachable cs" and "agree_on (snd (run_state circuit_configure cs)) a b"
  shows "cs_satisfied (snd (run_state circuit_configure cs)) a \<longleftrightarrow>
         cs_satisfied (snd (run_state circuit_configure cs)) b"
proof -
  from assms(1) have "reachable (snd (run_state circuit_configure cs))"
    by (simp add: circuit_configure_perform_all reachable_perform_all calls_ok_circuit_calls)
  then have "cs_wf (snd (run_state circuit_configure cs))"
    by (rule reachable_well_formed)
  then show ?thesis
    using assms(2) by (rule cs_satisfied_agree)
qed

theorem configured_system_scoped_witness:
  "cs_satisfied (snd (run_state circuit_configure cs_default))
     ((one_row [2] [10, 23, 4, 5, 6, 1, 0 :: int])
        \<lparr>selector_on := \<lambda>i r. i = 2 \<or> 6 \<le> i,
         advice_at := \<lambda>c r. if c < 7 then [10, 23, 4, 5, 6, 1, 0] ! c else 99\<rparr>)"
proof -
  let ?a = "one_row [2] [10, 23, 4, 5, 6, 1, 0 :: int]"
  let ?b = "?a\<lparr>selector_on := \<lambda>i r. i = 2 \<or> 6 \<le> i,
         advice_at := \<lambda>c r. if c < 7 then [10, 23, 4, 5, 6, 1, 0] ! c else 99\<rparr>"
  have "agree_on (snd (run_state circuit_configure (cs_default :: int constraint_system))) ?a ?b"
    by (simp add: agree_on_def circuit_configure_counts list_all_iff one_row_def)
       (simp add: cs_default_def)
  moreover have "cs_satisfied (snd (run_state circuit_configure cs_default)) ?a"
    by (simp add: cs_satisfied_rows default_row_satisfied_iff claims_hold_example_iff one_row_def)
  ultimately show ?thesis
    using configured_system_scoped [OF reachable.start] by blast
qed

end
